theory Spec2Isabelle
  imports Complex_Main "HOL-Library.AList"
begin

section \<open>Python values, errors and the strategy object\<close>

text \<open>
  The development embeds \<^verbatim>\<open>openrlhf/utils/deepspeed.py\<close> (class
  \<^verbatim>\<open>DeepspeedStrategy\<close>). Python exceptions are values of \<open>py_error\<close>; a method that
  can raise returns \<open>py_error + 'a\<close>. Numbers that Python holds as floats are
  rationals here. Where a Python number is stored into a \<^verbatim>\<open>float32\<close> tensor the value
  is rounded as the format rounds it; the arithmetic on buffers (a division, a blend,
  the sum of a collective) is the exact one. \<open>NonFinite\<close> is not an exception: it
  stands for a buffer that holds \<^verbatim>\<open>inf\<close> or \<^verbatim>\<open>nan\<close>, after a division by zero or a
  conversion beyond the range of the format, which no rational can hold.
\<close>

datatype py_error =
    AssertionError string
  | ZeroDivisionError
  | IndexError
  | AttributeError string
  | TypeError string
  | RuntimeError string
  | OverflowError string
  | NonFinite

text \<open>
  The attributes \<^verbatim>\<open>__init__\<close> stores, and the two that only
  \<^verbatim>\<open>setup_distributed\<close> creates (\<open>None\<close> until then: reading them earlier is an
  \<^verbatim>\<open>AttributeError\<close>). \<open>time_steps_ema\<close> is \<^verbatim>\<open>self.time_steps["ema"]\<close> of the
  \<^verbatim>\<open>defaultdict(int)\<close>; \<open>local_rank\<close> and \<open>pretrain_data\<close> are the fields of
  \<^verbatim>\<open>self.args\<close> the class reads.
\<close>

record strategy =
  seed :: int
  max_norm :: rat
  micro_train_batch_size :: int
  train_batch_size :: int
  stage :: int
  max_out_tokens :: int
  inference_tp_size :: int
  bf16 :: bool
  adam_offload :: bool
  is_rlhf :: bool
  zpg :: int
  time_steps_ema :: int
  local_rank :: int
  pretrain_data :: "string option"
  world_size :: "nat option"
  accumulated_gradient :: "int option"

text \<open>
  \<^verbatim>\<open>torch.distributed\<close> as one process sees it: its rank, the size of the group, and
  what the other ranks hand to the collective calls. \<open>peer_buffers d k i j\<close> is element
  \<open>j\<close> of the buffer rank \<open>i\<close> passes to the \<open>k\<close>-th collective call the process makes
  (collectives are matched by call order). A collective receives into buffers of the
  caller's own shape (\<^verbatim>\<open>dist.all_reduce\<close> works in place, \<^verbatim>\<open>all_gather\<close> fills
  \<^verbatim>\<open>zeros_like(data)\<close>), so of a peer's buffer only the elements below the caller's own
  length are read.
\<close>

record dist =
  get_rank :: nat
  get_world_size :: nat
  peer_buffers :: "nat \<Rightarrow> nat \<Rightarrow> nat \<Rightarrow> rat"

definition is_rank_0 :: "dist \<Rightarrow> bool" where
  "is_rank_0 d = (get_rank d = 0)"

section \<open>Models and engine configurations\<close>

text \<open>
  A parameter: its full data (flattened), \<^verbatim>\<open>requires_grad\<close>, and whether ZeRO-3 has
  it partitioned away on this process (\<^verbatim>\<open>ds_status == NOT_AVAILABLE\<close>).
\<close>

record param =
  data :: "rat list"
  requires_grad :: bool
  ds_not_available :: bool

text \<open>
  The engine configuration, a \<^verbatim>\<open>dict\<close> in the source: the selections it is built from
  (which of the two builders made it, offload, stage, precision, clipping threshold and
  so on; \<open>None\<close> for a selection the evaluation builder does not take), followed by
  the two entries the strategy stores in it afterwards.
\<close>

record ds_config =
  cfg_for_training :: bool
  cfg_offload :: bool
  cfg_adam_offload :: "bool option"
  cfg_stage :: int
  cfg_bf16 :: bool
  cfg_max_norm :: "rat option"
  cfg_enable_hybrid_engine :: bool
  cfg_pin_parameters :: "bool option"
  cfg_inference_tp_size :: int
  cfg_tp_gather_partition_size :: int
  cfg_max_out_tokens :: int
  cfg_zpg :: "int option"
  cfg_train_micro_batch_size_per_gpu :: "int option"
  cfg_train_batch_size :: "int option"

text \<open>
  Model objects. \<open>Net\<close> is a plain \<^verbatim>\<open>nn.Module\<close>: its named parameters, its named
  buffers, whether an \<^verbatim>\<open>is_ema\<close> attribute is set on it, and, when it is a
  \<^verbatim>\<open>PeftModel\<close>, what \<^verbatim>\<open>merge_and_unload()\<close> returns. \<open>Actor\<close> is
  \<^verbatim>\<open>openrlhf.models.Actor\<close> with its \<^verbatim>\<open>.model\<close> and its own \<^verbatim>\<open>is_ema\<close> attribute;
  \<open>DeepSpeedEngine\<close> is the engine \<^verbatim>\<open>deepspeed.initialize\<close> returns, with the
  configuration it was built from and its \<^verbatim>\<open>.module\<close>.
\<close>

datatype module =
    Net "(string \<times> param) list" "(string \<times> rat list) list" bool "module option"
  | Actor module bool
  | DeepSpeedEngine ds_config module

text \<open>Any object a caller may put into a tuple: a model, or something else (an
  optimizer, a scheduler, \<^verbatim>\<open>None\<close>), known by a handle.\<close>

datatype pyobj = PModule module | PHandle nat

text \<open>One positional argument of \<^verbatim>\<open>prepare\<close>: a tuple of any length, or a model.\<close>

datatype prepare_arg = Tuple "pyobj list" | Model module

text \<open>What \<^verbatim>\<open>prepare\<close> puts into \<^verbatim>\<open>ret\<close> for one argument, and what it returns:
  \<^verbatim>\<open>ret[0] if len(ret) == 1 else ret\<close>.\<close>

datatype prepared = Trained pyobj pyobj pyobj | Evaluated module

datatype prepare_ret = One prepared | Many "prepared list"

text \<open>One call of \<^verbatim>\<open>deepspeed.initialize\<close>: the model, optimizer and scheduler
  handed over (\<open>None\<close> where the keyword is absent) and the configuration.\<close>

record init_call =
  ic_model :: pyobj
  ic_optimizer :: "pyobj option"
  ic_lr_scheduler :: "pyobj option"
  ic_config :: ds_config

section \<open>Rendering a length into a message\<close>

definition digit_char :: "nat \<Rightarrow> char" where
  "digit_char n = ''0123456789'' ! n"

function str_nat :: "nat \<Rightarrow> string" where
  "str_nat n = (if n < 10 then [digit_char n] else str_nat (n div 10) @ [digit_char (n mod 10)])"
  by pat_completeness auto
termination
  by (relation "measure id") auto

declare str_nat.simps [simp del]

text \<open>The f-string of the assertion in \<^verbatim>\<open>prepare\<close>.\<close>

definition tuple_size_message :: "nat \<Rightarrow> string" where
  "tuple_size_message n =
     ''Expect (model, optimizer, scheduler) pair, got a tuple with size '' @
     [CHR 0x22] @ str_nat n @ [CHR 0x22]"

section \<open>prepare\<close>

text \<open>
  Modelled from the spec: \<^verbatim>\<open>get_train_ds_config\<close> and \<^verbatim>\<open>get_eval_ds_config\<close> of
  \<^verbatim>\<open>deepspeed_utils\<close>, which is not part of the file. They build the configuration
  that selects the partition stage, the offload policy, the precision and the
  gradient-clipping threshold; the configuration is kept as the keyword arguments they
  are called with, in the order of the call.
\<close>

definition get_train_ds_config ::
  "bool \<Rightarrow> bool \<Rightarrow> int \<Rightarrow> bool \<Rightarrow> rat \<Rightarrow> bool \<Rightarrow> bool \<Rightarrow> int \<Rightarrow> int \<Rightarrow> int \<Rightarrow> int \<Rightarrow> ds_config" where
  "get_train_ds_config offload adam_off stg bf mx hybrid pin tp gather_sz out_tok zp =
     \<lparr> cfg_for_training = True, cfg_offload = offload, cfg_adam_offload = Some adam_off,
       cfg_stage = stg, cfg_bf16 = bf, cfg_max_norm = Some mx,
       cfg_enable_hybrid_engine = hybrid, cfg_pin_parameters = Some pin,
       cfg_inference_tp_size = tp, cfg_tp_gather_partition_size = gather_sz,
       cfg_max_out_tokens = out_tok, cfg_zpg = Some zp,
       cfg_train_micro_batch_size_per_gpu = None, cfg_train_batch_size = None \<rparr>"

definition get_eval_ds_config ::
  "bool \<Rightarrow> int \<Rightarrow> bool \<Rightarrow> bool \<Rightarrow> int \<Rightarrow> int \<Rightarrow> int \<Rightarrow> ds_config" where
  "get_eval_ds_config offload stg bf hybrid tp gather_sz out_tok =
     \<lparr> cfg_for_training = False, cfg_offload = offload, cfg_adam_offload = None,
       cfg_stage = stg, cfg_bf16 = bf, cfg_max_norm = None,
       cfg_enable_hybrid_engine = hybrid, cfg_pin_parameters = None,
       cfg_inference_tp_size = tp, cfg_tp_gather_partition_size = gather_sz,
       cfg_max_out_tokens = out_tok, cfg_zpg = None,
       cfg_train_micro_batch_size_per_gpu = None, cfg_train_batch_size = None \<rparr>"

text \<open>\<^verbatim>\<open>isinstance(model, Actor)\<close>.\<close>

fun isinstance_Actor :: "pyobj \<Rightarrow> bool" where
  "isinstance_Actor (PModule (Actor m ema)) = True"
| "isinstance_Actor _ = False"

text \<open>\<^verbatim>\<open>getattr(model, "is_ema", None)\<close>, read for its truth value. The engine
  forwards attribute reads to its module.\<close>

fun getattr_is_ema :: "module \<Rightarrow> bool" where
  "getattr_is_ema (Net ps bs ema pm) = ema"
| "getattr_is_ema (Actor m ema) = ema"
| "getattr_is_ema (DeepSpeedEngine c m) = getattr_is_ema m"

text \<open>
  \<^verbatim>\<open>deepspeed.initialize\<close> is the external engine: given a model it returns the engine
  that wraps it; given anything else it raises. The optimizer and the scheduler come
  back as the engine's own objects, kept here under the handles they went in with.
\<close>

definition deepspeed_initialize :: "pyobj \<Rightarrow> ds_config \<Rightarrow> py_error + module" where
  "deepspeed_initialize mdl cfg =
     (case mdl of
        PModule m \<Rightarrow> Inr (DeepSpeedEngine cfg m)
      | PHandle h \<Rightarrow> Inl (RuntimeError ''deepspeed.initialize requires a model''))"

text \<open>\<^verbatim>\<open>model.model if is_actor else model\<close>.\<close>

fun engine_input :: "pyobj \<Rightarrow> pyobj" where
  "engine_input (PModule (Actor m ema)) = PModule m"
| "engine_input x = x"

text \<open>\<^verbatim>\<open>if is_actor: model.model = engine else: model = engine\<close>.\<close>

fun engine_output :: "pyobj \<Rightarrow> module \<Rightarrow> module" where
  "engine_output (PModule (Actor m ema)) engine = Actor engine ema"
| "engine_output x engine = engine"

definition train_config :: "strategy \<Rightarrow> pyobj \<Rightarrow> ds_config" where
  "train_config s mdl =
     (let is_actor = isinstance_Actor mdl;
          stg = stage s;
          cfg = get_train_ds_config False (adam_offload s) stg (bf16 s) (max_norm s)
                  (is_actor \<and> inference_tp_size s > 1 \<and> stg = 3) True
                  (inference_tp_size s) 4 (max_out_tokens s) (zpg s);
          cfg = cfg\<lparr>cfg_train_micro_batch_size_per_gpu := Some (micro_train_batch_size s)\<rparr>;
          tbs = train_batch_size s;
          tbs = (if is_rlhf s \<and> is_actor \<and> pretrain_data s \<noteq> None then tbs * 2 else tbs)
      in cfg\<lparr>cfg_train_batch_size := Some tbs\<rparr>)"

text \<open>\<^verbatim>\<open>ds_init_train_model\<close>: the call it makes to the engine, and what it returns
  (or the engine's error).\<close>

definition ds_init_train_model ::
  "strategy \<Rightarrow> pyobj \<Rightarrow> pyobj \<Rightarrow> pyobj \<Rightarrow> init_call \<times> (py_error + prepared)" where
  "ds_init_train_model s mdl optim scheduler =
     (let cfg = train_config s mdl;
          call = \<lparr> ic_model = engine_input mdl, ic_optimizer = Some optim,
                   ic_lr_scheduler = Some scheduler, ic_config = cfg \<rparr>
      in (call,
          case deepspeed_initialize (engine_input mdl) cfg of
            Inl e \<Rightarrow> Inl e
          | Inr engine \<Rightarrow> Inr (Trained (PModule (engine_output mdl engine)) optim scheduler)))"

definition eval_config :: "strategy \<Rightarrow> module \<Rightarrow> ds_config" where
  "eval_config s mdl =
     (let is_actor = isinstance_Actor (PModule mdl);
          stg = stage s;
          offload = False;
          stg = (if stg \<noteq> 3 then 0 else stg);
          (offload, stg) = (if getattr_is_ema mdl then (True, 0) else (offload, stg));
          cfg = get_eval_ds_config offload stg (bf16 s)
                  (is_actor \<and> inference_tp_size s > 1 \<and> stg = 3)
                  (inference_tp_size s) (inference_tp_size s) (max_out_tokens s);
          cfg = cfg\<lparr>cfg_train_micro_batch_size_per_gpu := Some (micro_train_batch_size s)\<rparr>
      in cfg\<lparr>cfg_train_batch_size := Some (train_batch_size s)\<rparr>)"

definition ds_init_eval_model :: "strategy \<Rightarrow> module \<Rightarrow> init_call \<times> (py_error + prepared)" where
  "ds_init_eval_model s mdl =
     (let cfg = eval_config s mdl;
          call = \<lparr> ic_model = engine_input (PModule mdl), ic_optimizer = None,
                   ic_lr_scheduler = None, ic_config = cfg \<rparr>
      in (call,
          case deepspeed_initialize (engine_input (PModule mdl)) cfg of
            Inl e \<Rightarrow> Inl e
          | Inr engine \<Rightarrow> Inr (Evaluated (engine_output (PModule mdl) engine))))"

text \<open>
  The loop of \<^verbatim>\<open>prepare\<close> over its arguments, in order. It returns the
  \<^verbatim>\<open>deepspeed.initialize\<close> calls made so far, in order, and either the list \<^verbatim>\<open>ret\<close> or
  the exception that ended the loop. \<open>acc\<close> and \<open>calls\<close> hold what the earlier
  iterations appended.
\<close>

fun prepare_loop ::
  "strategy \<Rightarrow> prepare_arg list \<Rightarrow> prepared list \<Rightarrow> init_call list
     \<Rightarrow> init_call list \<times> (py_error + prepared list)" where
  "prepare_loop s [] acc calls = (calls, Inr acc)"
| "prepare_loop s (Tuple objs # rest) acc calls =
     (case objs of
        [mdl, optim, scheduler] \<Rightarrow>
          (case ds_init_train_model s mdl optim scheduler of
             (call, Inl e) \<Rightarrow> (calls @ [call], Inl e)
           | (call, Inr r) \<Rightarrow> prepare_loop s rest (acc @ [r]) (calls @ [call]))
      | _ \<Rightarrow> (calls, Inl (AssertionError (tuple_size_message (length objs)))))"
| "prepare_loop s (Model mdl # rest) acc calls =
     (case ds_init_eval_model s mdl of
        (call, Inl e) \<Rightarrow> (calls @ [call], Inl e)
      | (call, Inr r) \<Rightarrow> prepare_loop s rest (acc @ [r]) (calls @ [call]))"

text \<open>\<^verbatim>\<open>prepare(*models_or_model_optim_pairs, is_rlhf)\<close>: the strategy with
  \<^verbatim>\<open>self.is_rlhf\<close> stored, the engine calls made, and the value returned or the
  exception raised.\<close>

definition prepare ::
  "strategy \<Rightarrow> prepare_arg list \<Rightarrow> bool \<Rightarrow> strategy \<times> init_call list \<times> (py_error + prepare_ret)" where
  "prepare s args rlhf =
     (let s' = s\<lparr>is_rlhf := rlhf\<rparr>;
          (calls, r) = prepare_loop s' args [] []
      in (s', calls,
          case r of
            Inl e \<Rightarrow> Inl e
          | Inr ret \<Rightarrow> Inr (case ret of [x] \<Rightarrow> One x | _ \<Rightarrow> Many ret)))"

section \<open>setup_distributed and moving_average\<close>

text \<open>
  \<^verbatim>\<open>setup_distributed\<close>, as far as the strategy's own attributes go:
  \<^verbatim>\<open>self.world_size = dist.get_world_size()\<close> and
  \<^verbatim>\<open>self.accumulated_gradient = train_batch_size // micro_train_batch_size // world_size\<close>.
  Python's \<^verbatim>\<open>//\<close> on integers is floor division, which \<open>div\<close> on \<open>int\<close> is, and it
  raises on a zero divisor.
\<close>

definition setup_distributed :: "strategy \<Rightarrow> dist \<Rightarrow> py_error + strategy" where
  "setup_distributed s d =
     (let ws = get_world_size d in
      if micro_train_batch_size s = 0 \<or> ws = 0 then Inl ZeroDivisionError
      else Inr (s\<lparr> world_size := Some ws,
                   accumulated_gradient :=
                     Some (train_batch_size s div micro_train_batch_size s div int ws) \<rparr>))"

text \<open>
  Modelled from the spec: \<^verbatim>\<open>_z3_params_to_fetch\<close> of \<^verbatim>\<open>deepspeed_utils\<close>, which is not
  part of the file: of a list of parameter handles, those not yet materialized on the
  current process.
\<close>

definition z3_params_to_fetch :: "param list \<Rightarrow> param list" where
  "z3_params_to_fetch ps = filter ds_not_available ps"

text \<open>One \<^verbatim>\<open>with deepspeed.zero.GatheredParameters(params, enabled=...)\<close> scope.\<close>

record gather_call =
  gc_params :: "param list"
  gc_enabled :: bool

definition GatheredParameters :: "param list \<Rightarrow> gather_call" where
  "GatheredParameters fetch = \<lparr> gc_params = fetch, gc_enabled = (length fetch > 0) \<rparr>"

text \<open>
  \<^verbatim>\<open>param_ema.data.copy_((1 - beta) * data + beta * param_ema.data)\<close>, element by
  element. Buffers of different sizes are taken to fail (broadcasting is left out).
\<close>

definition ema_copy :: "rat \<Rightarrow> param \<Rightarrow> param \<Rightarrow> py_error + param" where
  "ema_copy beta p p_ema =
     (if length (data p) = length (data p_ema)
      then Inr (p_ema\<lparr>data := map2 (\<lambda>x e. (1 - beta) * x + beta * e) (data p) (data p_ema)\<rparr>)
      else Inl (RuntimeError ''The size of tensor a must match the size of tensor b''))"

text \<open>
  The loop over \<^verbatim>\<open>zip(model.parameters(), model_ema.parameters())\<close>: the shadow
  parameters of the zipped pairs after the loop, and the gather scopes entered. A
  scope changes where the data resides, not the data: what is written inside it is
  taken to stay. \<^verbatim>\<open>param.data.to(device)\<close> moves the data and leaves the numbers.
\<close>

fun ema_loop ::
  "strategy \<Rightarrow> rat \<Rightarrow> (param \<times> param) list \<Rightarrow> py_error + (param list \<times> gather_call list)" where
  "ema_loop s beta [] = Inr ([], [])"
| "ema_loop s beta ((p, p_ema) # rest) =
     (if requires_grad p then
        (if stage s \<noteq> 3 then
           (case ema_copy beta p p_ema of
              Inl e \<Rightarrow> Inl e
            | Inr p' \<Rightarrow>
                (case ema_loop s beta rest of
                   Inl e \<Rightarrow> Inl e
                 | Inr (upd, gathers) \<Rightarrow> Inr (p' # upd, gathers)))
         else
           (let params_to_fetch = z3_params_to_fetch [p, p_ema];
                scope = GatheredParameters params_to_fetch
            in case ema_copy beta p p_ema of
                 Inl e \<Rightarrow> Inl e
               | Inr p' \<Rightarrow>
                   (case ema_loop s beta rest of
                      Inl e \<Rightarrow> Inl e
                    | Inr (upd, gathers) \<Rightarrow> Inr (p' # upd, scope # gathers))))
      else
        (case ema_loop s beta rest of
           Inl e \<Rightarrow> Inl e
         | Inr (upd, gathers) \<Rightarrow> Inr (p_ema # upd, gathers)))"

text \<open>
  \<^verbatim>\<open>moving_average(model, model_ema, beta)\<close> on the two parameter lists. It returns the
  strategy with the counter advanced, the shadow parameters and the gather scopes
  entered, or the exception. Python's \<^verbatim>\<open>%\<close> on integers takes the sign of the divisor,
  as \<open>mod\<close> on \<open>int\<close> does, and raises on zero.
\<close>

definition moving_average ::
  "strategy \<Rightarrow> param list \<Rightarrow> param list \<Rightarrow> rat
     \<Rightarrow> py_error + (strategy \<times> param list \<times> gather_call list)" where
  "moving_average s ps ps_ema beta =
     (let s' = s\<lparr>time_steps_ema := time_steps_ema s + 1\<rparr> in
      case accumulated_gradient s' of
        None \<Rightarrow> Inl (AttributeError ''accumulated_gradient'')
      | Some acc \<Rightarrow>
          if acc = 0 then Inl ZeroDivisionError
          else if time_steps_ema s' mod acc = 0 then
            (case ema_loop s' beta (zip ps ps_ema) of
               Inl e \<Rightarrow> Inl e
             | Inr (upd, gathers) \<Rightarrow> Inr (s', upd @ drop (length upd) ps_ema, gathers))
          else Inr (s', ps_ema, []))"

text \<open>\<open>n\<close> successive calls with the same live parameters and the same \<open>beta\<close>.\<close>

fun moving_average_calls ::
  "nat \<Rightarrow> strategy \<Rightarrow> param list \<Rightarrow> param list \<Rightarrow> rat \<Rightarrow> py_error + (strategy \<times> param list)" where
  "moving_average_calls 0 s ps ps_ema beta = Inr (s, ps_ema)"
| "moving_average_calls (Suc n) s ps ps_ema beta =
     (case moving_average s ps ps_ema beta of
        Inl e \<Rightarrow> Inl e
      | Inr (s', ps_ema', gathers) \<Rightarrow> moving_average_calls n s' ps ps_ema' beta)"

section \<open>all_reduce and all_gather\<close>

datatype device = Cpu | Cuda

text \<open>
  The element type of a tensor, as far as the two methods tell one from another: a
  floating-point type, or an integer type (\<^verbatim>\<open>bool\<close> included), for which the in-place
  true division \<^verbatim>\<open>data /= self.world_size\<close> is refused.
\<close>

datatype dtype = Floating | Integral

text \<open>
  What the two methods take and return: a Python \<^verbatim>\<open>int\<close>, a Python \<^verbatim>\<open>float\<close> (its
  value), a tensor (its device, its element type, its number of dimensions and its
  elements in row-major order) or a \<^verbatim>\<open>dict\<close> of such values, in insertion order.
\<close>

datatype pydata =
    PyInt int
  | PyFloat rat
  | Tensor device dtype nat "rat list"
  | Dict "(string \<times> pydata) list"

subsection \<open>Rounding to a binary floating-point format\<close>

text \<open>
  \<^verbatim>\<open>torch.Tensor([data])\<close> stores a Python number as one \<^verbatim>\<open>float32\<close> element. The
  value is rounded to the nearest number of the format, ties to the even significand
  (IEEE 754). \<open>bit_length\<close> is Python's \<^verbatim>\<open>int.bit_length\<close>, \<open>ilog2 x\<close> the exponent \<open>e\<close>
  with \<open>2 ^ e \<le> x < 2 ^ (e + 1)\<close> for a positive \<open>x\<close>. \<open>fp_round p emin\<close> rounds to \<open>p\<close>
  significant bits with least exponent \<open>emin\<close> (below it the numbers are subnormal) and
  no greatest exponent: the callers compare the result with the bound of the format.
\<close>

fun bit_length :: "nat \<Rightarrow> nat" where
  "bit_length n = (if n = 0 then 0 else Suc (bit_length (n div 2)))"

declare bit_length.simps [simp del]

definition pow2 :: "int \<Rightarrow> rat" where
  "pow2 e = (if 0 \<le> e then 2 ^ nat e else 1 / 2 ^ nat (- e))"

definition ilog2 :: "rat \<Rightarrow> int" where
  "ilog2 x =
     (if 1 \<le> x then int (bit_length (nat \<lfloor>x\<rfloor>)) - 1
      else - int (bit_length (nat (\<lceil>1 / x\<rceil> - 1))))"

definition round_half_even :: "rat \<Rightarrow> int" where
  "round_half_even y =
     (let f = \<lfloor>y\<rfloor>; r = y - of_int f
      in if r < 1 / 2 then f else if 1 / 2 < r then f + 1 else if even f then f else f + 1)"

definition fp_round :: "nat \<Rightarrow> int \<Rightarrow> rat \<Rightarrow> rat" where
  "fp_round p emin x =
     (if x = 0 then 0
      else (let e = max (ilog2 \<bar>x\<bar>) emin;
                q = pow2 (e - int p + 1)
            in of_int (round_half_even (x / q)) * q))"

text \<open>binary64, the format of a Python \<^verbatim>\<open>float\<close>, and binary32, \<^verbatim>\<open>torch.float32\<close>.\<close>

definition float64 :: "rat \<Rightarrow> rat" where
  "float64 x = fp_round 53 (- 1022) x"

definition float32 :: "rat \<Rightarrow> rat" where
  "float32 x = fp_round 24 (- 126) x"

text \<open>
  A Python \<^verbatim>\<open>int\<close> is first made a C \<^verbatim>\<open>double\<close> (\<^verbatim>\<open>PyFloat_AsDouble\<close>): rounded to
  binary64, an \<^verbatim>\<open>OverflowError\<close> when that is beyond the format. The \<^verbatim>\<open>double\<close> is then
  cast to \<^verbatim>\<open>float\<close>: rounded to binary32, \<^verbatim>\<open>inf\<close> when that is beyond the format, which
  no rational can hold (\<open>NonFinite\<close>).
\<close>

definition int_as_double :: "int \<Rightarrow> py_error + rat" where
  "int_as_double n =
     (let y = float64 (of_int n)
      in if \<bar>y\<bar> < pow2 1024 then Inr y
         else Inl (OverflowError ''int too large to convert to float''))"

definition double_as_float32 :: "rat \<Rightarrow> py_error + rat" where
  "double_as_float32 x =
     (let y = float32 x
      in if \<bar>y\<bar> < pow2 128 then Inr y else Inl NonFinite)"

subsection \<open>The two methods\<close>

text \<open>
  \<^verbatim>\<open>is_tensor\<close> and the buffer the collective works on: a tensor as it is, a number
  as \<^verbatim>\<open>torch.Tensor([data])\<close>, a \<^verbatim>\<open>float32\<close> tensor of one dimension and one element
  on the CPU. A \<^verbatim>\<open>dict\<close> never gets here (it is taken apart before); \<^verbatim>\<open>torch.Tensor\<close>
  would refuse it.
\<close>

fun as_tensor :: "pydata \<Rightarrow> py_error + (bool \<times> device \<times> dtype \<times> nat \<times> rat list)" where
  "as_tensor (Tensor dev dt nd xs) = Inr (True, dev, dt, nd, xs)"
| "as_tensor (PyInt n) =
     (case int_as_double n of
        Inl e \<Rightarrow> Inl e
      | Inr x \<Rightarrow>
          (case double_as_float32 x of
             Inl e \<Rightarrow> Inl e
           | Inr y \<Rightarrow> Inr (False, Cpu, Floating, 1, [y])))"
| "as_tensor (PyFloat x) =
     (case double_as_float32 x of
        Inl e \<Rightarrow> Inl e
      | Inr y \<Rightarrow> Inr (False, Cpu, Floating, 1, [y]))"
| "as_tensor (Dict kvs) = Inl (TypeError ''must be real number, not dict'')"

text \<open>The ranks other than the caller's, in rank order.\<close>

definition other_ranks :: "dist \<Rightarrow> nat list" where
  "other_ranks d = filter (\<lambda>i. i \<noteq> get_rank d) [0..<get_world_size d]"

text \<open>What rank \<open>i\<close> hands to the caller's \<open>k\<close>-th collective, in the caller's shape.\<close>

definition received :: "dist \<Rightarrow> nat \<Rightarrow> nat \<Rightarrow> nat \<Rightarrow> rat list" where
  "received d k n i = map (peer_buffers d k i) [0..<n]"

text \<open>\<^verbatim>\<open>dist.all_reduce(data, op)\<close> with \<^verbatim>\<open>ReduceOp.MAX\<close> (\<open>True\<close>) or
  \<^verbatim>\<open>ReduceOp.SUM\<close>: the caller's buffer combined, element by element, with every other
  rank's. The sum is the exact one: in which order the backend adds, and so how it
  rounds, is not fixed by the source.\<close>

definition dist_all_reduce :: "dist \<Rightarrow> nat \<Rightarrow> bool \<Rightarrow> rat list \<Rightarrow> rat list" where
  "dist_all_reduce d k use_max buf =
     fold (\<lambda>i acc. map2 (if use_max then max else (+)) acc (received d k (length buf) i))
          (other_ranks d) buf"

text \<open>\<^verbatim>\<open>dist.all_gather(ret, data)\<close>: \<^verbatim>\<open>ret[i]\<close> becomes the buffer of rank \<open>i\<close>. The
  list must have one entry per rank of the group.\<close>

definition dist_all_gather :: "dist \<Rightarrow> nat \<Rightarrow> nat \<Rightarrow> rat list \<Rightarrow> py_error + rat list list" where
  "dist_all_gather d k n buf =
     (if n \<noteq> get_world_size d
      then Inl (RuntimeError ''all_gather: output list size does not match the group'')
      else Inr (map (\<lambda>i. if i = get_rank d then buf else received d k (length buf) i) [0..<n]))"

text \<open>\<^verbatim>\<open>torch.cat(ret)\<close> of tensors of one shape with \<open>nd\<close> dimensions, along dimension
  0: in row-major order the elements of the result are those of the tensors one after
  the other. An empty list and tensors of no dimension are refused.\<close>

definition torch_cat :: "nat \<Rightarrow> rat list list \<Rightarrow> py_error + rat list" where
  "torch_cat nd ret =
     (if ret = [] then Inl (RuntimeError ''torch.cat(): expected a non-empty list of Tensors'')
      else if nd = 0
      then Inl (RuntimeError ''zero-dimensional tensor (at position 0) cannot be concatenated'')
      else Inr (concat ret))"

text \<open>\<^verbatim>\<open>data.item()\<close>: the Python float of a one-element tensor.\<close>

definition item :: "rat list \<Rightarrow> py_error + rat" where
  "item buf =
     (case buf of
        [x] \<Rightarrow> Inr x
      | _ \<Rightarrow> Inl (RuntimeError ''a Tensor with several elements cannot be converted to Scalar''))"

text \<open>The non-\<^verbatim>\<open>dict\<close> branch of \<^verbatim>\<open>all_reduce\<close>; \<open>k\<close> counts the collective calls the
  process has made. A CPU tensor goes to the accelerator for the collective and comes
  back, so the result is on the device of the input. \<^verbatim>\<open>data /= self.world_size\<close> reads
  the attribute, then refuses a tensor of integers, then divides: exactly here (the
  rounding of the quotient depends on the floating-point type of the tensor, which
  the model does not keep), with \<open>NonFinite\<close> for the \<^verbatim>\<open>inf\<close> or \<^verbatim>\<open>nan\<close> of a division
  by zero. That a tensor already on the accelerator is changed in place is not
  modelled: the result is a new value.\<close>

definition all_reduce_leaf :: "strategy \<Rightarrow> dist \<Rightarrow> string \<Rightarrow> pydata \<Rightarrow> nat \<Rightarrow> py_error + pydata" where
  "all_reduce_leaf s d opr v k =
     (case as_tensor v of
        Inl e \<Rightarrow> Inl e
      | Inr (is_tensor, dev, dt, nd, buf) \<Rightarrow>
          (let is_cpu_tensor = (dev = Cpu)
           in case (if opr = ''mean''
                    then (case world_size s of
                            None \<Rightarrow> Inl (AttributeError ''world_size'')
                          | Some ws \<Rightarrow>
                              if dt = Integral
                              then Inl (RuntimeError
                                     ''result type Float cannot be cast to the desired output type'')
                              else if ws = 0 \<and> buf \<noteq> [] then Inl NonFinite
                              else Inr (map (\<lambda>x. x / of_nat ws) buf))
                    else Inr buf) of
                Inl e \<Rightarrow> Inl e
              | Inr buf \<Rightarrow>
                  (let buf = dist_all_reduce d k (opr = ''max'') buf;
                       dev = (if is_cpu_tensor then Cpu else Cuda)
                   in if is_tensor then Inr (Tensor dev dt nd buf)
                      else map_sum id PyFloat (item buf))))"

fun all_reduce :: "strategy \<Rightarrow> dist \<Rightarrow> string \<Rightarrow> pydata \<Rightarrow> nat \<Rightarrow> py_error + (pydata \<times> nat)"
  and all_reduce_items ::
    "strategy \<Rightarrow> dist \<Rightarrow> string \<Rightarrow> (string \<times> pydata) list \<Rightarrow> nat
       \<Rightarrow> py_error + ((string \<times> pydata) list \<times> nat)" where
  "all_reduce s d opr (Dict kvs) k =
     (if opr \<notin> {''mean'', ''max'', ''sum''} then Inl (AssertionError [])
      else case all_reduce_items s d opr kvs k of
             Inl e \<Rightarrow> Inl e
           | Inr (ret, k') \<Rightarrow> Inr (Dict ret, k'))"
| "all_reduce s d opr (PyInt n) k =
     (if opr \<notin> {''mean'', ''max'', ''sum''} then Inl (AssertionError [])
      else map_sum id (\<lambda>r. (r, Suc k)) (all_reduce_leaf s d opr (PyInt n) k))"
| "all_reduce s d opr (PyFloat x) k =
     (if opr \<notin> {''mean'', ''max'', ''sum''} then Inl (AssertionError [])
      else map_sum id (\<lambda>r. (r, Suc k)) (all_reduce_leaf s d opr (PyFloat x) k))"
| "all_reduce s d opr (Tensor dev dt nd xs) k =
     (if opr \<notin> {''mean'', ''max'', ''sum''} then Inl (AssertionError [])
      else map_sum id (\<lambda>r. (r, Suc k)) (all_reduce_leaf s d opr (Tensor dev dt nd xs) k))"
| "all_reduce_items s d opr [] k = Inr ([], k)"
| "all_reduce_items s d opr ((key, v) # rest) k =
     (case all_reduce s d opr v k of
        Inl e \<Rightarrow> Inl e
      | Inr (r, k') \<Rightarrow>
          (case all_reduce_items s d opr rest k' of
             Inl e \<Rightarrow> Inl e
           | Inr (ret, k'') \<Rightarrow> Inr ((key, r) # ret, k'')))"

text \<open>The non-\<^verbatim>\<open>dict\<close> branch of \<^verbatim>\<open>all_gather\<close>: \<^verbatim>\<open>torch.cat\<close> of the gathered
  buffers, back on the CPU when the input was there.\<close>

definition all_gather_leaf :: "strategy \<Rightarrow> dist \<Rightarrow> pydata \<Rightarrow> nat \<Rightarrow> py_error + pydata" where
  "all_gather_leaf s d v k =
     (case as_tensor v of
        Inl e \<Rightarrow> Inl e
      | Inr (is_tensor, dev, dt, nd, buf) \<Rightarrow>
          (let is_cpu_tensor = (dev = Cpu)
           in case world_size s of
                None \<Rightarrow> Inl (AttributeError ''world_size'')
              | Some ws \<Rightarrow>
                  (case dist_all_gather d k ws buf of
                     Inl e \<Rightarrow> Inl e
                   | Inr ret \<Rightarrow>
                       (case torch_cat nd ret of
                          Inl e \<Rightarrow> Inl e
                        | Inr cat \<Rightarrow>
                            Inr (Tensor (if is_cpu_tensor then Cpu else Cuda) dt nd cat)))))"

fun all_gather :: "strategy \<Rightarrow> dist \<Rightarrow> pydata \<Rightarrow> nat \<Rightarrow> py_error + (pydata \<times> nat)"
  and all_gather_items ::
    "strategy \<Rightarrow> dist \<Rightarrow> (string \<times> pydata) list \<Rightarrow> nat
       \<Rightarrow> py_error + ((string \<times> pydata) list \<times> nat)" where
  "all_gather s d (Dict kvs) k =
     (case all_gather_items s d kvs k of
        Inl e \<Rightarrow> Inl e
      | Inr (ret, k') \<Rightarrow> Inr (Dict ret, k'))"
| "all_gather s d (PyInt n) k = map_sum id (\<lambda>r. (r, Suc k)) (all_gather_leaf s d (PyInt n) k)"
| "all_gather s d (PyFloat x) k = map_sum id (\<lambda>r. (r, Suc k)) (all_gather_leaf s d (PyFloat x) k)"
| "all_gather s d (Tensor dev dt nd xs) k =
     map_sum id (\<lambda>r. (r, Suc k)) (all_gather_leaf s d (Tensor dev dt nd xs) k)"
| "all_gather_items s d [] k = Inr ([], k)"
| "all_gather_items s d ((key, v) # rest) k =
     (case all_gather s d v k of
        Inl e \<Rightarrow> Inl e
      | Inr (r, k') \<Rightarrow>
          (case all_gather_items s d rest k' of
             Inl e \<Rightarrow> Inl e
           | Inr (ret, k'') \<Rightarrow> Inr ((key, r) # ret, k'')))"

text \<open>The keys of a \<^verbatim>\<open>dict\<close> (none for a leaf), and Python's \<^verbatim>\<open>==\<close> on the values:
  an \<^verbatim>\<open>int\<close> and a \<^verbatim>\<open>float\<close> are equal when they are the same number; two tensors are
  taken as equal when they agree in device, element type, dimensions and every
  element. Two \<^verbatim>\<open>dict\<close>s are compared key by key in their order, which is more than
  \<^verbatim>\<open>==\<close> asks.\<close>

fun dict_keys :: "pydata \<Rightarrow> string list" where
  "dict_keys (Dict kvs) = map fst kvs"
| "dict_keys _ = []"

fun py_eq :: "pydata \<Rightarrow> pydata \<Rightarrow> bool"
  and py_eq_items :: "(string \<times> pydata) list \<Rightarrow> (string \<times> pydata) list \<Rightarrow> bool" where
  "py_eq (PyInt m) (PyInt n) = (m = n)"
| "py_eq (PyInt m) (PyFloat y) = (of_int m = y)"
| "py_eq (PyFloat x) (PyInt n) = (x = of_int n)"
| "py_eq (PyFloat x) (PyFloat y) = (x = y)"
| "py_eq (Tensor dev dt nd xs) (Tensor dev' dt' nd' ys) =
     (dev = dev' \<and> dt = dt' \<and> nd = nd' \<and> xs = ys)"
| "py_eq (Dict kvs) (Dict kvs') = py_eq_items kvs kvs'"
| "py_eq _ _ = False"
| "py_eq_items [] [] = True"
| "py_eq_items ((k, v) # rest) ((k', v') # rest') = (k = k' \<and> py_eq v v' \<and> py_eq_items rest rest')"
| "py_eq_items _ _ = False"


text \<open>The number of leaves of a value: the number of collective calls a traversal
  makes.\<close>

fun count_leaves :: "pydata \<Rightarrow> nat"
  and count_leaves_items :: "(string \<times> pydata) list \<Rightarrow> nat" where
  "count_leaves (Dict kvs) = count_leaves_items kvs"
| "count_leaves (PyInt n) = 1"
| "count_leaves (PyFloat x) = 1"
| "count_leaves (Tensor dev dt nd xs) = 1"
| "count_leaves_items [] = 0"
| "count_leaves_items ((key, v) # rest) = count_leaves v + count_leaves_items rest"

subsection \<open>What the description asks of a reduced value\<close>

text \<open>
  The description of \<^verbatim>\<open>all_reduce\<close> in its own words, to be compared with the method:
  every leaf is reduced on its own, element by element, over the ranks of the group.
  \<open>contribution d k j own i\<close> is what rank \<open>i\<close> brings to element \<open>j\<close> of the \<open>k\<close>-th
  collective: the caller's own number for the caller's rank, the peer's otherwise.
  \<^verbatim>\<open>"sum"\<close> adds the contributions of all ranks, \<^verbatim>\<open>"max"\<close> takes the greatest, and for
  \<^verbatim>\<open>"mean"\<close> every rank brings its number divided by \<^verbatim>\<open>world_size\<close> and these are
  added. A Python number enters as its \<^verbatim>\<open>float32\<close> value and comes back as a Python
  float; a tensor keeps device, element type and shape. The entries of a \<^verbatim>\<open>dict\<close> are
  reduced one after the other, each at the call index the leaves before it have left.
\<close>

definition contribution :: "dist \<Rightarrow> nat \<Rightarrow> nat \<Rightarrow> rat \<Rightarrow> nat \<Rightarrow> rat" where
  "contribution d k j own i = (if i = get_rank d then own else peer_buffers d k i j)"

definition reduced_element :: "dist \<Rightarrow> nat \<Rightarrow> string \<Rightarrow> nat \<Rightarrow> rat \<Rightarrow> rat" where
  "reduced_element d k opr j own =
     (if opr = ''max''
      then Max (set (map (contribution d k j own) [0..<get_world_size d]))
      else sum_list (map (contribution d k j own) [0..<get_world_size d]))"

definition own_share :: "strategy \<Rightarrow> string \<Rightarrow> rat \<Rightarrow> rat" where
  "own_share s opr x =
     (if opr = ''mean''
      then (case world_size s of Some ws \<Rightarrow> x / of_nat ws | None \<Rightarrow> x)
      else x)"

fun reduce_spec :: "strategy \<Rightarrow> dist \<Rightarrow> string \<Rightarrow> pydata \<Rightarrow> nat \<Rightarrow> pydata"
  and reduce_spec_items ::
    "strategy \<Rightarrow> dist \<Rightarrow> string \<Rightarrow> (string \<times> pydata) list \<Rightarrow> nat \<Rightarrow> (string \<times> pydata) list" where
  "reduce_spec s d opr (Dict kvs) k = Dict (reduce_spec_items s d opr kvs k)"
| "reduce_spec s d opr (PyInt n) k =
     PyFloat (reduced_element d k opr 0 (own_share s opr (float32 (float64 (of_int n)))))"
| "reduce_spec s d opr (PyFloat x) k =
     PyFloat (reduced_element d k opr 0 (own_share s opr (float32 x)))"
| "reduce_spec s d opr (Tensor dev dt nd xs) k =
     Tensor dev dt nd
       (map (\<lambda>j. reduced_element d k opr j (own_share s opr (xs ! j))) [0..<length xs])"
| "reduce_spec_items s d opr [] k = []"
| "reduce_spec_items s d opr ((key, v) # rest) k =
     (key, reduce_spec s d opr v k) # reduce_spec_items s d opr rest (k + count_leaves v)"

text \<open>
  The values the description is about: every tensor leaf of a floating-point type
  (\<open>floating_leaves\<close>), every Python number within the range of the formats it passes
  through (\<open>numbers_in_range\<close>), and every Python number a \<^verbatim>\<open>float32\<close> value already
  (\<open>numbers_exact\<close>).
\<close>

fun floating_leaves :: "pydata \<Rightarrow> bool"
  and floating_leaves_items :: "(string \<times> pydata) list \<Rightarrow> bool" where
  "floating_leaves (Dict kvs) = floating_leaves_items kvs"
| "floating_leaves (PyInt n) = True"
| "floating_leaves (PyFloat x) = True"
| "floating_leaves (Tensor dev dt nd xs) = (dt = Floating)"
| "floating_leaves_items [] = True"
| "floating_leaves_items ((key, v) # rest) = (floating_leaves v \<and> floating_leaves_items rest)"

fun numbers_in_range :: "pydata \<Rightarrow> bool"
  and numbers_in_range_items :: "(string \<times> pydata) list \<Rightarrow> bool" where
  "numbers_in_range (Dict kvs) = numbers_in_range_items kvs"
| "numbers_in_range (PyInt n) =
     (\<bar>float64 (of_int n)\<bar> < pow2 1024 \<and> \<bar>float32 (float64 (of_int n))\<bar> < pow2 128)"
| "numbers_in_range (PyFloat x) = (\<bar>float32 x\<bar> < pow2 128)"
| "numbers_in_range (Tensor dev dt nd xs) = True"
| "numbers_in_range_items [] = True"
| "numbers_in_range_items ((key, v) # rest) = (numbers_in_range v \<and> numbers_in_range_items rest)"

fun numbers_exact :: "pydata \<Rightarrow> bool"
  and numbers_exact_items :: "(string \<times> pydata) list \<Rightarrow> bool" where
  "numbers_exact (Dict kvs) = numbers_exact_items kvs"
| "numbers_exact (PyInt n) = (float32 (float64 (of_int n)) = of_int n)"
| "numbers_exact (PyFloat x) = (float32 x = x)"
| "numbers_exact (Tensor dev dt nd xs) = True"
| "numbers_exact_items [] = True"
| "numbers_exact_items ((key, v) # rest) = (numbers_exact v \<and> numbers_exact_items rest)"

text \<open>Every tensor leaf has at least one dimension, as \<^verbatim>\<open>torch.cat\<close> asks of what
  \<^verbatim>\<open>all_gather\<close> hands to it.\<close>

fun dimensioned_leaves :: "pydata \<Rightarrow> bool"
  and dimensioned_leaves_items :: "(string \<times> pydata) list \<Rightarrow> bool" where
  "dimensioned_leaves (Dict kvs) = dimensioned_leaves_items kvs"
| "dimensioned_leaves (PyInt n) = True"
| "dimensioned_leaves (PyFloat x) = True"
| "dimensioned_leaves (Tensor dev dt nd xs) = (0 < nd)"
| "dimensioned_leaves_items [] = True"
| "dimensioned_leaves_items ((key, v) # rest) =
     (dimensioned_leaves v \<and> dimensioned_leaves_items rest)"

section \<open>save_model\<close>

text \<open>\<^verbatim>\<open>_unwrap_model\<close>: through an \<open>Actor\<close> recursively, through one object that has a
  \<^verbatim>\<open>.module\<close>, otherwise the model itself.\<close>

fun unwrap_model :: "module \<Rightarrow> module" where
  "unwrap_model (Actor m ema) = unwrap_model m"
| "unwrap_model (DeepSpeedEngine c m) = m"
| "unwrap_model (Net ps bs ema pm) = Net ps bs ema pm"

text \<open>\<^verbatim>\<open>named_parameters()\<close> and \<^verbatim>\<open>named_buffers()\<close> of a model: a wrapper lists
  those of what it wraps under the attribute's name.\<close>

fun named_parameters :: "module \<Rightarrow> (string \<times> param) list" where
  "named_parameters (Net ps bs ema pm) = ps"
| "named_parameters (Actor m ema) = map (\<lambda>(k, v). (''model.'' @ k, v)) (named_parameters m)"
| "named_parameters (DeepSpeedEngine c m) = map (\<lambda>(k, v). (''module.'' @ k, v)) (named_parameters m)"

fun named_buffers :: "module \<Rightarrow> (string \<times> rat list) list" where
  "named_buffers (Net ps bs ema pm) = bs"
| "named_buffers (Actor m ema) = map (\<lambda>(k, v). (''model.'' @ k, v)) (named_buffers m)"
| "named_buffers (DeepSpeedEngine c m) = map (\<lambda>(k, v). (''module.'' @ k, v)) (named_buffers m)"

text \<open>\<^verbatim>\<open>if isinstance(model_to_save, PeftModel): model_to_save = model_to_save.merge_and_unload()\<close>
  after the unwrapping.\<close>

definition model_to_save :: "module \<Rightarrow> module" where
  "model_to_save mdl =
     (case unwrap_model mdl of
        Net ps bs ema (Some merged) \<Rightarrow> merged
      | m \<Rightarrow> m)"

text \<open>\<^verbatim>\<open>state_dict()\<close>: parameters, then buffers, as a \<^verbatim>\<open>dict\<close>. The buffers of a
  \<open>Net\<close> are the persistent ones: a buffer registered with \<^verbatim>\<open>persistent=False\<close>, which
  \<^verbatim>\<open>named_buffers()\<close> lists and \<^verbatim>\<open>state_dict()\<close> leaves out, is not modelled.\<close>

definition state_dict :: "module \<Rightarrow> (string \<times> rat list) list" where
  "state_dict m =
     fold (\<lambda>(k, v) out. AList.update k v out)
          (map (\<lambda>(k, v). (k, data v)) (named_parameters m) @ named_buffers m) []"

text \<open>
  The loop over the named parameters under stage 3. Each iteration enters one
  \<^verbatim>\<open>GatheredParameters\<close> scope; \<^verbatim>\<open>output_state_dict[k] = vv\<close> happens on rank 0 only.
  The state is the scopes entered and \<^verbatim>\<open>output_state_dict\<close>.
\<close>

fun gather_parameters ::
  "dist \<Rightarrow> (string \<times> param) list \<Rightarrow> gather_call list \<times> (string \<times> rat list) list
     \<Rightarrow> gather_call list \<times> (string \<times> rat list) list" where
  "gather_parameters d [] st = st"
| "gather_parameters d ((k, v) # rest) (gathers, output_state_dict) =
     (let params_to_fetch = z3_params_to_fetch [v];
          scope = GatheredParameters params_to_fetch;
          vv = data v
      in gather_parameters d rest
           (gathers @ [scope],
            if is_rank_0 d then AList.update k vv output_state_dict else output_state_dict))"

text \<open>
  \<^verbatim>\<open>save_model(model, path)\<close>: the gather scopes entered, \<^verbatim>\<open>output_state_dict\<close> as the
  process holds it at the end (empty outside stage 3), and the file \<^verbatim>\<open>torch.save\<close> writes,
  if the process writes one.
\<close>

definition save_model ::
  "strategy \<Rightarrow> dist \<Rightarrow> module \<Rightarrow> string
     \<Rightarrow> gather_call list \<times> (string \<times> rat list) list \<times> (string \<times> (string \<times> rat list) list) option" where
  "save_model s d mdl path =
     (let m = model_to_save mdl in
      if stage s \<noteq> 3 then
        (if is_rank_0 d then ([], [], Some (path, state_dict m)) else ([], [], None))
      else
        (let (gathers, output_state_dict) = gather_parameters d (named_parameters m) ([], []) in
         if is_rank_0 d then
           (let output_state_dict =
                  fold (\<lambda>(k, v) out. AList.update k v out) (named_buffers m) output_state_dict
            in (gathers, output_state_dict, Some (path, output_state_dict)))
         else (gathers, output_state_dict, None)))"

section \<open>save_ckpt and its retention sweep\<close>

text \<open>
  One subdirectory of \<^verbatim>\<open>save_dir\<close>: its name, what \<^verbatim>\<open>os.path.getmtime\<close> returns for it,
  and the sizes \<^verbatim>\<open>os.path.getsize\<close> returns for the files \<^verbatim>\<open>os.walk\<close> finds below it.
  The state of \<^verbatim>\<open>save_dir\<close> is the list of its subdirectories in \<^verbatim>\<open>os.listdir\<close> order;
  entries that are not directories are skipped by the listing and left out here.
\<close>

record ckpt_dir =
  path :: string
  mtime :: rat
  file_sizes :: "nat list"

definition total_size :: "ckpt_dir list \<Rightarrow> nat" where
  "total_size subdirs = sum_list (map (\<lambda>sd. sum_list (file_sizes sd)) subdirs)"

text \<open>\<^verbatim>\<open>os.path.exists\<close> and \<^verbatim>\<open>shutil.rmtree\<close> on a subdirectory of \<^verbatim>\<open>save_dir\<close>. The
  subdirectories are directories proper: a symbolic link to one, which \<^verbatim>\<open>rmtree\<close>
  refuses, is not modelled.\<close>

definition path_exists :: "string \<Rightarrow> ckpt_dir list \<Rightarrow> bool" where
  "path_exists p fs = (p \<in> set (map path fs))"

definition rmtree :: "string \<Rightarrow> ckpt_dir list \<Rightarrow> ckpt_dir list" where
  "rmtree p fs = filter (\<lambda>sd. path sd \<noteq> p) fs"

text \<open>
  The \<^verbatim>\<open>while True\<close> loop: list, sort by modification time (\<^verbatim>\<open>list.sort\<close> is stable, as
  \<open>sort_key\<close> is), add up the sizes, and delete the oldest while there are at least
  \<open>max_num\<close> subdirectories or more than \<open>MAX_SIZE\<close> bytes. \<^verbatim>\<open>subdirs[0]\<close> on an empty
  list raises. The result is the directory state at \<^verbatim>\<open>break\<close> and the directories
  deleted, in order (\<^verbatim>\<open>self.print\<close> reports each).
\<close>

function retention_sweep ::
  "int \<Rightarrow> int \<Rightarrow> ckpt_dir list \<Rightarrow> string list \<Rightarrow> py_error + (ckpt_dir list \<times> string list)" where
  "retention_sweep max_num MAX_SIZE fs deleted =
     (let subdirs = sort_key mtime fs in
      if int (length subdirs) \<ge> max_num \<or> int (total_size subdirs) > MAX_SIZE then
        (case subdirs of
           [] \<Rightarrow> Inl IndexError
         | oldest_dir # others \<Rightarrow>
             if path_exists (path oldest_dir) fs
             then retention_sweep max_num MAX_SIZE (rmtree (path oldest_dir) fs)
                    (deleted @ [path oldest_dir])
             else retention_sweep max_num MAX_SIZE fs deleted)
      else Inr (fs, deleted))"
  by pat_completeness auto
termination
proof (relation "measure (\<lambda>(max_num, MAX_SIZE, fs, deleted). length fs)")
  show "wf (measure (\<lambda>(max_num, MAX_SIZE, fs, deleted). length fs))" by simp
next
  fix max_num MAX_SIZE :: int and fs :: "ckpt_dir list" and deleted :: "string list"
    and subdirs oldest_dir others
  assume sd: "subdirs = sort_key mtime fs" and hd: "subdirs = oldest_dir # others"
  have eq: "sort_key mtime fs = oldest_dir # others" using sd hd by simp
  have "set fs = set (sort_key mtime fs)" by simp
  also have "\<dots> = set (oldest_dir # others)" by (simp only: eq)
  finally have mem: "oldest_dir \<in> set fs" by simp
  have "length (filter (\<lambda>sd. path sd \<noteq> path oldest_dir) fs) < length fs"
    using mem by (simp add: length_filter_less)
  then show "((max_num, MAX_SIZE, rmtree (path oldest_dir) fs, deleted @ [path oldest_dir]),
              (max_num, MAX_SIZE, fs, deleted))
               \<in> measure (\<lambda>(max_num, MAX_SIZE, fs, deleted). length fs)"
    by (simp add: rmtree_def)
next
  fix max_num MAX_SIZE :: int and fs :: "ckpt_dir list" and deleted :: "string list"
    and subdirs oldest_dir others
  assume sd: "subdirs = sort_key mtime fs" and hd: "subdirs = oldest_dir # others"
    and gone: "\<not> path_exists (path oldest_dir) fs"
  have eq: "sort_key mtime fs = oldest_dir # others" using sd hd by simp
  have "set fs = set (sort_key mtime fs)" by simp
  also have "\<dots> = set (oldest_dir # others)" by (simp only: eq)
  finally have mem: "oldest_dir \<in> set fs" by simp
  with gone have False by (auto simp: path_exists_def)
  then show "((max_num, MAX_SIZE, fs, deleted), (max_num, MAX_SIZE, fs, deleted))
               \<in> measure (\<lambda>(max_num, MAX_SIZE, fs, deleted). length fs)"
    by simp
qed

declare retention_sweep.simps [simp del]

text \<open>
  \<^verbatim>\<open>save_ckpt(model, save_dir, tag, max_num, max_mem)\<close> on the subdirectories of
  \<^verbatim>\<open>save_dir\<close>. The engine's \<^verbatim>\<open>save_checkpoint\<close> is external: \<open>save_checkpoint\<close> is what
  it does to the subdirectories. A model that is not an engine is written with
  \<^verbatim>\<open>torch.save\<close> to the file \<^verbatim>\<open>{tag}.pt\<close>, which is no subdirectory.
\<close>

fun isinstance_DeepSpeedEngine :: "module \<Rightarrow> bool" where
  "isinstance_DeepSpeedEngine (DeepSpeedEngine c m) = True"
| "isinstance_DeepSpeedEngine _ = False"

definition save_ckpt ::
  "dist \<Rightarrow> module \<Rightarrow> (ckpt_dir list \<Rightarrow> ckpt_dir list) \<Rightarrow> int \<Rightarrow> int \<Rightarrow> ckpt_dir list
     \<Rightarrow> py_error + (ckpt_dir list \<times> string list)" where
  "save_ckpt d mdl save_checkpoint max_num max_mem fs =
     (case (if is_rank_0 d
            then (let MAX_SIZE = max_mem * 1024 * 1024 * 1024
                  in retention_sweep max_num MAX_SIZE fs [])
            else Inr (fs, [])) of
        Inl e \<Rightarrow> Inl e
      | Inr (fs', deleted) \<Rightarrow>
          Inr (if isinstance_DeepSpeedEngine mdl then save_checkpoint fs' else fs', deleted))"

section \<open>Example inputs\<close>

text \<open>Concrete values at which the theorems below are instantiated.\<close>

definition example_strategy :: strategy where
  "example_strategy =
     \<lparr> seed = 42, max_norm = 1, micro_train_batch_size = 2, train_batch_size = 8,
       stage = 3, max_out_tokens = 512, inference_tp_size = 1, bf16 = True,
       adam_offload = False, is_rlhf = False, zpg = 1, time_steps_ema = 0,
       local_rank = 0, pretrain_data = Some ''corpus'', world_size = None,
       accumulated_gradient = None \<rparr>"

definition example_net :: module where
  "example_net =
     Net [(''w'', \<lparr>data = [1, 2], requires_grad = True, ds_not_available = True\<rparr>),
          (''b'', \<lparr>data = [3], requires_grad = False, ds_not_available = False\<rparr>)]
         [(''mask'', [1])] False None"

definition rank0 :: dist where
  "rank0 = \<lparr> get_rank = 0, get_world_size = 1, peer_buffers = (\<lambda>k i j. 0) \<rparr>"

definition example_engine :: module where
  "example_engine = DeepSpeedEngine (eval_config example_strategy example_net) example_net"

definition GiB :: nat where
  "GiB = 1024 * 1024 * 1024"

text \<open>An engine whose \<^verbatim>\<open>save_checkpoint\<close> writes the checkpoint into the subdirectory
  named by the tag, replacing an older one of that name.\<close>

definition write_tag_dir :: "string \<Rightarrow> rat \<Rightarrow> nat list \<Rightarrow> ckpt_dir list \<Rightarrow> ckpt_dir list" where
  "write_tag_dir tag now sizes fs =
     rmtree tag fs @ [\<lparr> path = tag, mtime = now, file_sizes = sizes \<rparr>]"

text \<open>Four checkpoint directories of 10, 20, 30 and 40 GiB, oldest first.\<close>

definition ckpt10 :: ckpt_dir where
  "ckpt10 = \<lparr> path = ''step10'', mtime = 1, file_sizes = [10 * GiB] \<rparr>"

definition ckpt20 :: ckpt_dir where
  "ckpt20 = \<lparr> path = ''step20'', mtime = 2, file_sizes = [20 * GiB] \<rparr>"

definition ckpt30 :: ckpt_dir where
  "ckpt30 = \<lparr> path = ''step30'', mtime = 3, file_sizes = [30 * GiB] \<rparr>"

definition ckpt40 :: ckpt_dir where
  "ckpt40 = \<lparr> path = ''step40'', mtime = 4, file_sizes = [40 * GiB] \<rparr>"

definition four_ckpts :: "ckpt_dir list" where
  "four_ckpts = [ckpt10, ckpt20, ckpt30, ckpt40]"

text \<open>A group of \<open>n\<close> processes seen from rank \<open>r\<close>, in which every rank \<open>i\<close> hands the
  number \<open>i\<close> to every collective.\<close>

definition rank_of :: "nat \<Rightarrow> nat \<Rightarrow> dist" where
  "rank_of r n = \<lparr> get_rank = r, get_world_size = n, peer_buffers = (\<lambda>k i j. of_nat i) \<rparr>"

text \<open>The example strategy after \<^verbatim>\<open>setup_distributed\<close> in a group of two: 8 // 2 // 2 = 2
  accumulation steps.\<close>

definition example_ready :: strategy where
  "example_ready = example_strategy\<lparr> world_size := Some 2, accumulated_gradient := Some 2 \<rparr>"

definition example_live :: "param list" where
  "example_live =
     [\<lparr>data = [1, 2], requires_grad = True, ds_not_available = True\<rparr>,
      \<lparr>data = [3], requires_grad = False, ds_not_available = False\<rparr>]"

definition example_shadow :: "param list" where
  "example_shadow =
     [\<lparr>data = [5, 6], requires_grad = False, ds_not_available = False\<rparr>,
      \<lparr>data = [7], requires_grad = False, ds_not_available = False\<rparr>]"

text \<open>A \<^verbatim>\<open>dict\<close> of metrics: a Python integer and a \<^verbatim>\<open>float32\<close> vector on the
  accelerator.\<close>

definition example_metrics :: "(string \<times> pydata) list" where
  "example_metrics = [(''loss'', PyInt 3), (''t'', Tensor Cuda Floating 1 [1, 5])]"

text \<open>A \<^verbatim>\<open>PeftModel\<close>: the weight of the base model and the two matrices of one
  adapter; \<^verbatim>\<open>merge_and_unload()\<close> returns the base model with the adapter folded into
  its weight.\<close>

definition example_merged :: module where
  "example_merged =
     Net [(''w'', \<lparr>data = [4, 6], requires_grad = True, ds_not_available = True\<rparr>)] [] False None"

definition example_peft :: module where
  "example_peft =
     Net [(''base_model.model.w'', \<lparr>data = [1, 2], requires_grad = False, ds_not_available = True\<rparr>),
          (''base_model.model.w.lora_A'', \<lparr>data = [1, 1], requires_grad = True, ds_not_available = True\<rparr>),
          (''base_model.model.w.lora_B'', \<lparr>data = [3, 4], requires_grad = True, ds_not_available = True\<rparr>)]
         [] False (Some example_merged)"

section \<open>Properties of prepare\<close>

lemma prepare_loop_append:
  "prepare_loop s (xs @ ys) acc calls =
     (case prepare_loop s xs acc calls of
        (c, Inl e) \<Rightarrow> (c, Inl e)
      | (c, Inr a) \<Rightarrow> prepare_loop s ys a c)"
  by (induction s xs acc calls rule: prepare_loop.induct)
     (auto split: list.splits prod.splits sum.splits)

lemma prepare_loop_calls:
  "prepare_loop s xs acc calls = (c, Inr a) \<Longrightarrow>
     length c = length calls + length xs \<and> length a = length acc + length xs"
  by (induction s xs acc calls arbitrary: c a rule: prepare_loop.induct)
     (auto split: list.splits prod.splits sum.splits)

lemma prepare_loop_bad_tuple:
  "length objs \<noteq> 3 \<Longrightarrow>
     prepare_loop s (Tuple objs # rest) acc calls =
       (calls, Inl (AssertionError (tuple_size_message (length objs))))"
  by (auto split: list.splits)

lemma str_nat_digit: "n < 10 \<Longrightarrow> str_nat n = [digit_char n]"
  by (simp add: str_nat.simps)

lemma tuple_size_message_2:
  "tuple_size_message 2 =
     ''Expect (model, optimizer, scheduler) pair, got a tuple with size '' @
     [CHR 0x22] @ ''2'' @ [CHR 0x22]"
  by (simp add: tuple_size_message_def str_nat_digit digit_char_def)

lemma example_eval_call:
  "prepare_loop (example_strategy\<lparr>is_rlhf := False\<rparr>) [Model example_net] [] [] =
     ([fst (ds_init_eval_model (example_strategy\<lparr>is_rlhf := False\<rparr>) example_net)],
      Inr [Evaluated (DeepSpeedEngine
             (eval_config (example_strategy\<lparr>is_rlhf := False\<rparr>) example_net) example_net)])"
  by (simp add: ds_init_eval_model_def deepspeed_initialize_def example_net_def Let_def)

lemma train_config_batch:
  "cfg_train_batch_size (train_config s mdl) =
     Some (if is_rlhf s \<and> isinstance_Actor mdl \<and> pretrain_data s \<noteq> None
           then train_batch_size s * 2 else train_batch_size s)"
  by (simp add: train_config_def Let_def)

lemma prepare_single_triple:
  "fst (snd (prepare s [Tuple [mdl, optim, scheduler]] rlhf)) =
     [fst (ds_init_train_model (s\<lparr>is_rlhf := rlhf\<rparr>) mdl optim scheduler)]"
  by (simp add: prepare_def ds_init_train_model_def Let_def split: sum.splits)

text \<open>
  Claim C10. \<^verbatim>\<open>prepare\<close> with no entry returns the empty list: the loop body never
  runs, so no assertion is evaluated and \<^verbatim>\<open>deepspeed.initialize\<close> is not called, and
  \<^verbatim>\<open>ret[0] if len(ret) == 1 else ret\<close> takes the \<^verbatim>\<open>else\<close> branch. The only effect is that
  \<^verbatim>\<open>self.is_rlhf\<close> is stored.
\<close>

theorem prepare_empty:
  "prepare s [] rlhf = (s\<lparr>is_rlhf := rlhf\<rparr>, [], Inr (Many []))"
  by (simp add: prepare_def)

theorem prepare_empty_witness:
  "prepare example_strategy [] True = (example_strategy\<lparr>is_rlhf := True\<rparr>, [], Inr (Many []))
   \<and> is_rlhf (fst (prepare example_strategy [] True))"
  using prepare_empty [of example_strategy True] by simp

text \<open>
  Claim C6, as stated: a tuple whose length is not 3 makes \<^verbatim>\<open>prepare\<close> fail before any
  \<^verbatim>\<open>deepspeed.initialize\<close> call. The assertion sits inside the loop, so the entries in
  front of the malformed tuple are initialized first: with a model followed by a
  2-tuple, one engine call has been made when the assertion fails.
\<close>

theorem prepare_fail_fast_counterexample:
  "prepare example_strategy [Model example_net, Tuple [PModule example_net, PHandle 1]] False =
     (example_strategy\<lparr>is_rlhf := False\<rparr>,
      [fst (ds_init_eval_model (example_strategy\<lparr>is_rlhf := False\<rparr>) example_net)],
      Inl (AssertionError (tuple_size_message 2)))
   \<and> length (fst (snd (prepare example_strategy
        [Model example_net, Tuple [PModule example_net, PHandle 1]] False))) = 1"
  by (simp add: prepare_def ds_init_eval_model_def deepspeed_initialize_def example_net_def Let_def
        eval_nat_numeral)

text \<open>
  Claim C6, amended. Let the first tuple whose length is not 3 stand behind the entries
  \<open>pre\<close>, all of which the loop accepts. Then \<^verbatim>\<open>prepare\<close> fails with the
  \<^verbatim>\<open>AssertionError\<close> whose message names the tuple's size; the engine calls made are
  exactly those of \<open>pre\<close>, one per entry, none for the malformed tuple and none for the
  entries \<open>post\<close> behind it. When the malformed tuple is the first entry, no engine call
  is made at all. \<^verbatim>\<open>prepare\<close> calls nothing of \<^verbatim>\<open>torch.distributed\<close> itself: the engine
  calls are all it does outside the strategy.
\<close>

theorem prepare_bad_tuple:
  assumes "prepare_loop (s\<lparr>is_rlhf := rlhf\<rparr>) pre [] [] = (calls, Inr acc)"
    and "length objs \<noteq> 3"
  shows "prepare s (pre @ Tuple objs # post) rlhf =
           (s\<lparr>is_rlhf := rlhf\<rparr>, calls, Inl (AssertionError (tuple_size_message (length objs))))
         \<and> length calls = length pre
         \<and> (pre = [] \<longrightarrow> calls = [])"
proof -
  have len: "length calls = length pre"
    using prepare_loop_calls[OF assms(1)] by simp
  have "prepare_loop (s\<lparr>is_rlhf := rlhf\<rparr>) (pre @ Tuple objs # post) [] [] =
          (calls, Inl (AssertionError (tuple_size_message (length objs))))"
    using assms by (simp add: prepare_loop_append prepare_loop_bad_tuple del: prepare_loop.simps)
  then have "prepare s (pre @ Tuple objs # post) rlhf =
           (s\<lparr>is_rlhf := rlhf\<rparr>, calls, Inl (AssertionError (tuple_size_message (length objs))))"
    by (simp add: prepare_def)
  with len show ?thesis by auto
qed

theorem prepare_bad_tuple_witness:
  "prepare example_strategy
     ([Model example_net] @ Tuple [PModule example_net, PHandle 1] # [Model example_net]) False =
     (example_strategy\<lparr>is_rlhf := False\<rparr>,
      [fst (ds_init_eval_model (example_strategy\<lparr>is_rlhf := False\<rparr>) example_net)],
      Inl (AssertionError (tuple_size_message 2)))"
  using prepare_bad_tuple [OF example_eval_call,
      of "[PModule example_net, PHandle 1]" "[Model example_net]"]
  by (simp add: eval_nat_numeral)

text \<open>
  Claim C8. For a \<^verbatim>\<open>(model, optimizer, scheduler)\<close> entry, \<^verbatim>\<open>prepare\<close> makes one engine
  call, and the \<^verbatim>\<open>train_batch_size\<close> of its configuration is the configured one doubled
  when \<^verbatim>\<open>is_rlhf\<close> is set, \<^verbatim>\<open>args.pretrain_data\<close> is not \<^verbatim>\<open>None\<close> and the model is an
  \<^verbatim>\<open>Actor\<close>, and the configured one unchanged otherwise. So for a nonzero batch size the
  engine sees the doubled value exactly under those three conditions.
\<close>

theorem train_batch_size_doubled:
  "fst (snd (prepare s [Tuple [mdl, optim, scheduler]] rlhf)) =
     [fst (ds_init_train_model (s\<lparr>is_rlhf := rlhf\<rparr>) mdl optim scheduler)]
   \<and> ic_config (fst (ds_init_train_model (s\<lparr>is_rlhf := rlhf\<rparr>) mdl optim scheduler)) =
       train_config (s\<lparr>is_rlhf := rlhf\<rparr>) mdl
   \<and> cfg_train_batch_size (train_config (s\<lparr>is_rlhf := rlhf\<rparr>) mdl) =
       Some (if rlhf \<and> isinstance_Actor mdl \<and> pretrain_data s \<noteq> None
             then train_batch_size s * 2 else train_batch_size s)
   \<and> (train_batch_size s \<noteq> 0 \<longrightarrow>
        (cfg_train_batch_size (train_config (s\<lparr>is_rlhf := rlhf\<rparr>) mdl)
           = Some (train_batch_size s * 2)
         \<longleftrightarrow> rlhf \<and> isinstance_Actor mdl \<and> pretrain_data s \<noteq> None))"
proof -
  have cfg: "ic_config (fst (ds_init_train_model (s\<lparr>is_rlhf := rlhf\<rparr>) mdl optim scheduler)) =
       train_config (s\<lparr>is_rlhf := rlhf\<rparr>) mdl"
    by (simp add: ds_init_train_model_def Let_def)
  have b: "cfg_train_batch_size (train_config (s\<lparr>is_rlhf := rlhf\<rparr>) mdl) =
       Some (if rlhf \<and> isinstance_Actor mdl \<and> pretrain_data s \<noteq> None
             then train_batch_size s * 2 else train_batch_size s)"
    using train_config_batch [of "s\<lparr>is_rlhf := rlhf\<rparr>" mdl] by auto
  show ?thesis
    unfolding b using prepare_single_triple [of s mdl optim scheduler rlhf] cfg by auto
qed

theorem train_batch_size_doubled_witness:
  "cfg_train_batch_size
     (train_config (example_strategy\<lparr>is_rlhf := True\<rparr>) (PModule (Actor example_net False))) = Some 16
   \<and> cfg_train_batch_size
       (train_config (example_strategy\<lparr>is_rlhf := False\<rparr>) (PModule (Actor example_net False))) = Some 8
   \<and> cfg_train_batch_size
       (train_config (example_strategy\<lparr>is_rlhf := True\<rparr>) (PModule example_net)) = Some 8"
  using train_batch_size_doubled
          [of example_strategy "PModule (Actor example_net False)" "PHandle 1" "PHandle 2" True]
    train_batch_size_doubled
          [of example_strategy "PModule (Actor example_net False)" "PHandle 1" "PHandle 2" False]
    train_batch_size_doubled
          [of example_strategy "PModule example_net" "PHandle 1" "PHandle 2" True]
  by (simp add: example_strategy_def example_net_def)

section \<open>Properties of save_ckpt\<close>

lemma sum_list_insort_key:
  "sum_list (map g (insort_key f x xs)) = (g x :: nat) + sum_list (map g xs)"
  by (induction xs) auto

lemma total_size_sort_key: "total_size (sort_key f xs) = total_size xs"
  by (induction xs) (auto simp: total_size_def sum_list_insort_key)

lemma distinct_paths_sort_key:
  "distinct (map path (sort_key f xs)) = distinct (map path xs)"
  by (simp add: distinct_map)

lemma sort_key_rmtree_oldest:
  assumes "sort_key mtime fs = oldest # others" and "distinct (map path fs)"
  shows "sort_key mtime (rmtree (path oldest) fs) = others"
proof -
  have "distinct (map path (oldest # others))"
    using assms distinct_paths_sort_key [of mtime fs] by simp
  then have "filter (\<lambda>sd. path sd \<noteq> path oldest) (oldest # others) = others"
    by (auto simp: filter_id_conv image_iff)
  then show ?thesis
    using assms(1) by (simp add: rmtree_def filter_sort [symmetric])
qed

lemma oldest_exists:
  assumes "sort_key mtime fs = oldest # others"
  shows "path_exists (path oldest) fs"
proof -
  have "set fs = set (sort_key mtime fs)" by simp
  also have "\<dots> = set (oldest # others)" by (simp only: assms)
  finally show ?thesis by (auto simp: path_exists_def)
qed

lemma distinct_paths_rmtree:
  "distinct (map path fs) \<Longrightarrow> distinct (map path (rmtree p fs))"
  by (simp add: rmtree_def distinct_map_filter)

lemma rmtree_rmtree_set:
  "filter (\<lambda>sd. path sd \<notin> P) (rmtree p fs) = filter (\<lambda>sd. path sd \<notin> insert p P) fs"
  by (induction fs) (auto simp: rmtree_def)

lemma retention_sweep_result:
  assumes "retention_sweep max_num MAX_SIZE fs deleted = Inr (fs', deleted')"
    and "distinct (map path fs)"
  shows "\<exists>n. n \<le> length fs
           \<and> deleted' = deleted @ map path (take n (sort_key mtime fs))
           \<and> sort_key mtime fs' = drop n (sort_key mtime fs)
           \<and> fs' = filter (\<lambda>sd. path sd \<notin> set (map path (take n (sort_key mtime fs)))) fs
           \<and> int (length fs') < max_num
           \<and> int (total_size fs') \<le> MAX_SIZE"
  using assms
proof (induction max_num MAX_SIZE fs deleted rule: retention_sweep.induct)
  case (1 max_num MAX_SIZE fs deleted)
  let ?sub = "sort_key mtime fs"
  show ?case
  proof (cases "int (length ?sub) \<ge> max_num \<or> int (total_size ?sub) > MAX_SIZE")
    case False
    then have "fs' = fs" "deleted' = deleted"
      using "1.prems"(1) by (simp_all add: retention_sweep.simps [of max_num MAX_SIZE fs deleted])
    with False show ?thesis
      by (intro exI [of _ 0]) (simp add: total_size_sort_key)
  next
    case True
    show ?thesis
    proof (cases ?sub)
      case Nil
      with True "1.prems"(1) show ?thesis
        by (simp add: retention_sweep.simps [of max_num MAX_SIZE fs deleted])
    next
      case (Cons oldest others)
      have ex: "path_exists (path oldest) fs" using Cons by (rule oldest_exists)
      have rec: "retention_sweep max_num MAX_SIZE (rmtree (path oldest) fs) (deleted @ [path oldest])
                   = Inr (fs', deleted')"
        using True Cons ex "1.prems"(1)
        by (simp add: retention_sweep.simps [of max_num MAX_SIZE fs deleted])
      have d': "distinct (map path (rmtree (path oldest) fs))"
        using "1.prems"(2) by (rule distinct_paths_rmtree)
      have srt: "sort_key mtime (rmtree (path oldest) fs) = others"
        using Cons "1.prems"(2) by (rule sort_key_rmtree_oldest)
      from "1.IH"(1) [OF refl True Cons ex rec d']
      obtain n where n: "n \<le> length (rmtree (path oldest) fs)"
        "deleted' = (deleted @ [path oldest]) @ map path (take n others)"
        "sort_key mtime fs' = drop n others"
        "fs' = filter (\<lambda>sd. path sd \<notin> set (map path (take n others))) (rmtree (path oldest) fs)"
        "int (length fs') < max_num" "int (total_size fs') \<le> MAX_SIZE"
        unfolding srt by blast
      have len: "length (rmtree (path oldest) fs) = length others"
        using srt length_sort [of mtime "rmtree (path oldest) fs"] by simp
      have lfs: "length fs = Suc (length others)"
        using Cons length_sort [of mtime fs] by simp
      show ?thesis
      proof (intro exI [of _ "Suc n"] conjI)
        show "Suc n \<le> length fs" using n(1) len lfs by simp
        show "deleted' = deleted @ map path (take (Suc n) ?sub)" using n(2) Cons by simp
        show "sort_key mtime fs' = drop (Suc n) ?sub" using n(3) Cons by simp
        show "fs' = filter (\<lambda>sd. path sd \<notin> set (map path (take (Suc n) ?sub))) fs"
          using n(4) Cons by (simp add: rmtree_rmtree_set)
        show "int (length fs') < max_num" by (rule n(5))
        show "int (total_size fs') \<le> MAX_SIZE" by (rule n(6))
      qed
    qed
  qed
qed

lemma retention_sweep_total:
  assumes "1 \<le> max_num" and "0 \<le> MAX_SIZE"
  shows "\<exists>r. retention_sweep max_num MAX_SIZE fs deleted = Inr r"
  using assms
proof (induction max_num MAX_SIZE fs deleted rule: retention_sweep.induct)
  case (1 max_num MAX_SIZE fs deleted)
  let ?sub = "sort_key mtime fs"
  show ?case
  proof (cases "int (length ?sub) \<ge> max_num \<or> int (total_size ?sub) > MAX_SIZE")
    case False
    then show ?thesis
      by (simp add: retention_sweep.simps [of max_num MAX_SIZE fs deleted])
  next
    case True
    show ?thesis
    proof (cases ?sub)
      case Nil
      then have "fs = []" using length_sort [of mtime fs] by simp
      with True "1.prems" show ?thesis by (simp add: total_size_def)
    next
      case (Cons oldest others)
      have ex: "path_exists (path oldest) fs" using Cons by (rule oldest_exists)
      from "1.IH"(1) [OF refl True Cons ex "1.prems"]
      obtain r where "retention_sweep max_num MAX_SIZE (rmtree (path oldest) fs)
                        (deleted @ [path oldest]) = Inr r" by blast
      with True Cons ex show ?thesis
        by (simp add: retention_sweep.simps [of max_num MAX_SIZE fs deleted])
    qed
  qed
qed

lemmas ckpt_defs = four_ckpts_def ckpt10_def ckpt20_def ckpt30_def ckpt40_def GiB_def

lemma sweep_by_size:
  "retention_sweep 10 (50 * 1024 * 1024 * 1024) four_ckpts [] =
     Inr ([ckpt40], [''step10'', ''step20'', ''step30''])"
  by (simp add: ckpt_defs retention_sweep.simps total_size_def path_exists_def rmtree_def)

lemma sweep_by_count:
  "retention_sweep 2 (1000 * 1024 * 1024 * 1024) four_ckpts [] =
     Inr ([ckpt40], [''step10'', ''step20'', ''step30''])"
  by (simp add: ckpt_defs retention_sweep.simps total_size_def path_exists_def rmtree_def)

lemma sweep_empty:
  "retention_sweep 3 (1 * 1024 * 1024 * 1024) [] [] = Inr ([], [])"
  by (simp add: retention_sweep.simps total_size_def)


lemma save_ckpt_rank0:
  "is_rank_0 d \<Longrightarrow>
     save_ckpt d mdl save_checkpoint max_num max_mem fs =
       (case retention_sweep max_num (max_mem * 1024 * 1024 * 1024) fs [] of
          Inl e \<Rightarrow> Inl e
        | Inr (kept, deleted) \<Rightarrow>
            Inr (if isinstance_DeepSpeedEngine mdl then save_checkpoint kept else kept, deleted))"
  by (simp add: save_ckpt_def Let_def)

lemma sorted_take_le_drop:
  assumes "sorted (map f xs)" and "x \<in> set (take n xs)" and "y \<in> set (drop n xs)"
  shows "f x \<le> f y"
proof -
  have "sorted (map f (take n xs) @ map f (drop n xs))"
    using assms(1) by (simp flip: map_append)
  then show ?thesis
    using assms(2,3) by (auto simp: sorted_append)
qed

text \<open>
  Claim C1, amended. On rank 0, with distinct subdirectory names, a call that returns
  has run the sweep to its \<^verbatim>\<open>break\<close> before anything is written: the subdirectories
  \<open>kept\<close> at that point are fewer than \<open>max_num\<close> and hold at most
  \<open>max_mem * 1024 * 1024 * 1024\<close> bytes. The deleted ones are a prefix of the listing
  sorted by modification time, in that order, so every deleted directory is at most as
  recent as every kept one. What the call leaves is \<open>kept\<close> for a model that is not an
  engine (both bounds then hold after the call), and what the engine's
  \<^verbatim>\<open>save_checkpoint\<close> makes of \<open>kept\<close> otherwise: at most \<open>max_num\<close> subdirectories when
  the engine adds at most one, with no bound on their size.
\<close>

theorem save_ckpt_retention:
  assumes "is_rank_0 d" and "distinct (map path fs)"
    and "save_ckpt d mdl save_checkpoint max_num max_mem fs = Inr (fs', deleted)"
  shows "\<exists>kept.
      retention_sweep max_num (max_mem * 1024 * 1024 * 1024) fs [] = Inr (kept, deleted)
    \<and> fs' = (if isinstance_DeepSpeedEngine mdl then save_checkpoint kept else kept)
    \<and> int (length kept) < max_num
    \<and> int (total_size kept) \<le> max_mem * 1024 * 1024 * 1024
    \<and> deleted = map path (take (length deleted) (sort_key mtime fs))
    \<and> sort_key mtime kept = drop (length deleted) (sort_key mtime fs)
    \<and> kept = filter (\<lambda>sd. path sd \<notin> set deleted) fs
    \<and> (\<forall>x \<in> set (take (length deleted) (sort_key mtime fs)). \<forall>y \<in> set kept. mtime x \<le> mtime y)
    \<and> (length fs' \<le> length kept + 1 \<longrightarrow> int (length fs') \<le> max_num)
    \<and> (\<not> isinstance_DeepSpeedEngine mdl \<longrightarrow>
          int (length fs') < max_num \<and> int (total_size fs') \<le> max_mem * 1024 * 1024 * 1024)"
proof -
  let ?M = "max_mem * 1024 * 1024 * 1024"
  let ?sorted = "sort_key mtime fs"
  obtain kept where sw: "retention_sweep max_num ?M fs [] = Inr (kept, deleted)"
    and fs': "fs' = (if isinstance_DeepSpeedEngine mdl then save_checkpoint kept else kept)"
    using assms(3) unfolding save_ckpt_rank0 [OF assms(1)]
    by (auto split: sum.splits prod.splits)
  from retention_sweep_result [OF sw assms(2)]
  obtain n where n: "n \<le> length fs" "deleted = map path (take n ?sorted)"
    "sort_key mtime kept = drop n ?sorted"
    "kept = filter (\<lambda>sd. path sd \<notin> set (map path (take n ?sorted))) fs"
    "int (length kept) < max_num" "int (total_size kept) \<le> ?M"
    by auto
  have ln: "length deleted = n" using n(1,2) by simp
  have ord: "\<forall>x \<in> set (take n ?sorted). \<forall>y \<in> set kept. mtime x \<le> mtime y"
  proof (intro ballI)
    fix x y assume x: "x \<in> set (take n ?sorted)" and y: "y \<in> set kept"
    have "set kept = set (sort_key mtime kept)" by simp
    then have "y \<in> set (drop n ?sorted)" using y n(3) by simp
    with x show "mtime x \<le> mtime y"
      using sorted_take_le_drop [of mtime ?sorted x n y] by simp
  qed
  show ?thesis
  proof (intro exI [of _ kept] conjI)
    show "retention_sweep max_num ?M fs [] = Inr (kept, deleted)" by (rule sw)
    show "fs' = (if isinstance_DeepSpeedEngine mdl then save_checkpoint kept else kept)" by (rule fs')
    show "int (length kept) < max_num" by (rule n(5))
    show "int (total_size kept) \<le> ?M" by (rule n(6))
    show "deleted = map path (take (length deleted) ?sorted)" using n(2) ln by simp
    show "sort_key mtime kept = drop (length deleted) ?sorted" using n(3) ln by simp
    show "kept = filter (\<lambda>sd. path sd \<notin> set deleted) fs" using n(4) n(2) by simp
    show "\<forall>x \<in> set (take (length deleted) ?sorted). \<forall>y \<in> set kept. mtime x \<le> mtime y"
      using ord ln by simp
    show "length fs' \<le> length kept + 1 \<longrightarrow> int (length fs') \<le> max_num"
      using n(5) by auto
    show "\<not> isinstance_DeepSpeedEngine mdl \<longrightarrow>
          int (length fs') < max_num \<and> int (total_size fs') \<le> ?M"
      using n(5,6) fs' by simp
  qed
qed

lemma example_save_ckpt:
  "save_ckpt rank0 example_engine (write_tag_dir ''step50'' 5 [50 * GiB]) 10 50 four_ckpts =
     Inr (write_tag_dir ''step50'' 5 [50 * GiB] [ckpt40], [''step10'', ''step20'', ''step30''])"
  using sweep_by_size
  by (simp add: save_ckpt_def is_rank_0_def rank0_def example_engine_def)

theorem save_ckpt_retention_witness:
  "is_rank_0 rank0 \<and> distinct (map path four_ckpts)
   \<and> retention_sweep 10 (50 * 1024 * 1024 * 1024) four_ckpts [] =
        Inr ([ckpt40], [''step10'', ''step20'', ''step30''])
   \<and> [ckpt40] = filter (\<lambda>sd. path sd \<notin> set [''step10'', ''step20'', ''step30'']) four_ckpts
   \<and> int (total_size [ckpt40]) \<le> 50 * 1024 * 1024 * 1024"
proof -
  have r: "is_rank_0 rank0" by (simp add: is_rank_0_def rank0_def)
  have dist: "distinct (map path four_ckpts)" by (simp add: ckpt_defs)
  from save_ckpt_retention [OF r dist example_save_ckpt]
  show ?thesis using r dist sweep_by_size by auto
qed

text \<open>
  Claim C1, as stated: after a save the cumulative size is at most the limit. The sweep
  runs before the engine writes: with one 40 GiB directory, a limit of 50 GiB and a new
  checkpoint of 20 GiB, nothing is deleted and the save leaves 60 GiB.
\<close>

theorem save_ckpt_size_counterexample:
  "save_ckpt rank0 example_engine (write_tag_dir ''step50'' 5 [20 * GiB]) 3 50 [ckpt40] =
     Inr ([ckpt40, \<lparr> path = ''step50'', mtime = 5, file_sizes = [20 * GiB] \<rparr>], [])
   \<and> total_size [ckpt40, \<lparr> path = ''step50'', mtime = 5, file_sizes = [20 * GiB] \<rparr>] = 60 * GiB
   \<and> \<not> int (60 * GiB) \<le> 50 * 1024 * 1024 * 1024"
  by (simp add: save_ckpt_def is_rank_0_def rank0_def example_engine_def ckpt_defs write_tag_dir_def
        retention_sweep.simps total_size_def path_exists_def rmtree_def)

text \<open>
  Claim C2, as stated: with directories of 10, 20, 30 and 40 GiB, a limit of 50 GiB and
  \<open>max_num = 10\<close>, exactly the two oldest are removed. The loop deletes while the total
  exceeds the limit: 100, 90 and 70 GiB all do, so the three oldest go.
\<close>

theorem retention_example_counterexample:
  "save_ckpt rank0 example_engine (write_tag_dir ''step50'' 5 [50 * GiB]) 10 50 four_ckpts =
     Inr (write_tag_dir ''step50'' 5 [50 * GiB] [ckpt40], [''step10'', ''step20'', ''step30''])
   \<and> [''step10'', ''step20'', ''step30''] \<noteq> [''step10'', ''step20'']"
  using example_save_ckpt by simp

text \<open>
  Claim C2, amended. With the four directories, a limit of 50 GiB and \<open>max_num = 10\<close>,
  one save removes the three oldest and keeps the 40 GiB directory, within the limit.
  With \<open>max_num = 2\<close> and a limit of 1000 GiB the sweep deletes while at least two
  directories are left, so again only the most recent one stays; after the save the
  root holds two directories, that one and the new checkpoint.
\<close>

theorem retention_example:
  "save_ckpt rank0 example_engine (write_tag_dir ''step50'' 5 [50 * GiB]) 10 50 four_ckpts =
     Inr ([ckpt40, \<lparr> path = ''step50'', mtime = 5, file_sizes = [50 * GiB] \<rparr>],
          [''step10'', ''step20'', ''step30''])
   \<and> int (total_size [ckpt40]) \<le> 50 * 1024 * 1024 * 1024
   \<and> save_ckpt rank0 example_engine (write_tag_dir ''step50'' 5 [50 * GiB]) 2 1000 four_ckpts =
     Inr ([ckpt40, \<lparr> path = ''step50'', mtime = 5, file_sizes = [50 * GiB] \<rparr>],
          [''step10'', ''step20'', ''step30''])"
  using sweep_by_size sweep_by_count
  by (simp add: save_ckpt_def is_rank_0_def rank0_def example_engine_def write_tag_dir_def
        rmtree_def ckpt_defs total_size_def)

section \<open>Properties of moving_average\<close>

lemma ema_loop_length:
  "ema_loop s beta zs = Inr (upd, g) \<Longrightarrow> length upd = length zs"
  by (induction s beta zs arbitrary: upd g rule: ema_loop.induct)
     (auto simp: Let_def split: if_splits sum.splits prod.splits)

lemma ema_loop_nth:
  "ema_loop s beta zs = Inr (upd, g) \<Longrightarrow> i < length zs \<Longrightarrow>
     (if requires_grad (fst (zs ! i)) then ema_copy beta (fst (zs ! i)) (snd (zs ! i)) = Inr (upd ! i)
      else upd ! i = snd (zs ! i))"
proof (induction s beta zs arbitrary: upd g i rule: ema_loop.induct)
  case (1 s beta)
  then show ?case by simp
next
  case (2 s beta p p_ema rest)
  show ?case
  proof (cases i)
    case 0
    with "2.prems" show ?thesis
      by (auto simp: Let_def split: if_splits sum.splits prod.splits)
  next
    case (Suc j)
    with "2.prems" "2.IH" show ?thesis
      by (auto simp: Let_def split: if_splits sum.splits prod.splits)
  qed
qed

lemma ema_loop_total:
  assumes "\<forall>(p, e) \<in> set zs. requires_grad p \<longrightarrow> length (data p) = length (data e)"
  shows "\<exists>upd g. ema_loop s beta zs = Inr (upd, g)"
  using assms
proof (induction zs)
  case Nil
  then show ?case by simp
next
  case (Cons z zs)
  obtain p e where z: "z = (p, e)" by (cases z)
  from Cons obtain upd g where rest: "ema_loop s beta zs = Inr (upd, g)" by auto
  have shape: "requires_grad p \<Longrightarrow> length (data p) = length (data e)"
    using Cons.prems z by simp
  show ?case
  proof (cases "requires_grad p")
    case True
    with shape rest z show ?thesis by (simp add: ema_copy_def Let_def)
  next
    case False
    with rest z show ?thesis by simp
  qed
qed

lemma moving_average_idle:
  assumes "accumulated_gradient s = Some acc" and "acc \<noteq> 0"
    and "(time_steps_ema s + 1) mod acc \<noteq> 0"
  shows "moving_average s ps es beta = Inr (s\<lparr>time_steps_ema := time_steps_ema s + 1\<rparr>, es, [])"
  using assms by (simp add: moving_average_def Let_def)

lemma moving_average_zero:
  assumes "accumulated_gradient s = Some 0"
  shows "moving_average s ps es beta = Inl ZeroDivisionError"
  using assms by (simp add: moving_average_def Let_def)

lemma moving_average_fire:
  assumes "accumulated_gradient s = Some acc" and "acc \<noteq> 0"
    and "(time_steps_ema s + 1) mod acc = 0"
    and "ema_loop (s\<lparr>time_steps_ema := time_steps_ema s + 1\<rparr>) beta (zip ps es) = Inr (upd, g)"
  shows "moving_average s ps es beta =
           Inr (s\<lparr>time_steps_ema := time_steps_ema s + 1\<rparr>, upd @ drop (length upd) es, g)"
  using assms by (simp add: moving_average_def Let_def)

lemma moving_average_calls_idle:
  assumes "accumulated_gradient s = Some acc" and "acc \<noteq> 0"
    and "\<forall>j. 1 \<le> j \<and> j \<le> n \<longrightarrow> (time_steps_ema s + int j) mod acc \<noteq> 0"
  shows "moving_average_calls n s ps es beta =
           Inr (s\<lparr>time_steps_ema := time_steps_ema s + int n\<rparr>, es)"
  using assms
proof (induction n arbitrary: s)
  case 0
  then show ?case by simp
next
  case (Suc n)
  let ?s1 = "s\<lparr>time_steps_ema := time_steps_ema s + 1\<rparr>"
  have "(time_steps_ema s + int 1) mod acc \<noteq> 0"
    using Suc.prems(3) by (metis le_add1 le_refl plus_1_eq_Suc)
  then have first: "moving_average s ps es beta = Inr (?s1, es, [])"
    using moving_average_idle [OF Suc.prems(1,2)] by simp
  have acc1: "accumulated_gradient ?s1 = Some acc" using Suc.prems(1) by simp
  have idle: "\<forall>j. 1 \<le> j \<and> j \<le> n \<longrightarrow> (time_steps_ema ?s1 + int j) mod acc \<noteq> 0"
  proof (intro allI impI)
    fix j assume j: "1 \<le> j \<and> j \<le> n"
    then have "(time_steps_ema s + int (Suc j)) mod acc \<noteq> 0"
      using Suc.prems(3) by (meson Suc_le_mono le_SucI le_add1 plus_1_eq_Suc Suc_leI zero_less_Suc)
    then show "(time_steps_ema ?s1 + int j) mod acc \<noteq> 0"
      by (simp add: algebra_simps)
  qed
  from Suc.IH [OF acc1 Suc.prems(2) idle] first
  show ?case by (simp add: algebra_simps)
qed

lemma moving_average_calls_add:
  "moving_average_calls (m + n) s ps es beta =
     (case moving_average_calls m s ps es beta of
        Inl e \<Rightarrow> Inl e
      | Inr (s', es') \<Rightarrow> moving_average_calls n s' ps es' beta)"
  by (induction m arbitrary: s es) (auto split: sum.splits prod.splits)


lemma ema_result_length:
  assumes "ema_loop s beta (zip ps es) = Inr (upd, g)"
  shows "length (upd @ drop (length upd) es) = length es"
  using ema_loop_length [OF assms] by simp

lemma ema_result_nth:
  assumes "ema_loop s beta (zip ps es) = Inr (upd, g)" and "i < length es"
  shows "(upd @ drop (length upd) es) ! i =
           (if i < length ps \<and> requires_grad (ps ! i)
            then (es ! i)\<lparr>data := map2 (\<lambda>l sh. beta * sh + (1 - beta) * l)
                                      (data (ps ! i)) (data (es ! i))\<rparr>
            else es ! i)"
proof -
  have len: "length upd = min (length ps) (length es)"
    using ema_loop_length [OF assms(1)] by simp
  show ?thesis
  proof (cases "i < length ps")
    case True
    then have i: "i < length (zip ps es)" using assms(2) by simp
    have z: "zip ps es ! i = (ps ! i, es ! i)" using True assms(2) by simp
    have iu: "i < length upd" using len True assms(2) by simp
    show ?thesis
    proof (cases "requires_grad (ps ! i)")
      case True
      then have "ema_copy beta (ps ! i) (es ! i) = Inr (upd ! i)"
        using ema_loop_nth [OF assms(1) i] z by simp
      then have "upd ! i = (es ! i)\<lparr>data := map2 (\<lambda>x e. (1 - beta) * x + beta * e)
                                      (data (ps ! i)) (data (es ! i))\<rparr>"
        by (auto simp: ema_copy_def split: if_splits)
      moreover have "(\<lambda>x e. (1 - beta) * x + beta * e) = (\<lambda>l sh. beta * sh + (1 - beta) * l)"
        by (intro ext) (simp add: add.commute)
      ultimately show ?thesis using True \<open>i < length ps\<close> iu by (simp add: nth_append)
    next
      case False
      then have "upd ! i = es ! i"
        using ema_loop_nth [OF assms(1) i] z by simp
      with False iu show ?thesis by (simp add: nth_append)
    qed
  next
    case False
    then have "length upd \<le> i" using len by simp
    with False assms(2) show ?thesis by (simp add: nth_append)
  qed
qed

lemma moving_average_frame:
  assumes "moving_average s ps es beta = Inr (s', es', g)" and "i < length es"
    and "i < length ps \<longrightarrow> \<not> requires_grad (ps ! i)"
  shows "es' ! i = es ! i \<and> length es' = length es"
proof -
  obtain acc where acc: "accumulated_gradient s = Some acc" "acc \<noteq> 0"
    using assms(1) by (auto simp: moving_average_def Let_def split: option.splits if_splits)
  show ?thesis
  proof (cases "(time_steps_ema s + 1) mod acc = 0")
    case False
    with assms(1) acc show ?thesis by (simp add: moving_average_idle)
  next
    case True
    then obtain upd where l: "ema_loop (s\<lparr>time_steps_ema := time_steps_ema s + 1\<rparr>) beta (zip ps es) = Inr (upd, g)"
      and e: "es' = upd @ drop (length upd) es"
      using assms(1) acc
      by (auto simp: moving_average_def Let_def split: sum.splits prod.splits)
    show ?thesis
      using ema_result_nth [OF l assms(2)] ema_result_length [OF l] assms(3) e by auto
  qed
qed

lemma moving_average_calls_frame:
  assumes "moving_average_calls n s ps es beta = Inr (s', es')" and "i < length es"
    and "i < length ps \<longrightarrow> \<not> requires_grad (ps ! i)"
  shows "es' ! i = es ! i \<and> length es' = length es"
  using assms
proof (induction n arbitrary: s es)
  case 0
  then show ?case by simp
next
  case (Suc n)
  from Suc.prems(1) obtain s1 es1 g where
    one: "moving_average s ps es beta = Inr (s1, es1, g)"
    and rest: "moving_average_calls n s1 ps es1 beta = Inr (s', es')"
    by (auto split: sum.splits prod.splits)
  have f: "es1 ! i = es ! i \<and> length es1 = length es"
    using moving_average_frame [OF one Suc.prems(2,3)] .
  then have "i < length es1" using Suc.prems(2) by simp
  from Suc.IH [OF rest this Suc.prems(3)] f show ?case by simp
qed

lemma ema_loop_stage:
  "stage s = stage s' \<Longrightarrow> ema_loop s beta zs = ema_loop s' beta zs"
  by (induction zs) (auto simp: Let_def split: sum.splits prod.splits)

lemma moving_average_window:
  assumes acc: "accumulated_gradient s = Some acc" and pos: "1 \<le> acc"
    and shape: "\<forall>(p, e) \<in> set (zip ps es). requires_grad p \<longrightarrow> length (data p) = length (data e)"
  shows "\<exists>upd g. ema_loop s beta (zip ps es) = Inr (upd, g)
           \<and> moving_average_calls (nat acc) s ps es beta =
               Inr (s\<lparr>time_steps_ema := time_steps_ema s + acc\<rparr>, upd @ drop (length upd) es)"
proof -
  define c where "c = time_steps_ema s"
  define r where "r = c mod acc"
  define a where "a = nat (acc - r - 1)"
  define b where "b = nat r"
  have r: "0 \<le> r" "r < acc" using pos by (simp_all add: r_def)
  have nz: "acc \<noteq> 0" using pos by simp
  have split: "nat acc = a + (1 + b)" using r pos by (simp add: a_def b_def)
  have cr: "c = acc * (c div acc) + r" by (simp add: r_def)
  \<comment> \<open>the calls before the update\<close>
  have idle_a: "\<forall>j. 1 \<le> j \<and> j \<le> a \<longrightarrow> (time_steps_ema s + int j) mod acc \<noteq> 0"
  proof (intro allI impI)
    fix j :: nat assume j: "1 \<le> j \<and> j \<le> a"
    have "(c + int j) mod acc = (r + int j) mod acc"
      unfolding r_def by (simp add: mod_add_left_eq)
    also have "\<dots> = r + int j"
    proof (intro mod_pos_pos_trivial)
      show "0 \<le> r + int j" using r by simp
      have "int j \<le> acc - r - 1" using j by (simp add: a_def) linarith
      then show "r + int j < acc" by simp
    qed
    finally show "(time_steps_ema s + int j) mod acc \<noteq> 0"
      using j r by (simp add: c_def)
  qed
  let ?sa = "s\<lparr>time_steps_ema := c + int a\<rparr>"
  have A: "moving_average_calls a s ps es beta = Inr (?sa, es)"
    using moving_average_calls_idle [OF acc nz idle_a] by (simp add: c_def)
  \<comment> \<open>the call that updates\<close>
  have ca: "c + int a + 1 = acc * (c div acc + 1)"
    using r cr by (simp add: a_def algebra_simps)
  then have fire: "(time_steps_ema ?sa + 1) mod acc = 0" by simp
  let ?s1 = "s\<lparr>time_steps_ema := c + int a + 1\<rparr>"
  obtain upd g where l: "ema_loop s beta (zip ps es) = Inr (upd, g)"
    using ema_loop_total [OF shape] by blast
  have l1: "ema_loop (?sa\<lparr>time_steps_ema := time_steps_ema ?sa + 1\<rparr>) beta (zip ps es) = Inr (upd, g)"
    using l ema_loop_stage [of "?sa\<lparr>time_steps_ema := time_steps_ema ?sa + 1\<rparr>" s beta "zip ps es"]
    by simp
  have B: "moving_average ?sa ps es beta = Inr (?s1, upd @ drop (length upd) es, g)"
    using moving_average_fire [OF _ nz fire l1] acc by simp
  \<comment> \<open>the calls after the update\<close>
  have idle_b: "\<forall>j. 1 \<le> j \<and> j \<le> b \<longrightarrow> (time_steps_ema ?s1 + int j) mod acc \<noteq> 0"
  proof (intro allI impI)
    fix j :: nat assume j: "1 \<le> j \<and> j \<le> b"
    have "(acc * (c div acc + 1) + int j) mod acc = int j mod acc"
      by simp
    also have "\<dots> = int j"
    proof (intro mod_pos_pos_trivial)
      show "0 \<le> int j" by simp
      have "int j \<le> r" using j by (simp add: b_def) linarith
      then show "int j < acc" using r by simp
    qed
    finally show "(time_steps_ema ?s1 + int j) mod acc \<noteq> 0"
      using j ca by simp
  qed
  have C: "moving_average_calls b ?s1 ps (upd @ drop (length upd) es) beta =
             Inr (?s1\<lparr>time_steps_ema := time_steps_ema ?s1 + int b\<rparr>, upd @ drop (length upd) es)"
    using moving_average_calls_idle [OF _ nz idle_b] acc by simp
  have tot: "c + int a + 1 + int b = c + acc" using r by (simp add: a_def b_def)
  have "moving_average_calls (nat acc) s ps es beta =
          Inr (s\<lparr>time_steps_ema := c + acc\<rparr>, upd @ drop (length upd) es)"
    unfolding split moving_average_calls_add [of a "1 + b"] A
    using B C tot by simp
  with l show ?thesis by (auto simp: c_def)
qed

lemma setup_distributed_accumulated:
  assumes "setup_distributed s0 d = Inr s"
  shows "accumulated_gradient s =
           Some (train_batch_size s0 div micro_train_batch_size s0 div int (get_world_size d))
         \<and> world_size s = Some (get_world_size d)"
  using assms by (auto simp: setup_distributed_def Let_def split: if_splits)

lemma moving_average_keeps_accumulated:
  assumes "moving_average s ps es beta = Inr (s', es', g)"
  shows "accumulated_gradient s' = accumulated_gradient s \<and> stage s' = stage s"
  using assms
  by (auto simp: moving_average_def Let_def split: option.splits if_splits sum.splits prod.splits)

text \<open>
  Claim C3. Let \<open>acc\<close> be \<^verbatim>\<open>self.accumulated_gradient\<close>, which \<^verbatim>\<open>setup_distributed\<close> computes
  as \<^verbatim>\<open>train_batch_size // micro_train_batch_size // world_size\<close>. A call of
  \<^verbatim>\<open>moving_average\<close> whose incremented counter is not divisible by \<open>acc\<close> only advances the
  counter: the shadow parameters are returned as they were and no gather scope is
  entered (for \<open>acc = 0\<close> the call raises \<^verbatim>\<open>ZeroDivisionError\<close> before it touches them).
  For \<open>acc \<ge> 1\<close> and parameter pairs of equal size, \<open>acc\<close> successive calls with the same
  \<open>beta\<close> and the same live parameters, from any counter value, return, and leave in
  every shadow parameter whose live partner has \<^verbatim>\<open>requires_grad\<close> the value
  \<open>beta * S + (1 - beta) * L\<close>, element by element, and every other shadow parameter
  unchanged. A shadow parameter whose live partner has \<^verbatim>\<open>requires_grad = False\<close> is the
  same after any number of calls.
\<close>

theorem moving_average_schedule:
  assumes "accumulated_gradient s = Some acc"
  shows "(setup_distributed s0 d = Inr s \<longrightarrow>
            acc = train_batch_size s0 div micro_train_batch_size s0 div int (get_world_size d))
       \<and> (acc = 0 \<longrightarrow> moving_average s ps es beta = Inl ZeroDivisionError)
       \<and> (acc \<noteq> 0 \<and> (time_steps_ema s + 1) mod acc \<noteq> 0 \<longrightarrow>
            moving_average s ps es beta =
              Inr (s\<lparr>time_steps_ema := time_steps_ema s + 1\<rparr>, es, []))
       \<and> (1 \<le> acc \<and>
            (\<forall>(p, e) \<in> set (zip ps es). requires_grad p \<longrightarrow> length (data p) = length (data e)) \<longrightarrow>
            (\<exists>s' es'. moving_average_calls (nat acc) s ps es beta = Inr (s', es')
               \<and> time_steps_ema s' = time_steps_ema s + acc
               \<and> length es' = length es
               \<and> (\<forall>i < length es.
                     es' ! i =
                       (if i < length ps \<and> requires_grad (ps ! i)
                        then (es ! i)\<lparr>data := map2 (\<lambda>l sh. beta * sh + (1 - beta) * l)
                                                  (data (ps ! i)) (data (es ! i))\<rparr>
                        else es ! i))))
       \<and> (\<forall>n s' es' i.
             moving_average_calls n s ps es beta = Inr (s', es') \<and> i < length es
               \<and> (i < length ps \<longrightarrow> \<not> requires_grad (ps ! i)) \<longrightarrow>
             es' ! i = es ! i)"
proof (intro conjI impI allI)
  assume "setup_distributed s0 d = Inr s"
  from setup_distributed_accumulated [OF this] assms
  show "acc = train_batch_size s0 div micro_train_batch_size s0 div int (get_world_size d)"
    by simp
next
  assume "acc = 0"
  with assms show "moving_average s ps es beta = Inl ZeroDivisionError"
    by (simp add: moving_average_zero)
next
  assume "acc \<noteq> 0 \<and> (time_steps_ema s + 1) mod acc \<noteq> 0"
  with assms show "moving_average s ps es beta =
      Inr (s\<lparr>time_steps_ema := time_steps_ema s + 1\<rparr>, es, [])"
    by (simp add: moving_average_idle)
next
  assume h: "1 \<le> acc \<and>
    (\<forall>(p, e) \<in> set (zip ps es). requires_grad p \<longrightarrow> length (data p) = length (data e))"
  then have pos: "1 \<le> acc"
    and shape: "\<forall>(p, e) \<in> set (zip ps es). requires_grad p \<longrightarrow> length (data p) = length (data e)"
    by simp_all
  from moving_average_window [OF assms pos shape, of beta]
  obtain upd g where l: "ema_loop s beta (zip ps es) = Inr (upd, g)"
    and run: "moving_average_calls (nat acc) s ps es beta =
               Inr (s\<lparr>time_steps_ema := time_steps_ema s + acc\<rparr>, upd @ drop (length upd) es)"
    by blast
  show "\<exists>s' es'. moving_average_calls (nat acc) s ps es beta = Inr (s', es')
               \<and> time_steps_ema s' = time_steps_ema s + acc
               \<and> length es' = length es
               \<and> (\<forall>i < length es.
                     es' ! i =
                       (if i < length ps \<and> requires_grad (ps ! i)
                        then (es ! i)\<lparr>data := map2 (\<lambda>l sh. beta * sh + (1 - beta) * l)
                                                  (data (ps ! i)) (data (es ! i))\<rparr>
                        else es ! i))"
  proof (intro exI conjI allI impI)
    show "moving_average_calls (nat acc) s ps es beta =
            Inr (s\<lparr>time_steps_ema := time_steps_ema s + acc\<rparr>, upd @ drop (length upd) es)"
      by (rule run)
    show "time_steps_ema (s\<lparr>time_steps_ema := time_steps_ema s + acc\<rparr>) = time_steps_ema s + acc"
      by simp
    show "length (upd @ drop (length upd) es) = length es"
      by (rule ema_result_length [OF l])
  next
    fix i assume "i < length es"
    then show "(upd @ drop (length upd) es) ! i =
                 (if i < length ps \<and> requires_grad (ps ! i)
                  then (es ! i)\<lparr>data := map2 (\<lambda>l sh. beta * sh + (1 - beta) * l)
                                            (data (ps ! i)) (data (es ! i))\<rparr>
                  else es ! i)"
      by (rule ema_result_nth [OF l])
  qed
next
  fix n s' es' i
  assume h: "moving_average_calls n s ps es beta = Inr (s', es') \<and> i < length es
               \<and> (i < length ps \<longrightarrow> \<not> requires_grad (ps ! i))"
  then show "es' ! i = es ! i"
    using moving_average_calls_frame [of n s ps es beta s' es' i] by simp
qed

lemma example_setup:
  "setup_distributed example_strategy (rank_of 0 2) = Inr example_ready"
  by (simp add: setup_distributed_def example_strategy_def example_ready_def rank_of_def)

theorem moving_average_schedule_witness:
  "accumulated_gradient example_ready = Some 2
   \<and> setup_distributed example_strategy (rank_of 0 2) = Inr example_ready
   \<and> moving_average example_ready example_live example_shadow (1 / 2) =
       Inr (example_ready\<lparr>time_steps_ema := 1\<rparr>, example_shadow, [])
   \<and> (\<exists>s' es'. moving_average_calls 2 example_ready example_live example_shadow (1 / 2) = Inr (s', es')
         \<and> time_steps_ema s' = 2
         \<and> data (es' ! 0) = [3, 4]
         \<and> es' ! 1 = example_shadow ! 1)"
proof -
  have acc: "accumulated_gradient example_ready = Some 2"
    by (simp add: example_ready_def)
  have ts: "time_steps_ema example_ready = 0"
    by (simp add: example_ready_def example_strategy_def)
  have shape: "\<forall>(p, e) \<in> set (zip example_live example_shadow).
                 requires_grad p \<longrightarrow> length (data p) = length (data e)"
    by (simp add: example_live_def example_shadow_def)
  note th = moving_average_schedule [OF acc, of example_strategy "rank_of 0 2"
      example_live example_shadow "1 / 2"]
  from th have idle: "moving_average example_ready example_live example_shadow (1 / 2) =
       Inr (example_ready\<lparr>time_steps_ema := 1\<rparr>, example_shadow, [])"
    using ts by simp
  from th shape obtain s' es' where
    run: "moving_average_calls (nat 2) example_ready example_live example_shadow (1 / 2) = Inr (s', es')"
    and t: "time_steps_ema s' = time_steps_ema example_ready + 2"
    and nth: "\<forall>i < length example_shadow.
       es' ! i =
         (if i < length example_live \<and> requires_grad (example_live ! i)
          then (example_shadow ! i)\<lparr>data := map2 (\<lambda>l sh. (1 / 2) * sh + (1 - 1 / 2) * l)
                                    (data (example_live ! i)) (data (example_shadow ! i))\<rparr>
          else example_shadow ! i)"
    by auto
  have n0: "data (es' ! 0) = [3, 4]"
    using nth [rule_format, of 0] by (simp add: example_live_def example_shadow_def)
  have n1: "es' ! 1 = example_shadow ! 1"
    using nth [rule_format, of 1] by (simp add: example_live_def example_shadow_def)
  have "nat 2 = (2::nat)" by simp
  with run t ts n0 n1 acc idle example_setup show ?thesis by auto
qed

section \<open>Properties of the rounding\<close>

lemma bit_length_le: "n < 2 ^ m \<Longrightarrow> bit_length n \<le> m"
proof (induction m arbitrary: n)
  case 0
  then show ?case by (simp add: bit_length.simps)
next
  case (Suc m)
  show ?case
  proof (cases "n = 0")
    case True
    then show ?thesis by (simp add: bit_length.simps)
  next
    case False
    have "n div 2 < 2 ^ m" using Suc.prems by auto
    then have "bit_length (n div 2) \<le> m" by (rule Suc.IH)
    with False show ?thesis by (subst bit_length.simps) simp
  qed
qed

lemma bit_length_pos: "n \<noteq> 0 \<Longrightarrow> 0 < bit_length n"
  by (subst bit_length.simps) simp

lemma bit_length_numeral:
  "bit_length (numeral n) = Suc (bit_length (numeral n div 2))"
  "bit_length 0 = 0" "bit_length 1 = 1" "bit_length (Suc 0) = 1"
  by (simp_all add: bit_length.simps)

lemma round_half_even_of_int: "round_half_even (of_int z) = z"
  by (simp add: round_half_even_def)

text \<open>An integer of at most \<open>p\<close> bits is a number of the format: rounding keeps it.\<close>

lemma fp_round_of_int:
  assumes "\<bar>z\<bar> < 2 ^ p" and "emin \<le> 0" and "0 < p"
  shows "fp_round p emin (of_int z) = of_int z"
proof (cases "z = 0")
  case True
  then show ?thesis by (simp add: fp_round_def)
next
  case False
  define n where "n = nat \<bar>z\<bar>"
  have n: "n \<noteq> 0" "n < 2 ^ p" "int n = \<bar>z\<bar>"
    using False assms(1) by (simp_all add: n_def nat_less_iff)
  have ge1: "(1::rat) \<le> \<bar>of_int z\<bar>"
  proof -
    have "1 \<le> \<bar>z\<bar>" using False by simp
    then have "(of_int 1 :: rat) \<le> of_int \<bar>z\<bar>" by (simp only: of_int_le_iff)
    then show ?thesis by simp
  qed
  have fl: "nat \<lfloor>\<bar>of_int z :: rat\<bar>\<rfloor> = n"
    by (simp add: n_def flip: of_int_abs)
  define e where "e = int (bit_length n) - 1"
  have il: "ilog2 \<bar>of_int z\<bar> = e"
    using ge1 fl by (simp add: ilog2_def e_def)
  have e0: "0 \<le> e" using bit_length_pos [OF n(1)] by (simp add: e_def)
  have ep: "e \<le> int p - 1" using bit_length_le [OF n(2)] by (simp add: e_def)
  define m where "m = nat (int p - 1 - e)"
  have q: "pow2 (e - int p + 1) = 1 / 2 ^ m"
  proof (cases "e = int p - 1")
    case True
    then show ?thesis by (simp add: pow2_def m_def)
  next
    case False
    with ep have "e - int p + 1 < 0" by simp
    moreover have "nat (- (e - int p + 1)) = m" by (simp add: m_def)
    ultimately show ?thesis by (simp add: pow2_def)
  qed
  have "of_int z * 2 ^ m = (of_int (z * 2 ^ m) :: rat)" by simp
  then have r: "round_half_even (of_int z * 2 ^ m) = z * 2 ^ m"
    by (simp only: round_half_even_of_int)
  have mx: "max e emin = e" using e0 assms(2) by simp
  have "fp_round p emin (of_int z) =
          of_int (round_half_even (of_int z / pow2 (e - int p + 1))) * pow2 (e - int p + 1)"
    using False by (simp only: fp_round_def Let_def il mx of_int_eq_0_iff if_False)
  also have "\<dots> = of_int (round_half_even (of_int z * 2 ^ m)) * (1 / 2 ^ m)"
    by (simp only: q) simp
  also have "\<dots> = of_int z" by (simp only: r) simp
  finally show ?thesis .
qed

lemma float64_of_int: "\<bar>z\<bar> < 2 ^ 53 \<Longrightarrow> float64 (of_int z) = of_int z"
  unfolding float64_def by (rule fp_round_of_int) simp_all

lemma float32_of_int: "\<bar>z\<bar> < 2 ^ 24 \<Longrightarrow> float32 (of_int z) = of_int z"
  unfolding float32_def by (rule fp_round_of_int) simp_all

lemma pow2_numeral [simp]: "pow2 (numeral n) = 2 ^ numeral n"
  by (simp add: pow2_def)

lemma small_int_bounds:
  assumes "\<bar>z\<bar> < 2 ^ 24"
  shows "\<bar>of_int z :: rat\<bar> < 2 ^ 128" and "\<bar>of_int z :: rat\<bar> < 2 ^ 1024" and "\<bar>z\<bar> < 2 ^ 53"
proof -
  have a: "\<bar>of_int z :: rat\<bar> < 2 ^ 24"
  proof -
    have "(of_int \<bar>z\<bar> :: rat) < of_int (2 ^ 24)" using assms by (simp only: of_int_less_iff)
    then show ?thesis by simp
  qed
  have "(2::rat) ^ 24 \<le> 2 ^ 128" by (rule power_increasing) simp_all
  with a show "\<bar>of_int z :: rat\<bar> < 2 ^ 128" by simp
  have "(2::rat) ^ 24 \<le> 2 ^ 1024" by (rule power_increasing) simp_all
  with a show "\<bar>of_int z :: rat\<bar> < 2 ^ 1024" by simp
  have "(2::int) ^ 24 \<le> 2 ^ 53" by (rule power_increasing) simp_all
  with assms show "\<bar>z\<bar> < 2 ^ 53" by simp
qed

text \<open>An integer below \<open>2 ^ 24\<close> in magnitude is stored as it is.\<close>

lemma small_int_exact:
  assumes "\<bar>z\<bar> < 2 ^ 24"
  shows "float32 (float64 (of_int z)) = of_int z"
    and "numbers_in_range (PyInt z)" and "numbers_exact (PyInt z)"
    and "as_tensor (PyInt z) = Inr (False, Cpu, Floating, 1, [of_int z])"
proof -
  have f64: "float64 (of_int z) = of_int z"
    using small_int_bounds(3) [OF assms] by (rule float64_of_int)
  have f32: "float32 (of_int z) = of_int z" using assms by (rule float32_of_int)
  show "float32 (float64 (of_int z)) = of_int z" by (simp only: f64 f32)
  show "numbers_in_range (PyInt z)"
    using small_int_bounds(1,2) [OF assms] by (simp add: f64 f32)
  show "numbers_exact (PyInt z)" by (simp add: f64 f32)
  show "as_tensor (PyInt z) = Inr (False, Cpu, Floating, 1, [of_int z])"
    using small_int_bounds(1,2) [OF assms]
    by (simp add: int_as_double_def double_as_float32_def f64 f32)
qed

text \<open>\<open>2 ^ 24 + 1\<close> is the least positive integer that is not a \<^verbatim>\<open>float32\<close> number: it
  lies half way between two of them and goes to the even one.\<close>

lemma float32_16777217: "float32 (float64 16777217) = 16777216"
proof -
  have f64: "float64 16777217 = 16777217"
    using float64_of_int [of 16777217] by simp
  have il: "ilog2 16777217 = 24" by (simp add: ilog2_def bit_length_numeral)
  have fl: "\<lfloor>(16777217::rat) / 2\<rfloor> = 8388608" by (rule floor_unique) simp_all
  have "float32 16777217 = 16777216"
    by (simp add: float32_def fp_round_def il pow2_def round_half_even_def Let_def fl)
  with f64 show ?thesis by simp
qed

lemma as_tensor_16777217:
  "as_tensor (PyInt 16777217) = Inr (False, Cpu, Floating, 1, [16777216])"
proof -
  have f64: "float64 16777217 = 16777217"
    using float64_of_int [of 16777217] by simp
  have f32: "float32 16777217 = 16777216" using float32_16777217 by (simp only: f64)
  show ?thesis by (simp add: int_as_double_def double_as_float32_def f64 f32)
qed

text \<open>The Python float \<^verbatim>\<open>0.1\<close> (the binary64 number nearest to one tenth) is not a
  \<^verbatim>\<open>float32\<close> number either: it is stored as 0.100000001490116...\<close>

lemma float32_tenth:
  "float32 (3602879701896397 / 36028797018963968) = 13421773 / 134217728"
proof -
  have il: "ilog2 (3602879701896397 / 36028797018963968) = - 4"
  proof -
    have c: "\<lceil>(36028797018963968::rat) / 3602879701896397\<rceil> = 10"
      by (rule ceiling_unique) simp_all
    show ?thesis by (simp add: ilog2_def c bit_length_numeral)
  qed
  have fl: "\<lfloor>(3602879701896397::rat) / 268435456\<rfloor> = 13421772"
    by (rule floor_unique) simp_all
  have q: "pow2 (- 4 - int 24 + 1) = 1 / 134217728" by (simp add: pow2_def)
  have x: "(3602879701896397 / 36028797018963968) / (1 / 134217728) = (3602879701896397::rat) / 268435456"
    by simp
  have r: "round_half_even (3602879701896397 / 268435456) = 13421773"
    by (simp add: round_half_even_def Let_def fl)
  have "float32 (3602879701896397 / 36028797018963968) = of_int 13421773 * (1 / 134217728)"
  proof -
    have ab: "\<bar>3602879701896397 / 36028797018963968 :: rat\<bar> = 3602879701896397 / 36028797018963968"
      by simp
    have mx: "max (- 4 :: int) (- 126) = - 4" by simp
    have nz: "(3602879701896397 / 36028797018963968 :: rat) = 0 \<longleftrightarrow> False" by simp
    show ?thesis
      unfolding float32_def fp_round_def Let_def
      by (simp only: ab il mx q x r nz if_False)
  qed
  then show ?thesis by simp
qed

lemma as_tensor_tenth:
  "as_tensor (PyFloat (3602879701896397 / 36028797018963968)) =
     Inr (False, Cpu, Floating, 1, [13421773 / 134217728])"
  by (simp add: double_as_float32_def float32_tenth)

section \<open>Properties of all_reduce\<close>

lemma length_dist_all_reduce [simp]:
  "length (dist_all_reduce d k use_max buf) = length buf"
proof -
  have "length (fold (\<lambda>i acc. map2 f acc (received d k n i)) rs buf) = min (length buf) n" 
    if "length buf \<le> n" for rs n f
    using that by (induction rs arbitrary: buf) (simp_all add: received_def)
  from this [of "length buf"] show ?thesis by (simp add: dist_all_reduce_def)
qed

lemma fold_map2_nth:
  assumes "length acc = n" and "j < n"
  shows "fold (\<lambda>i acc. map2 f acc (received d k n i)) rs acc ! j =
           fold (\<lambda>i a. f a (peer_buffers d k i j)) rs (acc ! j)"
  using assms
proof (induction rs arbitrary: acc)
  case Nil
  then show ?case by simp
next
  case (Cons i rs)
  let ?acc = "map2 f acc (received d k n i)"
  have len: "length ?acc = n" using Cons.prems by (simp add: received_def)
  have nth: "?acc ! j = f (acc ! j) (peer_buffers d k i j)"
    using Cons.prems by (simp add: received_def)
  show ?case using Cons.IH [OF len Cons.prems(2)] by (simp add: nth)
qed

lemma fold_plus_sum_list:
  "fold (\<lambda>i a. a + f i) rs (a::rat) = a + sum_list (map f rs)"
  by (induction rs arbitrary: a) (simp_all add: add.assoc)

lemma fold_max_Max:
  "fold (\<lambda>i a. max a (f i)) rs (a::rat) = Max (set (a # map f rs))"
proof -
  have "(\<lambda>i a. max a (f i)) = max \<circ> f" by (auto simp: fun_eq_iff max.commute)
  then have "fold (\<lambda>i a. max a (f i)) rs a = fold max (map f rs) a"
    by (simp add: fold_map)
  then show ?thesis by (simp only: Max.set_eq_fold)
qed

lemma sum_list_own:
  assumes "distinct xs" and "r \<in> set xs"
  shows "sum_list (map (\<lambda>i. if i = r then own else f i) xs) =
           (own::rat) + sum_list (map f (filter (\<lambda>i. i \<noteq> r) xs))"
  using assms
proof (induction xs)
  case Nil
  then show ?case by simp
next
  case (Cons x xs)
  show ?case
  proof (cases "x = r")
    case True
    then have "r \<notin> set xs" using Cons.prems(1) by simp
    then have m: "map (\<lambda>i. if i = r then own else f i) xs = map f xs"
      and fl: "filter (\<lambda>i. i \<noteq> r) xs = xs"
      by (auto simp: filter_id_conv)
    show ?thesis using True by (simp add: fl) (simp only: m)
  next
    case False
    then have "r \<in> set xs" and "distinct xs" using Cons.prems by auto
    with Cons.IH False show ?thesis by simp
  qed
qed

lemma set_own:
  assumes "r \<in> set xs"
  shows "set (map (\<lambda>i. if i = r then own else f i) xs) =
           set (own # map f (filter (\<lambda>i. i \<noteq> r) xs))"
  using assms by auto

text \<open>An element of the buffer \<^verbatim>\<open>dist.all_reduce\<close> leaves is the sum, or the greatest,
  of what the ranks of the group bring to it.\<close>

lemma dist_all_reduce_element:
  assumes "get_rank d < get_world_size d" and "j < length buf"
  shows "dist_all_reduce d k (opr = ''max'') buf ! j = reduced_element d k opr j (buf ! j)"
proof -
  let ?f = "\<lambda>i. peer_buffers d k i j"
  have r: "get_rank d \<in> set [0..<get_world_size d]" using assms(1) by simp
  have c: "contribution d k j (buf ! j) = (\<lambda>i. if i = get_rank d then buf ! j else ?f i)"
    by (simp add: contribution_def fun_eq_iff)
  have nth: "dist_all_reduce d k (opr = ''max'') buf ! j =
      fold (\<lambda>i a. (if opr = ''max'' then max else (+)) a (?f i)) (other_ranks d) (buf ! j)"
    unfolding dist_all_reduce_def using assms(2) by (intro fold_map2_nth) simp_all
  show ?thesis
  proof (cases "opr = ''max''")
    case True
    have "dist_all_reduce d k (opr = ''max'') buf ! j = Max (set (buf ! j # map ?f (other_ranks d)))"
      unfolding nth using True by (simp add: fold_max_Max del: set_simps list.map)
    also have "\<dots> = Max (set (map (contribution d k j (buf ! j)) [0..<get_world_size d]))"
      unfolding c other_ranks_def by (simp only: set_own [OF r])
    finally show ?thesis using True by (simp add: reduced_element_def)
  next
    case False
    have "dist_all_reduce d k (opr = ''max'') buf ! j = buf ! j + sum_list (map ?f (other_ranks d))"
      unfolding nth using False by (simp add: fold_plus_sum_list)
    also have "\<dots> = sum_list (map (contribution d k j (buf ! j)) [0..<get_world_size d])"
      unfolding c other_ranks_def by (simp only: sum_list_own [OF distinct_upt r])
    finally show ?thesis using False by (simp add: reduced_element_def)
  qed
qed

lemma dist_all_reduce_spec:
  assumes "get_rank d < get_world_size d"
  shows "dist_all_reduce d k (opr = ''max'') buf =
           map (\<lambda>j. reduced_element d k opr j (buf ! j)) [0..<length buf]"
  by (rule nth_equalityI) (simp_all add: dist_all_reduce_element [OF assms])

lemma own_share_mean:
  "world_size s = Some ws \<Longrightarrow> own_share s ''mean'' x = x / of_nat ws"
  by (simp add: own_share_def)

lemma own_share_other: "opr \<noteq> ''mean'' \<Longrightarrow> own_share s opr x = x"
  by (simp add: own_share_def)

lemma all_reduce_leaf_tensor:
  assumes "get_rank d < get_world_size d"
    and "opr = ''mean'' \<longrightarrow> (\<exists>ws. world_size s = Some ws \<and> ws \<noteq> 0) \<and> dt = Floating"
  shows "all_reduce_leaf s d opr (Tensor dev dt nd xs) k =
           Inr (reduce_spec s d opr (Tensor dev dt nd xs) k)"
proof (cases "opr = ''mean''")
  case True
  with assms(2) obtain ws where ws: "world_size s = Some ws" "ws \<noteq> 0" and dt: "dt = Floating"
    by blast
  have "dist_all_reduce d k (opr = ''max'') (map (\<lambda>x. x / of_nat ws) xs) =
          map (\<lambda>j. reduced_element d k opr j (own_share s opr (xs ! j))) [0..<length xs]"
    unfolding dist_all_reduce_spec [OF assms(1)] using True ws
    by (simp add: own_share_mean)
  with True ws dt show ?thesis by (cases dev) (simp_all add: all_reduce_leaf_def)
next
  case False
  have "dist_all_reduce d k (opr = ''max'') xs =
          map (\<lambda>j. reduced_element d k opr j (own_share s opr (xs ! j))) [0..<length xs]"
    unfolding dist_all_reduce_spec [OF assms(1)] using False
    by (simp add: own_share_other)
  with False show ?thesis by (cases dev) (simp_all add: all_reduce_leaf_def)
qed

lemma all_reduce_leaf_scalar:
  assumes "get_rank d < get_world_size d"
    and "opr = ''mean'' \<longrightarrow> (\<exists>ws. world_size s = Some ws \<and> ws \<noteq> 0)"
    and "as_tensor v = Inr (False, Cpu, Floating, nd, [y])"
  shows "all_reduce_leaf s d opr v k =
           Inr (PyFloat (reduced_element d k opr 0 (own_share s opr y)))"
proof (cases "opr = ''mean''")
  case True
  with assms(2) obtain ws where ws: "world_size s = Some ws" "ws \<noteq> 0" by blast
  have "dist_all_reduce d k (opr = ''max'') [y / of_nat ws] =
          [reduced_element d k opr 0 (own_share s opr y)]"
    unfolding dist_all_reduce_spec [OF assms(1)] using True ws
    by (simp add: own_share_mean)
  with True ws assms(3) show ?thesis by (simp add: all_reduce_leaf_def item_def)
next
  case False
  have "dist_all_reduce d k (opr = ''max'') [y] =
          [reduced_element d k opr 0 (own_share s opr y)]"
    unfolding dist_all_reduce_spec [OF assms(1)] using False
    by (simp add: own_share_other)
  with False assms(3) show ?thesis by (simp add: all_reduce_leaf_def item_def)
qed

lemma as_tensor_number:
  "numbers_in_range (PyInt n) \<Longrightarrow>
     as_tensor (PyInt n) = Inr (False, Cpu, Floating, 1, [float32 (float64 (of_int n))])"
  "numbers_in_range (PyFloat x) \<Longrightarrow>
     as_tensor (PyFloat x) = Inr (False, Cpu, Floating, 1, [float32 x])"
  by (simp_all add: int_as_double_def double_as_float32_def Let_def)
text \<open>The method computes what the description asks for.\<close>

lemma all_reduce_spec:
  assumes "opr \<in> {''mean'', ''max'', ''sum''}"
    and "get_rank d < get_world_size d"
    and "opr = ''mean'' \<longrightarrow> (\<exists>ws. world_size s = Some ws \<and> ws \<noteq> 0)"
  shows "numbers_in_range v \<Longrightarrow> (opr = ''mean'' \<longrightarrow> floating_leaves v) \<Longrightarrow>
           all_reduce s d opr v k = Inr (reduce_spec s d opr v k, k + count_leaves v)"
    and "numbers_in_range_items kvs \<Longrightarrow> (opr = ''mean'' \<longrightarrow> floating_leaves_items kvs) \<Longrightarrow>
           all_reduce_items s d opr kvs k =
             Inr (reduce_spec_items s d opr kvs k, k + count_leaves_items kvs)"
proof (induction v and kvs arbitrary: k and k rule: count_leaves_count_leaves_items.induct)
  case (1 kvs)
  then have "all_reduce_items s d opr kvs k =
               Inr (reduce_spec_items s d opr kvs k, k + count_leaves_items kvs)"
    by simp
  with assms(1) show ?case by simp
next
  case (2 n)
  have "all_reduce_leaf s d opr (PyInt n) k = Inr (reduce_spec s d opr (PyInt n) k)"
    using all_reduce_leaf_scalar [OF assms(2,3) as_tensor_number(1) [OF "2.prems"(1)]] by simp
  with assms(1) show ?case by simp
next
  case (3 x)
  have "all_reduce_leaf s d opr (PyFloat x) k = Inr (reduce_spec s d opr (PyFloat x) k)"
    using all_reduce_leaf_scalar [OF assms(2,3) as_tensor_number(2) [OF "3.prems"(1)]] by simp
  with assms(1) show ?case by simp
next
  case (4 dev dt nd xs)
  have "opr = ''mean'' \<longrightarrow> (\<exists>ws. world_size s = Some ws \<and> ws \<noteq> 0) \<and> dt = Floating"
    using assms(3) "4.prems"(2) by simp
  from all_reduce_leaf_tensor [OF assms(2) this]
  have "all_reduce_leaf s d opr (Tensor dev dt nd xs) k =
          Inr (reduce_spec s d opr (Tensor dev dt nd xs) k)" .
  with assms(1) show ?case by simp
next
  case 5
  show ?case by simp
next
  case (6 key v rest)
  have r: "all_reduce s d opr v k = Inr (reduce_spec s d opr v k, k + count_leaves v)"
    using "6.IH"(1) "6.prems" by simp
  have ret: "all_reduce_items s d opr rest (k + count_leaves v) =
        Inr (reduce_spec_items s d opr rest (k + count_leaves v),
             k + count_leaves v + count_leaves_items rest)"
    using "6.IH"(2) "6.prems" by simp
  show ?case using r ret by (simp add: add.assoc)
qed

lemma reduce_spec_items_keys: "map fst (reduce_spec_items s d opr kvs k) = map fst kvs"
  by (induction kvs arbitrary: k) auto

lemma count_leaves_items_take_Suc:
  "i < length kvs \<Longrightarrow>
     count_leaves_items (take (Suc i) kvs) =
       count_leaves_items (take i kvs) + count_leaves (snd (kvs ! i))"
proof (induction kvs arbitrary: i)
  case Nil
  then show ?case by simp
next
  case (Cons kv kvs)
  obtain key v where kv: "kv = (key, v)" by (cases kv)
  show ?case
  proof (cases i)
    case 0
    with kv show ?thesis by simp
  next
    case (Suc j)
    with Cons kv show ?thesis by simp
  qed
qed

text \<open>Entry \<open>i\<close> of a reduced \<^verbatim>\<open>dict\<close> is entry \<open>i\<close> reduced alone: of the entries before
  it only the number of their leaves enters.\<close>

lemma reduce_spec_items_nth:
  "i < length kvs \<Longrightarrow>
     reduce_spec_items s d opr kvs k ! i =
       (fst (kvs ! i), reduce_spec s d opr (snd (kvs ! i)) (k + count_leaves_items (take i kvs)))"
proof (induction kvs arbitrary: k i)
  case Nil
  then show ?case by simp
next
  case (Cons kv kvs)
  obtain key v where kv: "kv = (key, v)" by (cases kv)
  show ?case
  proof (cases i)
    case 0
    with kv show ?thesis by simp
  next
    case (Suc j)
    then have "j < length kvs" using Cons.prems by simp
    from Cons.IH [OF this, of "k + count_leaves v"] Suc kv show ?thesis
      by (simp add: add.assoc)
  qed
qed

lemma leaves_nth:
  "i < length kvs \<Longrightarrow> numbers_in_range_items kvs \<Longrightarrow> numbers_in_range (snd (kvs ! i))"
  "i < length kvs \<Longrightarrow> floating_leaves_items kvs \<Longrightarrow> floating_leaves (snd (kvs ! i))"
proof (induction kvs arbitrary: i)
  case Nil
  { case 1 then show ?case by simp }
  { case 2 then show ?case by simp }
next
  case (Cons kv kvs)
  obtain key v where kv: "kv = (key, v)" by (cases kv)
  { case 1 then show ?case using Cons.IH(1) kv by (cases i) simp_all }
  { case 2 then show ?case using Cons.IH(2) kv by (cases i) simp_all }
qed

lemma reduced_element_single:
  assumes "get_world_size d = 1" and "get_rank d = 0"
  shows "reduced_element d k opr j own = own"
  using assms by (simp add: reduced_element_def contribution_def)

lemma reduce_spec_single:
  assumes "get_world_size d = 1" and "get_rank d = 0"
    and "opr = ''mean'' \<longrightarrow> world_size s = Some 1"
  shows "numbers_exact v \<Longrightarrow> py_eq (reduce_spec s d opr v k) v"
    and "numbers_exact_items kvs \<Longrightarrow> py_eq_items (reduce_spec_items s d opr kvs k) kvs"
proof (induction v and kvs arbitrary: k and k rule: count_leaves_count_leaves_items.induct)
  case (1 kvs)
  then show ?case by simp
next
  case (2 n)
  have "own_share s opr x = x" for x using assms(3) by (simp add: own_share_def)
  with 2 show ?case by (simp add: reduced_element_single [OF assms(1,2)])
next
  case (3 x)
  have "own_share s opr x = x" for x using assms(3) by (simp add: own_share_def)
  with 3 show ?case by (simp add: reduced_element_single [OF assms(1,2)])
next
  case (4 dev dt nd xs)
  have "own_share s opr x = x" for x using assms(3) by (simp add: own_share_def)
  then show ?case by (simp add: reduced_element_single [OF assms(1,2)] map_nth)
next
  case 5
  show ?case by simp
next
  case (6 key v rest)
  then show ?case by simp
qed

text \<open>Under \<^verbatim>\<open>"mean"\<close> a tensor of integers stops the call.\<close>

lemma all_reduce_integral:
  assumes "opr = ''mean''"
    and "get_rank d < get_world_size d"
    and "world_size s = Some ws" and "ws \<noteq> 0"
  shows "numbers_in_range v \<Longrightarrow> \<not> floating_leaves v \<Longrightarrow>
           all_reduce s d opr v k =
             Inl (RuntimeError ''result type Float cannot be cast to the desired output type'')"
    and "numbers_in_range_items kvs \<Longrightarrow> \<not> floating_leaves_items kvs \<Longrightarrow>
           all_reduce_items s d opr kvs k =
             Inl (RuntimeError ''result type Float cannot be cast to the desired output type'')"
proof (induction v and kvs arbitrary: k and k rule: count_leaves_count_leaves_items.induct)
  case (1 kvs)
  then have "all_reduce_items s d opr kvs k =
      Inl (RuntimeError ''result type Float cannot be cast to the desired output type'')"
    by simp
  with assms(1) show ?case by simp
next
  case (2 n)
  then show ?case by simp
next
  case (3 x)
  then show ?case by simp
next
  case (4 dev dt nd xs)
  then have "dt = Integral" by (cases dt) simp_all
  with assms(1,3) show ?case by (simp add: all_reduce_leaf_def)
next
  case 5
  then show ?case by simp
next
  case (6 key v rest)
  have op_ok: "opr \<in> {''mean'', ''max'', ''sum''}" using assms(1) by simp
  have ws: "opr = ''mean'' \<longrightarrow> (\<exists>ws. world_size s = Some ws \<and> ws \<noteq> 0)"
    using assms(3,4) by simp
  show ?case
  proof (cases "floating_leaves v")
    case True
    have r: "all_reduce s d opr v k = Inr (reduce_spec s d opr v k, k + count_leaves v)"
      using all_reduce_spec(1) [OF op_ok assms(2) ws] "6.prems"(1) True by simp
    have "all_reduce_items s d opr rest (k + count_leaves v) =
        Inl (RuntimeError ''result type Float cannot be cast to the desired output type'')"
      using "6.IH"(2) "6.prems" True by simp
    with r show ?thesis by simp
  next
    case False
    have "all_reduce s d opr v k =
        Inl (RuntimeError ''result type Float cannot be cast to the desired output type'')"
      using "6.IH"(1) "6.prems"(1) False by simp
    then show ?thesis by simp
  qed
qed

text \<open>Under \<^verbatim>\<open>"mean"\<close>, when every rank brings its value divided by \<^verbatim>\<open>world_size\<close>, a
  reduced element is the sum of the values divided by \<^verbatim>\<open>world_size\<close>.\<close>

lemma reduced_element_mean:
  assumes "\<forall>i < get_world_size d. contribution d k j own i = val i / of_nat ws"
  shows "reduced_element d k ''mean'' j own = sum_list (map val [0..<get_world_size d]) / of_nat ws"
proof -
  have a: "map (contribution d k j own) [0..<get_world_size d] =
          map (\<lambda>i. val i / of_nat ws) [0..<get_world_size d]"
    using assms by (intro map_cong) simp_all
  have b: "sum_list (map (\<lambda>i. val i / of_nat ws) xs) = sum_list (map val xs) / of_nat ws"
    for xs :: "nat list"
    by (induction xs) (simp_all add: add_divide_distrib)
  show ?thesis unfolding reduced_element_def a b by simp
qed
lemma item_reduce:
  "\<exists>x. dist_all_reduce d k use_max [y] = [x] \<and> item (dist_all_reduce d k use_max [y]) = Inr x"
proof -
  have "length (dist_all_reduce d k use_max [y]) = 1" by simp
  then obtain x where "dist_all_reduce d k use_max [y] = [x]"
    by (cases "dist_all_reduce d k use_max [y]") auto
  then show ?thesis by (simp add: item_def)
qed

lemma all_reduce_leaf_number:
  assumes "opr = ''mean'' \<longrightarrow> (\<exists>ws. world_size s = Some ws \<and> ws \<noteq> 0)"
    and "as_tensor v = Inr (False, Cpu, Floating, nd, [y])"
  shows "\<exists>x. all_reduce_leaf s d opr v k = Inr (PyFloat x)
           \<and> (opr \<noteq> ''mean'' \<longrightarrow> dist_all_reduce d k (opr = ''max'') [y] = [x])
           \<and> (\<forall>ws. opr = ''mean'' \<and> world_size s = Some ws \<longrightarrow>
                 dist_all_reduce d k False [y / of_nat ws] = [x])"
proof (cases "opr = ''mean''")
  case True
  with assms(1) obtain ws where ws: "world_size s = Some ws" "ws \<noteq> 0" by blast
  obtain x where "dist_all_reduce d k False [y / of_nat ws] = [x]"
    "item (dist_all_reduce d k False [y / of_nat ws]) = Inr x"
    using item_reduce by blast
  with True ws assms(2) show ?thesis by (simp add: all_reduce_leaf_def)
next
  case False
  obtain x where "dist_all_reduce d k (opr = ''max'') [y] = [x]"
    "item (dist_all_reduce d k (opr = ''max'') [y]) = Inr x"
    using item_reduce by blast
  with False assms(2) show ?thesis by (simp add: all_reduce_leaf_def)
qed

text \<open>Whatever the leaf branch returns for a value that is not a tensor is a Python
  float.\<close>

lemma all_reduce_leaf_returns_float:
  assumes "\<forall>dev dt nd xs. v \<noteq> Tensor dev dt nd xs"
    and "all_reduce_leaf s d opr v k = Inr r"
  shows "\<exists>x. r = PyFloat x"
proof -
  from assms(2) obtain is_tensor dev dt nd buf where
    a: "as_tensor v = Inr (is_tensor, dev, dt, nd, buf)"
    by (cases "as_tensor v") (auto simp: all_reduce_leaf_def)
  have "\<not> is_tensor" using a assms(1)
    by (cases v) (auto split: sum.splits)
  with assms(2) a show ?thesis
    by (auto simp: all_reduce_leaf_def Let_def map_sum_def split: sum.splits if_splits option.splits)
qed
text \<open>
  Claim C4, as stated: \<^verbatim>\<open>all_reduce\<close> returns a mapping for every mapping and every
  operation, and the mapping itself in a group of one process. Neither holds. A Python
  number is stored as a \<^verbatim>\<open>float32\<close> element: with one process and \<^verbatim>\<open>"sum"\<close> the integer
  16777217 (\<open>2 ^ 24 + 1\<close>) comes back as 16777216.0, which is not equal to it, and with
  \<^verbatim>\<open>"max"\<close> the float \<^verbatim>\<open>0.1\<close> comes back as 0.100000001490116... And under
  \<^verbatim>\<open>"mean"\<close> the in-place division refuses a tensor of integers: the call raises.
\<close>

theorem all_reduce_identity_counterexample:
  "all_reduce (example_strategy\<lparr>world_size := Some 1\<rparr>) (rank_of 0 1) ''sum''
     (Dict [(''n'', PyInt 16777217)]) 0 = Inr (Dict [(''n'', PyFloat 16777216)], 1)
   \<and> \<not> py_eq (Dict [(''n'', PyFloat 16777216)]) (Dict [(''n'', PyInt 16777217)])
   \<and> all_reduce (example_strategy\<lparr>world_size := Some 1\<rparr>) (rank_of 0 1) ''max''
       (Dict [(''x'', PyFloat (3602879701896397 / 36028797018963968))]) 0 =
       Inr (Dict [(''x'', PyFloat (13421773 / 134217728))], 1)
   \<and> \<not> py_eq (Dict [(''x'', PyFloat (13421773 / 134217728))])
           (Dict [(''x'', PyFloat (3602879701896397 / 36028797018963968))])
   \<and> all_reduce (example_strategy\<lparr>world_size := Some 1\<rparr>) (rank_of 0 1) ''mean''
       (Dict [(''c'', Tensor Cuda Integral 1 [1, 2])]) 0 =
       Inl (RuntimeError ''result type Float cannot be cast to the desired output type'')"
proof -
  have "all_reduce_leaf (example_strategy\<lparr>world_size := Some 1\<rparr>) (rank_of 0 1) ''sum''
          (PyInt 16777217) 0 = Inr (PyFloat 16777216)"
    by (simp add: all_reduce_leaf_def as_tensor_16777217 dist_all_reduce_def other_ranks_def
          rank_of_def item_def del: as_tensor.simps)
  then have one: "all_reduce (example_strategy\<lparr>world_size := Some 1\<rparr>) (rank_of 0 1) ''sum''
     (Dict [(''n'', PyInt 16777217)]) 0 = Inr (Dict [(''n'', PyFloat 16777216)], 1)"
    by simp
  have two: "\<not> py_eq (Dict [(''n'', PyFloat 16777216)]) (Dict [(''n'', PyInt 16777217)])"
    by simp
  have "all_reduce_leaf (example_strategy\<lparr>world_size := Some 1\<rparr>) (rank_of 0 1) ''max''
          (PyFloat (3602879701896397 / 36028797018963968)) 0 = Inr (PyFloat (13421773 / 134217728))"
    by (simp add: all_reduce_leaf_def as_tensor_tenth dist_all_reduce_def other_ranks_def
          rank_of_def item_def del: as_tensor.simps)
  then have tenth: "all_reduce (example_strategy\<lparr>world_size := Some 1\<rparr>) (rank_of 0 1) ''max''
       (Dict [(''x'', PyFloat (3602879701896397 / 36028797018963968))]) 0 =
       Inr (Dict [(''x'', PyFloat (13421773 / 134217728))], 1)"
    by simp
  have ne: "\<not> py_eq (Dict [(''x'', PyFloat (13421773 / 134217728))])
           (Dict [(''x'', PyFloat (3602879701896397 / 36028797018963968))])"
    by simp
  have three: "all_reduce (example_strategy\<lparr>world_size := Some 1\<rparr>) (rank_of 0 1) ''mean''
       (Dict [(''c'', Tensor Cuda Integral 1 [1, 2])]) 0 =
       Inl (RuntimeError ''result type Float cannot be cast to the desired output type'')"
    by (simp add: all_reduce_leaf_def)
  from one two tenth ne three show ?thesis by (intro conjI)
qed

text \<open>
  Claim C4, amended. Let \<open>opr\<close> be one of \<^verbatim>\<open>"mean"\<close>, \<^verbatim>\<open>"max"\<close>, \<^verbatim>\<open>"sum"\<close> (with
  \<^verbatim>\<open>self.world_size\<close> set and nonzero for \<^verbatim>\<open>"mean"\<close>), the caller a rank of the group,
  and every Python number in the \<^verbatim>\<open>dict\<close> within the range of \<^verbatim>\<open>float32\<close>. If under
  \<^verbatim>\<open>"mean"\<close> every tensor in it is of a floating-point type, \<^verbatim>\<open>all_reduce\<close> returns the
  \<^verbatim>\<open>dict\<close> the description asks for (\<open>reduce_spec\<close>): the same keys in the same order,
  and under each key the value reduced on its own, every element the sum (the
  greatest, for \<^verbatim>\<open>"max"\<close>) of what the ranks bring to it, a Python number entering as
  its \<^verbatim>\<open>float32\<close> value. Entry \<open>i\<close> is \<^verbatim>\<open>all_reduce\<close> of entry \<open>i\<close> alone at the call index
  reached there: the other entries enter through the number of their leaves only. In
  a group of one process the result equals the input as Python's \<^verbatim>\<open>==\<close> compares them,
  for all three operations, when every Python number in it is a \<^verbatim>\<open>float32\<close> value. If
  under \<^verbatim>\<open>"mean"\<close> some tensor is of an integer type, the call raises a
  \<^verbatim>\<open>RuntimeError\<close>. Under \<^verbatim>\<open>"mean"\<close> every rank brings its value divided by
  \<^verbatim>\<open>world_size\<close>, so that a reduced element is the sum of the values divided by
  \<^verbatim>\<open>world_size\<close>.
\<close>

theorem all_reduce_mapping:
  assumes "opr \<in> {''mean'', ''max'', ''sum''}"
    and "get_rank d < get_world_size d"
    and "opr = ''mean'' \<longrightarrow> (\<exists>ws. world_size s = Some ws \<and> ws \<noteq> 0)"
    and "numbers_in_range (Dict kvs)"
  shows "((opr = ''mean'' \<longrightarrow> floating_leaves (Dict kvs)) \<longrightarrow>
            all_reduce s d opr (Dict kvs) k =
              Inr (reduce_spec s d opr (Dict kvs) k, k + count_leaves (Dict kvs))
          \<and> dict_keys (reduce_spec s d opr (Dict kvs) k) = dict_keys (Dict kvs)
          \<and> (\<forall>i < length kvs.
                reduce_spec_items s d opr kvs k ! i =
                  (fst (kvs ! i),
                   reduce_spec s d opr (snd (kvs ! i)) (k + count_leaves_items (take i kvs)))
              \<and> all_reduce s d opr (snd (kvs ! i)) (k + count_leaves_items (take i kvs)) =
                  Inr (reduce_spec s d opr (snd (kvs ! i)) (k + count_leaves_items (take i kvs)),
                       k + count_leaves_items (take (Suc i) kvs)))
          \<and> (get_world_size d = 1 \<and> (opr = ''mean'' \<longrightarrow> world_size s = Some 1)
               \<and> numbers_exact (Dict kvs)
               \<longrightarrow> py_eq (reduce_spec s d opr (Dict kvs) k) (Dict kvs)))
       \<and> (opr = ''mean'' \<and> \<not> floating_leaves (Dict kvs) \<longrightarrow>
            all_reduce s d opr (Dict kvs) k =
              Inl (RuntimeError ''result type Float cannot be cast to the desired output type''))
       \<and> (\<forall>k' j own val ws.
            (\<forall>i < get_world_size d. contribution d k' j own i = val i / of_nat ws) \<longrightarrow>
            reduced_element d k' ''mean'' j own =
              sum_list (map val [0..<get_world_size d]) / of_nat ws)"
proof (intro conjI impI allI)
  assume fl: "opr = ''mean'' \<longrightarrow> floating_leaves (Dict kvs)"
  show "all_reduce s d opr (Dict kvs) k =
          Inr (reduce_spec s d opr (Dict kvs) k, k + count_leaves (Dict kvs))"
    using all_reduce_spec(1) [OF assms(1,2,3) assms(4) fl] .
  show "dict_keys (reduce_spec s d opr (Dict kvs) k) = dict_keys (Dict kvs)"
    by (simp add: reduce_spec_items_keys)
next
  fix i
  assume fl: "opr = ''mean'' \<longrightarrow> floating_leaves (Dict kvs)" and i: "i < length kvs"
  show "reduce_spec_items s d opr kvs k ! i =
          (fst (kvs ! i),
           reduce_spec s d opr (snd (kvs ! i)) (k + count_leaves_items (take i kvs)))"
    using i by (rule reduce_spec_items_nth)
  have nr: "numbers_in_range (snd (kvs ! i))"
    using leaves_nth(1) [OF i] assms(4) by simp
  have fli: "opr = ''mean'' \<longrightarrow> floating_leaves (snd (kvs ! i))"
    using leaves_nth(2) [OF i] fl by simp
  show "all_reduce s d opr (snd (kvs ! i)) (k + count_leaves_items (take i kvs)) =
          Inr (reduce_spec s d opr (snd (kvs ! i)) (k + count_leaves_items (take i kvs)),
               k + count_leaves_items (take (Suc i) kvs))"
    using all_reduce_spec(1) [OF assms(1,2,3) nr fli]
    by (simp add: count_leaves_items_take_Suc [OF i] add.assoc)
next
  assume one: "get_world_size d = 1 \<and> (opr = ''mean'' \<longrightarrow> world_size s = Some 1)
               \<and> numbers_exact (Dict kvs)"
  then have r0: "get_rank d = 0" using assms(2) by simp
  from one show "py_eq (reduce_spec s d opr (Dict kvs) k) (Dict kvs)"
    by (intro reduce_spec_single(1) r0) simp_all
next
  assume bad: "opr = ''mean'' \<and> \<not> floating_leaves (Dict kvs)"
  with assms(3) obtain ws where ws: "world_size s = Some ws" "ws \<noteq> 0" by blast
  from bad show "all_reduce s d opr (Dict kvs) k =
          Inl (RuntimeError ''result type Float cannot be cast to the desired output type'')"
    by (intro all_reduce_integral(1) [OF _ assms(2) ws] assms(4)) simp_all
next
  fix k' j own val ws
  assume "\<forall>i < get_world_size d. contribution d k' j own i = val i / of_nat ws"
  then show "reduced_element d k' ''mean'' j own =
          sum_list (map val [0..<get_world_size d]) / of_nat ws"
    by (rule reduced_element_mean)
qed
lemma example_metrics_spec:
  "reduce_spec example_ready (rank_of 0 2) ''mean'' (Dict example_metrics) 0 =
     Dict [(''loss'', PyFloat (5 / 2)), (''t'', Tensor Cuda Floating 1 [3 / 2, 7 / 2])]"
proof -
  have three: "float32 (float64 3) = 3" using small_int_exact(1) [of 3] by simp
  have r: "reduced_element (rank_of 0 2) k ''mean'' j own = own + 1" for k j own
    by (simp add: reduced_element_def contribution_def rank_of_def upt_rec)
  have o: "own_share example_ready ''mean'' x = x / 2" for x
    by (simp add: own_share_def example_ready_def)
  show ?thesis by (simp add: example_metrics_def three r o upt_rec)
qed

theorem all_reduce_mapping_witness:
  "all_reduce example_ready (rank_of 0 2) ''mean'' (Dict example_metrics) 0 =
     Inr (Dict [(''loss'', PyFloat (5 / 2)), (''t'', Tensor Cuda Floating 1 [3 / 2, 7 / 2])], 2)
   \<and> (\<exists>r. all_reduce (example_strategy\<lparr>world_size := Some 1\<rparr>) (rank_of 0 1) ''mean''
             (Dict example_metrics) 0 = Inr (r, 2)
        \<and> py_eq r (Dict example_metrics))
   \<and> all_reduce example_ready (rank_of 0 2) ''mean''
       (Dict [(''c'', Tensor Cuda Integral 1 [1, 2])]) 0 =
       Inl (RuntimeError ''result type Float cannot be cast to the desired output type'')"
proof -
  have op_ok: "''mean'' \<in> {''mean'', ''max'', ''sum''}" by simp
  have rk2: "get_rank (rank_of 0 2) < get_world_size (rank_of 0 2)" by (simp add: rank_of_def)
  have rk1: "get_rank (rank_of 0 1) < get_world_size (rank_of 0 1)" by (simp add: rank_of_def)
  have ws2: "''mean'' = ''mean'' \<longrightarrow> (\<exists>ws. world_size example_ready = Some ws \<and> ws \<noteq> 0)"
    by (simp add: example_ready_def)
  have ws1: "''mean'' = ''mean'' \<longrightarrow>
          (\<exists>ws. world_size (example_strategy\<lparr>world_size := Some 1\<rparr>) = Some ws \<and> ws \<noteq> 0)"
    by simp
  have nr: "numbers_in_range (Dict example_metrics)"
    using small_int_exact(2) [of 3] by (simp add: example_metrics_def)
  have ne: "numbers_exact (Dict example_metrics)"
    using small_int_exact(3) [of 3] by (simp add: example_metrics_def)
  have fl: "''mean'' = ''mean'' \<longrightarrow> floating_leaves (Dict example_metrics)"
    by (simp add: example_metrics_def)
  have cl: "count_leaves (Dict example_metrics) = 2" by (simp add: example_metrics_def)
  note t2 = all_reduce_mapping [OF op_ok rk2 ws2 nr, where k = 0]
  have "all_reduce example_ready (rank_of 0 2) ''mean'' (Dict example_metrics) 0 =
          Inr (reduce_spec example_ready (rank_of 0 2) ''mean'' (Dict example_metrics) 0,
               0 + count_leaves (Dict example_metrics))"
    by (rule t2 [THEN conjunct1, THEN mp, OF fl, THEN conjunct1])
  then have one: "all_reduce example_ready (rank_of 0 2) ''mean'' (Dict example_metrics) 0 =
     Inr (Dict [(''loss'', PyFloat (5 / 2)), (''t'', Tensor Cuda Floating 1 [3 / 2, 7 / 2])], 2)"
    by (simp only: example_metrics_spec cl) simp
  note t1 = all_reduce_mapping [OF op_ok rk1 ws1 nr, where k = 0]
  have run: "all_reduce (example_strategy\<lparr>world_size := Some 1\<rparr>) (rank_of 0 1) ''mean''
          (Dict example_metrics) 0 =
          Inr (reduce_spec (example_strategy\<lparr>world_size := Some 1\<rparr>) (rank_of 0 1) ''mean''
                 (Dict example_metrics) 0,
               0 + count_leaves (Dict example_metrics))"
    by (rule t1 [THEN conjunct1, THEN mp, OF fl, THEN conjunct1])
  have single: "get_world_size (rank_of 0 1) = 1
      \<and> (''mean'' = ''mean'' \<longrightarrow> world_size (example_strategy\<lparr>world_size := Some 1\<rparr>) = Some 1)
      \<and> numbers_exact (Dict example_metrics)"
    using ne by (simp add: rank_of_def)
  have eq: "py_eq (reduce_spec (example_strategy\<lparr>world_size := Some 1\<rparr>) (rank_of 0 1) ''mean''
                 (Dict example_metrics) 0) (Dict example_metrics)"
    by (rule t1 [THEN conjunct1, THEN mp, OF fl, THEN conjunct2, THEN conjunct2, THEN conjunct2,
          THEN mp, OF single])
  have two: "\<exists>r. all_reduce (example_strategy\<lparr>world_size := Some 1\<rparr>) (rank_of 0 1) ''mean''
             (Dict example_metrics) 0 = Inr (r, 2)
        \<and> py_eq r (Dict example_metrics)"
  proof (intro exI conjI)
    show "all_reduce (example_strategy\<lparr>world_size := Some 1\<rparr>) (rank_of 0 1) ''mean''
          (Dict example_metrics) 0 =
          Inr (reduce_spec (example_strategy\<lparr>world_size := Some 1\<rparr>) (rank_of 0 1) ''mean''
                 (Dict example_metrics) 0, 2)"
      using run by (simp only: cl add_0)
    show "py_eq (reduce_spec (example_strategy\<lparr>world_size := Some 1\<rparr>) (rank_of 0 1) ''mean''
                 (Dict example_metrics) 0) (Dict example_metrics)"
      by (rule eq)
  qed
  have nr3: "numbers_in_range (Dict [(''c'', Tensor Cuda Integral 1 [1, 2])])" by simp
  have bad: "''mean'' = ''mean'' \<and> \<not> floating_leaves (Dict [(''c'', Tensor Cuda Integral 1 [1, 2])])"
    by simp
  note t3 = all_reduce_mapping [OF op_ok rk2 ws2 nr3, where k = 0]
  have three: "all_reduce example_ready (rank_of 0 2) ''mean''
       (Dict [(''c'', Tensor Cuda Integral 1 [1, 2])]) 0 =
       Inl (RuntimeError ''result type Float cannot be cast to the desired output type'')"
    by (rule t3 [THEN conjunct2, THEN conjunct1, THEN mp, OF bad])
  from one two three show ?thesis by (intro conjI)
qed

text \<open>
  Claim C9. A Python number given to \<^verbatim>\<open>all_reduce\<close> goes through \<^verbatim>\<open>torch.Tensor([data])\<close>,
  the collective and \<^verbatim>\<open>.item()\<close>: what comes back is a Python float, the single element
  of the reduced buffer, also when an \<^verbatim>\<open>int\<close> went in, so the type of the result then
  differs from the type of the input. The buffer holds the \<^verbatim>\<open>float32\<close> value of the
  number; a number within the range of the format is always returned, and whatever
  the call returns for a Python number is a Python float.
\<close>

theorem all_reduce_scalar_is_float:
  assumes "opr \<in> {''mean'', ''max'', ''sum''}"
    and "opr = ''mean'' \<longrightarrow> (\<exists>ws. world_size s = Some ws \<and> ws \<noteq> 0)"
  shows "(numbers_in_range (PyInt n) \<longrightarrow>
          (\<exists>x. all_reduce s d opr (PyInt n) k = Inr (PyFloat x, Suc k)
            \<and> PyFloat x \<noteq> PyInt n
            \<and> (opr \<noteq> ''mean'' \<longrightarrow>
                 dist_all_reduce d k (opr = ''max'') [float32 (float64 (of_int n))] = [x])
            \<and> (\<forall>ws. opr = ''mean'' \<and> world_size s = Some ws \<longrightarrow>
                  dist_all_reduce d k False [float32 (float64 (of_int n)) / of_nat ws] = [x])))
       \<and> (numbers_in_range (PyFloat y) \<longrightarrow>
          (\<exists>x. all_reduce s d opr (PyFloat y) k = Inr (PyFloat x, Suc k)
            \<and> (opr \<noteq> ''mean'' \<longrightarrow> dist_all_reduce d k (opr = ''max'') [float32 y] = [x])
            \<and> (\<forall>ws. opr = ''mean'' \<and> world_size s = Some ws \<longrightarrow>
                  dist_all_reduce d k False [float32 y / of_nat ws] = [x])))
       \<and> (\<forall>r k'. all_reduce s d opr (PyInt n) k = Inr (r, k') \<longrightarrow>
             (\<exists>x. r = PyFloat x) \<and> r \<noteq> PyInt n)
       \<and> (\<forall>r k'. all_reduce s d opr (PyFloat y) k = Inr (r, k') \<longrightarrow> (\<exists>x. r = PyFloat x))"
proof (intro conjI impI allI)
  assume nr: "numbers_in_range (PyInt n)"
  from all_reduce_leaf_number [OF assms(2) as_tensor_number(1) [OF nr], of d k]
  obtain x where "all_reduce_leaf s d opr (PyInt n) k = Inr (PyFloat x)"
    "opr \<noteq> ''mean'' \<longrightarrow> dist_all_reduce d k (opr = ''max'') [float32 (float64 (of_int n))] = [x]"
    "\<forall>ws. opr = ''mean'' \<and> world_size s = Some ws \<longrightarrow>
       dist_all_reduce d k False [float32 (float64 (of_int n)) / of_nat ws] = [x]"
    by auto
  with assms(1) show "\<exists>x. all_reduce s d opr (PyInt n) k = Inr (PyFloat x, Suc k)
            \<and> PyFloat x \<noteq> PyInt n
            \<and> (opr \<noteq> ''mean'' \<longrightarrow>
                 dist_all_reduce d k (opr = ''max'') [float32 (float64 (of_int n))] = [x])
            \<and> (\<forall>ws. opr = ''mean'' \<and> world_size s = Some ws \<longrightarrow>
                  dist_all_reduce d k False [float32 (float64 (of_int n)) / of_nat ws] = [x])"
    by (intro exI [of _ x]) simp
next
  assume nr: "numbers_in_range (PyFloat y)"
  from all_reduce_leaf_number [OF assms(2) as_tensor_number(2) [OF nr], of d k]
  obtain x where "all_reduce_leaf s d opr (PyFloat y) k = Inr (PyFloat x)"
    "opr \<noteq> ''mean'' \<longrightarrow> dist_all_reduce d k (opr = ''max'') [float32 y] = [x]"
    "\<forall>ws. opr = ''mean'' \<and> world_size s = Some ws \<longrightarrow>
       dist_all_reduce d k False [float32 y / of_nat ws] = [x]"
    by auto
  with assms(1) show "\<exists>x. all_reduce s d opr (PyFloat y) k = Inr (PyFloat x, Suc k)
            \<and> (opr \<noteq> ''mean'' \<longrightarrow> dist_all_reduce d k (opr = ''max'') [float32 y] = [x])
            \<and> (\<forall>ws. opr = ''mean'' \<and> world_size s = Some ws \<longrightarrow>
                  dist_all_reduce d k False [float32 y / of_nat ws] = [x])"
    by (intro exI [of _ x]) simp
next
  fix r k'
  assume "all_reduce s d opr (PyInt n) k = Inr (r, k')"
  then have "all_reduce_leaf s d opr (PyInt n) k = Inr r"
    by (auto split: if_splits simp: map_sum_def split: sum.splits)
  from all_reduce_leaf_returns_float [OF _ this]
  show "\<exists>x. r = PyFloat x" by simp
  then show "r \<noteq> PyInt n" by auto
next
  fix r k'
  assume "all_reduce s d opr (PyFloat y) k = Inr (r, k')"
  then have "all_reduce_leaf s d opr (PyFloat y) k = Inr r"
    by (auto split: if_splits simp: map_sum_def split: sum.splits)
  from all_reduce_leaf_returns_float [OF _ this]
  show "\<exists>x. r = PyFloat x" by simp
qed

lemma example_sum:
  "all_reduce example_ready (rank_of 0 2) ''sum'' (PyInt 3) 0 = Inr (PyFloat 4, 1)"
proof -
  have a: "as_tensor (PyInt 3) = Inr (False, Cpu, Floating, 1, [3])"
    using small_int_exact(4) [of 3] by (simp del: as_tensor.simps)
  show ?thesis
    by (simp add: all_reduce_leaf_def a dist_all_reduce_def other_ranks_def rank_of_def
          received_def item_def upt_rec del: as_tensor.simps)
qed

theorem all_reduce_scalar_is_float_witness:
  "all_reduce example_ready (rank_of 0 2) ''sum'' (PyInt 3) 0 = Inr (PyFloat 4, 1)
   \<and> dist_all_reduce (rank_of 0 2) 0 False [3] = [4]"
proof -
  have op_ok: "''sum'' \<in> {''mean'', ''max'', ''sum''}" by simp
  have nm: "''sum'' = ''mean'' \<longrightarrow> (\<exists>ws. world_size example_ready = Some ws \<and> ws \<noteq> 0)"
    by simp
  have nr: "numbers_in_range (PyInt 3)" using small_int_exact(2) [of 3] by simp
  have three: "float32 (float64 (of_int 3)) = 3" using small_int_exact(1) [of 3] by simp
  note t = all_reduce_scalar_is_float [OF op_ok nm, where d = "rank_of 0 2" and n = 3
      and k = 0 and y = 0]
  from t [THEN conjunct1, THEN mp, OF nr]
  obtain x where "all_reduce example_ready (rank_of 0 2) ''sum'' (PyInt 3) 0 = Inr (PyFloat x, Suc 0)"
    "dist_all_reduce (rank_of 0 2) 0 False [3] = [x]"
    unfolding three by auto
  with example_sum show ?thesis by simp
qed
section \<open>Properties of all_gather\<close>

lemma dist_all_gather_ok:
  "dist_all_gather d k (get_world_size d) buf =
     Inr (map (\<lambda>i. if i = get_rank d then buf else map (peer_buffers d k i) [0..<length buf])
            [0..<get_world_size d])"
  unfolding dist_all_gather_def received_def by simp

text \<open>The leaf branch of \<^verbatim>\<open>all_gather\<close> on a buffer of at least one dimension: the
  buffers of the ranks, in rank order, one after the other.\<close>

lemma all_gather_leaf_cat:
  assumes "world_size s = Some (get_world_size d)" and "get_rank d < get_world_size d"
    and "as_tensor v = Inr (is_tensor, dev, dt, nd, buf)" and "0 < nd"
  shows "all_gather_leaf s d v k =
           Inr (Tensor dev dt nd
                  (concat (map (\<lambda>i. if i = get_rank d then buf
                                     else map (peer_buffers d k i) [0..<length buf])
                             [0..<get_world_size d])))"
proof -
  have ne: "[0..<get_world_size d] \<noteq> []" using assms(2) by simp
  have dv: "(if dev = Cpu then Cpu else Cuda) = dev" by (cases dev) simp_all
  show ?thesis
    unfolding all_gather_leaf_def assms(3)
    using assms(1,4) ne
    by (simp add: dist_all_gather_ok torch_cat_def dv)
qed

lemma all_gather_leaf_zero_dim:
  assumes "world_size s = Some (get_world_size d)" and "get_rank d < get_world_size d"
  shows "all_gather_leaf s d (Tensor dev dt 0 xs) k =
           Inl (RuntimeError ''zero-dimensional tensor (at position 0) cannot be concatenated'')"
proof -
  have ne: "[0..<get_world_size d] \<noteq> []" using assms(2) by simp
  show ?thesis
    unfolding all_gather_leaf_def
    using assms(1) ne
    by (simp add: dist_all_gather_ok torch_cat_def)
qed

lemma all_gather_total_count:
  assumes "world_size s = Some (get_world_size d)" and "get_rank d < get_world_size d"
  shows "numbers_in_range v \<Longrightarrow> dimensioned_leaves v \<Longrightarrow>
           \<exists>r. all_gather s d v k = Inr (r, k + count_leaves v)"
    and "numbers_in_range_items kvs \<Longrightarrow> dimensioned_leaves_items kvs \<Longrightarrow>
           \<exists>ret. all_gather_items s d kvs k = Inr (ret, k + count_leaves_items kvs)
               \<and> map fst ret = map fst kvs"
proof (induction v and kvs arbitrary: k and k rule: count_leaves_count_leaves_items.induct)
  case (1 kvs)
  then obtain ret where "all_gather_items s d kvs k = Inr (ret, k + count_leaves_items kvs)"
    by auto
  then show ?case by simp
next
  case (2 n)
  show ?case
    using all_gather_leaf_cat [OF assms as_tensor_number(1) [OF "2.prems"(1)], of k] by simp
next
  case (3 x)
  show ?case
    using all_gather_leaf_cat [OF assms as_tensor_number(2) [OF "3.prems"(1)], of k] by simp
next
  case (4 dev dt nd xs)
  then have "0 < nd" by simp
  from all_gather_leaf_cat [OF assms _ this, of "Tensor dev dt nd xs" True dev dt xs k]
  show ?case by simp
next
  case 5
  show ?case by simp
next
  case (6 key v rest)
  obtain r where r: "all_gather s d v k = Inr (r, k + count_leaves v)"
    using "6.IH"(1) "6.prems" by auto
  obtain ret where ret: "all_gather_items s d rest (k + count_leaves v) =
        Inr (ret, k + count_leaves v + count_leaves_items rest)" "map fst ret = map fst rest"
    using "6.IH"(2) "6.prems" by auto
  show ?case using r ret by (simp add: add.assoc)
qed

lemma all_gather_items_nth:
  assumes "world_size s = Some (get_world_size d)" and "get_rank d < get_world_size d"
    and "numbers_in_range_items kvs" and "dimensioned_leaves_items kvs"
    and "all_gather_items s d kvs k = Inr (ret, k')"
    and "i < length kvs"
  shows "\<exists>r. all_gather s d (snd (kvs ! i)) (k + count_leaves_items (take i kvs)) =
               Inr (r, k + count_leaves_items (take (Suc i) kvs))
             \<and> ret ! i = (fst (kvs ! i), r)"
  using assms(3,4,5,6)
proof (induction kvs arbitrary: k ret i)
  case Nil
  then show ?case by simp
next
  case (Cons kv kvs)
  obtain key v where kv: "kv = (key, v)" by (cases kv)
  have nv: "numbers_in_range v" "dimensioned_leaves v"
    and nk: "numbers_in_range_items kvs" "dimensioned_leaves_items kvs"
    using Cons.prems(1,2) kv by simp_all
  obtain r where r: "all_gather s d v k = Inr (r, k + count_leaves v)"
    using all_gather_total_count(1) [OF assms(1,2) nv] by blast
  obtain rest where rest: "all_gather_items s d kvs (k + count_leaves v) = Inr (rest, k')"
    and ret: "ret = (key, r) # rest"
    using Cons.prems(3) kv r by (auto split: sum.splits prod.splits)
  show ?case
  proof (cases i)
    case 0
    with kv r ret show ?thesis by simp
  next
    case (Suc j)
    then have j: "j < length kvs" using Cons.prems(4) by simp
    from Cons.IH [OF nk rest j] obtain r' where
      "all_gather s d (snd (kvs ! j)) (k + count_leaves v + count_leaves_items (take j kvs)) =
         Inr (r', k + count_leaves v + count_leaves_items (take (Suc j) kvs))"
      "rest ! j = (fst (kvs ! j), r')" by blast
    with Suc kv ret show ?thesis by (simp add: add.assoc)
  qed
qed

lemma concat_singletons: "concat (map (\<lambda>i. [f i]) xs) = map f xs"
  by (induction xs) simp_all

lemma gathered_ranks:
  assumes "\<forall>i < get_world_size d. i \<noteq> get_rank d \<longrightarrow> peer_buffers d k i 0 = of_nat i"
  shows "concat (map (\<lambda>i. if i = get_rank d then [of_nat (get_rank d)]
                           else map (peer_buffers d k i) [0..<length [of_nat (get_rank d) :: rat]])
                   [0..<get_world_size d]) =
         map of_nat [0..<get_world_size d]"
proof -
  have "map (\<lambda>i. if i = get_rank d then [of_nat (get_rank d)]
                           else map (peer_buffers d k i) [0..<length [of_nat (get_rank d) :: rat]])
                   [0..<get_world_size d] =
        map (\<lambda>i. [of_nat i]) [0..<get_world_size d]"
    using assms by (intro map_cong) auto
  then show ?thesis by (simp only: concat_singletons)
qed

lemma gathered_single:
  assumes "get_world_size d = 1" and "get_rank d = 0"
  shows "concat (map (\<lambda>i. if i = get_rank d then buf else map (peer_buffers d k i) [0..<length buf])
                   [0..<get_world_size d]) = buf"
  using assms by simp

text \<open>
  Claim C5, amended. With \<^verbatim>\<open>self.world_size\<close> the size of the group and the caller one
  of its ranks: \<^verbatim>\<open>all_gather\<close> of a tensor of at least one dimension is the
  concatenation of the buffers of the ranks in rank order, rank 0 first, on the device
  and of the element type of the input; a tensor of no dimension makes \<^verbatim>\<open>torch.cat\<close>
  raise. In a group of one process a tensor of at least one dimension comes back as
  it is, and a Python number \<open>x\<close> within the range of \<^verbatim>\<open>float32\<close> as the one-element
  \<^verbatim>\<open>float32\<close> tensor that holds \<open>x\<close> rounded, on the CPU. In a group of \<open>N\<close> processes in
  which rank \<open>i\<close> contributes the number \<open>i\<close> (as a Python number, \<open>N\<close> at most \<open>2 ^ 24\<close>, or
  as a one-element tensor of at least one dimension), the process of every rank gets
  the tensor \<open>[0, 1, ..., N - 1]\<close>. A \<^verbatim>\<open>dict\<close> of such values comes back with the same
  keys in the same order, entry \<open>i\<close> being \<^verbatim>\<open>all_gather\<close> of entry \<open>i\<close> alone at the call
  index reached there.
\<close>

theorem all_gather_ranks:
  assumes "world_size s = Some (get_world_size d)" and "get_rank d < get_world_size d"
  shows "(0 < nd \<longrightarrow>
            all_gather s d (Tensor dev dt nd xs) k =
              Inr (Tensor dev dt nd
                     (concat (map (\<lambda>i. if i = get_rank d then xs
                                        else map (peer_buffers d k i) [0..<length xs])
                                [0..<get_world_size d])), Suc k))
       \<and> all_gather s d (Tensor dev dt 0 xs) k =
            Inl (RuntimeError ''zero-dimensional tensor (at position 0) cannot be concatenated'')
       \<and> (get_world_size d = 1 \<longrightarrow>
            (0 < nd \<longrightarrow> all_gather s d (Tensor dev dt nd xs) k = Inr (Tensor dev dt nd xs, Suc k))
          \<and> (numbers_in_range (PyInt n) \<longrightarrow>
               all_gather s d (PyInt n) k =
                 Inr (Tensor Cpu Floating 1 [float32 (float64 (of_int n))], Suc k))
          \<and> (numbers_in_range (PyFloat x) \<longrightarrow>
               all_gather s d (PyFloat x) k = Inr (Tensor Cpu Floating 1 [float32 x], Suc k)))
       \<and> ((\<forall>i < get_world_size d. i \<noteq> get_rank d \<longrightarrow> peer_buffers d k i 0 = of_nat i) \<longrightarrow>
            (get_world_size d \<le> 2 ^ 24 \<longrightarrow>
               all_gather s d (PyInt (int (get_rank d))) k =
                 Inr (Tensor Cpu Floating 1 (map of_nat [0..<get_world_size d]), Suc k))
          \<and> (0 < nd \<longrightarrow>
               all_gather s d (Tensor dev dt nd [of_nat (get_rank d)]) k =
                 Inr (Tensor dev dt nd (map of_nat [0..<get_world_size d]), Suc k)))
       \<and> (numbers_in_range (Dict kvs) \<and> dimensioned_leaves (Dict kvs) \<longrightarrow>
            (\<exists>ret. all_gather s d (Dict kvs) k = Inr (Dict ret, k + count_leaves (Dict kvs))
               \<and> dict_keys (Dict ret) = dict_keys (Dict kvs)
               \<and> (\<forall>i < length kvs. \<exists>r.
                     all_gather s d (snd (kvs ! i)) (k + count_leaves_items (take i kvs)) =
                       Inr (r, k + count_leaves_items (take (Suc i) kvs))
                     \<and> ret ! i = (fst (kvs ! i), r))))"
proof (intro conjI impI)
  assume nd: "0 < nd"
  from all_gather_leaf_cat [OF assms _ nd, of "Tensor dev dt nd xs" True dev dt xs k]
  show "all_gather s d (Tensor dev dt nd xs) k =
              Inr (Tensor dev dt nd
                     (concat (map (\<lambda>i. if i = get_rank d then xs
                                        else map (peer_buffers d k i) [0..<length xs])
                                [0..<get_world_size d])), Suc k)"
    by simp
next
  show "all_gather s d (Tensor dev dt 0 xs) k =
            Inl (RuntimeError ''zero-dimensional tensor (at position 0) cannot be concatenated'')"
    using all_gather_leaf_zero_dim [OF assms] by simp
next
  assume one: "get_world_size d = 1" and nd: "0 < nd"
  then have r0: "get_rank d = 0" using assms(2) by simp
  from all_gather_leaf_cat [OF assms _ nd, of "Tensor dev dt nd xs" True dev dt xs k]
  show "all_gather s d (Tensor dev dt nd xs) k = Inr (Tensor dev dt nd xs, Suc k)"
    by (simp add: gathered_single [OF one r0])
next
  assume one: "get_world_size d = 1" and nr: "numbers_in_range (PyInt n)"
  then have r0: "get_rank d = 0" using assms(2) by simp
  from all_gather_leaf_cat [OF assms as_tensor_number(1) [OF nr], of k]
  show "all_gather s d (PyInt n) k =
          Inr (Tensor Cpu Floating 1 [float32 (float64 (of_int n))], Suc k)"
    by (simp add: gathered_single [OF one r0])
next
  assume one: "get_world_size d = 1" and nr: "numbers_in_range (PyFloat x)"
  then have r0: "get_rank d = 0" using assms(2) by simp
  from all_gather_leaf_cat [OF assms as_tensor_number(2) [OF nr], of k]
  show "all_gather s d (PyFloat x) k = Inr (Tensor Cpu Floating 1 [float32 x], Suc k)"
    by (simp add: gathered_single [OF one r0])
next
  assume peers: "\<forall>i < get_world_size d. i \<noteq> get_rank d \<longrightarrow> peer_buffers d k i 0 = of_nat i"
    and small: "get_world_size d \<le> 2 ^ 24"
  have "\<bar>int (get_rank d)\<bar> < 2 ^ 24" using assms(2) small by simp
  from small_int_exact(4) [OF this]
  have a: "as_tensor (PyInt (int (get_rank d))) = Inr (False, Cpu, Floating, 1, [of_nat (get_rank d)])"
    by (simp del: as_tensor.simps)
  from all_gather_leaf_cat [OF assms a, of k]
  show "all_gather s d (PyInt (int (get_rank d))) k =
          Inr (Tensor Cpu Floating 1 (map of_nat [0..<get_world_size d]), Suc k)"
    by (simp only: gathered_ranks [OF peers]) simp
next
  assume peers: "\<forall>i < get_world_size d. i \<noteq> get_rank d \<longrightarrow> peer_buffers d k i 0 = of_nat i"
    and nd: "0 < nd"
  from all_gather_leaf_cat [OF assms _ nd, of "Tensor dev dt nd [of_nat (get_rank d)]" True dev dt
      "[of_nat (get_rank d)]" k]
  show "all_gather s d (Tensor dev dt nd [of_nat (get_rank d)]) k =
          Inr (Tensor dev dt nd (map of_nat [0..<get_world_size d]), Suc k)"
    by (simp only: gathered_ranks [OF peers]) simp
next
  assume ok: "numbers_in_range (Dict kvs) \<and> dimensioned_leaves (Dict kvs)"
  then have nk: "numbers_in_range_items kvs" "dimensioned_leaves_items kvs" by simp_all
  obtain ret where ret: "all_gather_items s d kvs k = Inr (ret, k + count_leaves_items kvs)"
    and keys: "map fst ret = map fst kvs"
    using all_gather_total_count(2) [OF assms nk] by blast
  have nth: "\<forall>i < length kvs. \<exists>r.
                 all_gather s d (snd (kvs ! i)) (k + count_leaves_items (take i kvs)) =
                   Inr (r, k + count_leaves_items (take (Suc i) kvs))
                 \<and> ret ! i = (fst (kvs ! i), r)"
    using all_gather_items_nth [OF assms nk ret] by blast
  show "\<exists>ret. all_gather s d (Dict kvs) k = Inr (Dict ret, k + count_leaves (Dict kvs))
             \<and> dict_keys (Dict ret) = dict_keys (Dict kvs)
             \<and> (\<forall>i < length kvs. \<exists>r.
                   all_gather s d (snd (kvs ! i)) (k + count_leaves_items (take i kvs)) =
                     Inr (r, k + count_leaves_items (take (Suc i) kvs))
                   \<and> ret ! i = (fst (kvs ! i), r))"
    using ret keys nth by (intro exI [of _ ret]) simp
qed

theorem all_gather_ranks_witness:
  "all_gather (example_strategy\<lparr>world_size := Some 3\<rparr>) (rank_of 1 3) (PyInt 1) 0 =
     Inr (Tensor Cpu Floating 1 [0, 1, 2], 1)
   \<and> all_gather (example_strategy\<lparr>world_size := Some 1\<rparr>) (rank_of 0 1)
       (Tensor Cuda Floating 1 [1, 5]) 0 =
     Inr (Tensor Cuda Floating 1 [1, 5], 1)
   \<and> all_gather (example_strategy\<lparr>world_size := Some 3\<rparr>) (rank_of 1 3)
       (Tensor Cuda Floating 1 [7, 8]) 0 =
     Inr (Tensor Cuda Floating 1 [0, 0, 7, 8, 2, 2], 1)"
proof -
  let ?s3 = "example_strategy\<lparr>world_size := Some 3\<rparr>"
  let ?s1 = "example_strategy\<lparr>world_size := Some 1\<rparr>"
  have a: "world_size ?s3 = Some (get_world_size (rank_of 1 3))"
    by (simp add: rank_of_def)
  have b: "get_rank (rank_of 1 3) < get_world_size (rank_of 1 3)"
    by (simp add: rank_of_def)
  have c: "\<forall>i < get_world_size (rank_of 1 3). i \<noteq> get_rank (rank_of 1 3) \<longrightarrow>
             peer_buffers (rank_of 1 3) 0 i 0 = of_nat i"
    by (simp add: rank_of_def)
  have sm: "get_world_size (rank_of 1 3) \<le> 2 ^ 24" by (simp add: rank_of_def)
  have r: "get_rank (rank_of 1 3) = 1" "get_world_size (rank_of 1 3) = 3"
    by (simp_all add: rank_of_def)
  have u: "map rat_of_nat [0..<3] = [0, 1, 2]" by (simp add: upt_rec)
  note th3 = all_gather_ranks [OF a b, where k = 0 and dev = Cuda and dt = Floating and nd = 1
      and xs = "[7, 8]" and n = 0 and x = 0 and kvs = "[]"]
  have "all_gather ?s3 (rank_of 1 3) (PyInt (int (get_rank (rank_of 1 3)))) 0 =
      Inr (Tensor Cpu Floating 1 (map of_nat [0..<get_world_size (rank_of 1 3)]), Suc 0)"
    by (rule th3 [THEN conjunct2, THEN conjunct2, THEN conjunct2, THEN conjunct1, THEN mp, OF c,
          THEN conjunct1, THEN mp, OF sm])
  then have one: "all_gather ?s3 (rank_of 1 3) (PyInt 1) 0 = Inr (Tensor Cpu Floating 1 [0, 1, 2], 1)"
    unfolding r u by simp
  have pos: "0 < (1::nat)" by simp
  have "all_gather ?s3 (rank_of 1 3) (Tensor Cuda Floating 1 [7, 8]) 0 =
      Inr (Tensor Cuda Floating 1
             (concat (map (\<lambda>i. if i = get_rank (rank_of 1 3) then [7, 8]
                                else map (peer_buffers (rank_of 1 3) 0 i) [0..<length [7, 8 :: rat]])
                        [0..<get_world_size (rank_of 1 3)])), Suc 0)"
    by (rule th3 [THEN conjunct1, THEN mp, OF pos])
  moreover have "concat (map (\<lambda>i. if i = get_rank (rank_of 1 3) then [7, 8]
                                else map (peer_buffers (rank_of 1 3) 0 i) [0..<length [7, 8 :: rat]])
                        [0..<get_world_size (rank_of 1 3)]) = [0, 0, 7, 8, 2, 2]"
    by (simp add: rank_of_def upt_rec)
  ultimately have three: "all_gather ?s3 (rank_of 1 3) (Tensor Cuda Floating 1 [7, 8]) 0 =
     Inr (Tensor Cuda Floating 1 [0, 0, 7, 8, 2, 2], 1)"
    by simp
  have a1: "world_size ?s1 = Some (get_world_size (rank_of 0 1))"
    by (simp add: rank_of_def)
  have b1: "get_rank (rank_of 0 1) < get_world_size (rank_of 0 1)"
    by (simp add: rank_of_def)
  have r1: "get_world_size (rank_of 0 1) = 1"
    by (simp add: rank_of_def)
  note th1 = all_gather_ranks [OF a1 b1, where k = 0 and dev = Cuda and dt = Floating and nd = 1
      and xs = "[1, 5]" and n = 0 and x = 0 and kvs = "[]"]
  have "all_gather ?s1 (rank_of 0 1) (Tensor Cuda Floating 1 [1, 5]) 0 =
     Inr (Tensor Cuda Floating 1 [1, 5], Suc 0)"
    by (rule th1 [THEN conjunct2, THEN conjunct2, THEN conjunct1, THEN mp, OF r1, THEN conjunct1,
          THEN mp, OF pos])
  then have two: "all_gather ?s1 (rank_of 0 1) (Tensor Cuda Floating 1 [1, 5]) 0 =
     Inr (Tensor Cuda Floating 1 [1, 5], 1)"
    by simp
  from one two three show ?thesis by (intro conjI)
qed

text \<open>
  Claim C5, as stated: in a group of one process \<^verbatim>\<open>all_gather\<close> returns its input
  unchanged. A Python number is wrapped by \<^verbatim>\<open>torch.Tensor([data])\<close> and never unwrapped
  (there is no \<^verbatim>\<open>.item()\<close> in \<^verbatim>\<open>all_gather\<close>): the integer 5 comes back as the tensor
  \<open>[5]\<close>. And a tensor of no dimension does not come back at all: \<^verbatim>\<open>torch.cat\<close> refuses
  it.
\<close>

theorem all_gather_scalar_counterexample:
  "all_gather (example_strategy\<lparr>world_size := Some 1\<rparr>) (rank_of 0 1) (PyInt 5) 0 =
     Inr (Tensor Cpu Floating 1 [5], 1)
   \<and> Tensor Cpu Floating 1 [5] \<noteq> PyInt 5
   \<and> all_gather (example_strategy\<lparr>world_size := Some 1\<rparr>) (rank_of 0 1)
       (Tensor Cuda Floating 0 [5]) 0 =
     Inl (RuntimeError ''zero-dimensional tensor (at position 0) cannot be concatenated'')"
proof -
  have a: "as_tensor (PyInt 5) = Inr (False, Cpu, Floating, 1, [5])"
    using small_int_exact(4) [of 5] by (simp del: as_tensor.simps)
  have one: "all_gather (example_strategy\<lparr>world_size := Some 1\<rparr>) (rank_of 0 1) (PyInt 5) 0 =
     Inr (Tensor Cpu Floating 1 [5], 1)"
    by (simp add: all_gather_leaf_def a dist_all_gather_def torch_cat_def rank_of_def
          del: as_tensor.simps)
  have three: "all_gather (example_strategy\<lparr>world_size := Some 1\<rparr>) (rank_of 0 1)
       (Tensor Cuda Floating 0 [5]) 0 =
     Inl (RuntimeError ''zero-dimensional tensor (at position 0) cannot be concatenated'')"
    by (simp add: all_gather_leaf_def dist_all_gather_def torch_cat_def rank_of_def)
  from one three show ?thesis by simp
qed
section \<open>Properties of save_model\<close>

lemma gather_parameters_result:
  "gather_parameters d nps (gathers, out) =
     (gathers @ map (\<lambda>(k, v). GatheredParameters (z3_params_to_fetch [v])) nps,
      if is_rank_0 d then fold (\<lambda>(k, v) o'. AList.update k (data v) o') nps out else out)"
  by (induction nps arbitrary: gathers out) (auto simp: Let_def)

lemma save_model_stage3:
  assumes "stage s = 3"
  shows "save_model s d mdl fpath =
           (map (\<lambda>(k, v). GatheredParameters (z3_params_to_fetch [v]))
              (named_parameters (model_to_save mdl)),
            if is_rank_0 d
            then (fold (\<lambda>(k, v) o'. AList.update k v o') (named_buffers (model_to_save mdl))
                    (fold (\<lambda>(k, v) o'. AList.update k (data v) o')
                       (named_parameters (model_to_save mdl)) []),
                  Some (fpath,
                    fold (\<lambda>(k, v) o'. AList.update k v o') (named_buffers (model_to_save mdl))
                      (fold (\<lambda>(k, v) o'. AList.update k (data v) o')
                         (named_parameters (model_to_save mdl)) [])))
            else ([], None))"
  using assms by (simp add: save_model_def Let_def gather_parameters_result)

text \<open>One scope: the parameter itself when it is not materialized, and then enabled.\<close>

lemma gather_scope:
  "GatheredParameters (z3_params_to_fetch [v]) =
     \<lparr> gc_params = (if ds_not_available v then [v] else []), gc_enabled = ds_not_available v \<rparr>"
  by (simp add: GatheredParameters_def z3_params_to_fetch_def)

lemma model_to_save_peft:
  assumes "unwrap_model mdl = Net ps bs ema (Some merged)"
  shows "model_to_save mdl = merged"
  using assms by (simp add: model_to_save_def)

lemma model_to_save_plain:
  assumes "\<forall>ps bs ema merged. unwrap_model mdl \<noteq> Net ps bs ema (Some merged)"
  shows "model_to_save mdl = unwrap_model mdl"
  using assms by (auto simp: model_to_save_def split: module.splits option.splits)

text \<open>
  Claim C7, as stated: under stage 3 the number of \<^verbatim>\<open>GatheredParameters\<close> scopes is the
  number of named parameters of the unwrapped model. When the unwrapped model is a
  \<^verbatim>\<open>PeftModel\<close>, \<^verbatim>\<open>save_model\<close> goes on with what \<^verbatim>\<open>merge_and_unload()\<close> returns and
  loops over the parameters of that: an adapter model of three named parameters whose
  merged model has one is saved with one scope.
\<close>

theorem save_model_peft_counterexample:
  "stage example_strategy = 3
   \<and> unwrap_model (Actor example_peft False) = example_peft
   \<and> length (named_parameters (unwrap_model (Actor example_peft False))) = 3
   \<and> length (fst (save_model example_strategy (rank_of 0 2) (Actor example_peft False) ''out.bin'')) = 1"
proof -
  have st: "stage example_strategy = 3" by (simp add: example_strategy_def)
  have u: "unwrap_model (Actor example_peft False) = example_peft"
    by (simp add: example_peft_def)
  have n: "length (named_parameters example_peft) = 3" by (simp add: example_peft_def)
  have m: "model_to_save (Actor example_peft False) = example_merged"
    by (simp add: model_to_save_def example_peft_def)
  have "length (fst (save_model example_strategy (rank_of 0 2) (Actor example_peft False) ''out.bin'')) = 1"
    by (simp add: save_model_stage3 [OF st] m) (simp add: example_merged_def)
  with st u n show ?thesis by simp
qed

text \<open>
  Claim C7, amended. Under stage 3 \<^verbatim>\<open>save_model\<close> enters one \<^verbatim>\<open>GatheredParameters\<close> scope
  per named parameter of the model it saves: the unwrapped model, or, when that is a
  \<^verbatim>\<open>PeftModel\<close>, what \<^verbatim>\<open>merge_and_unload()\<close> returns. Each scope holds the parameter and
  is enabled exactly when the parameter is not materialized. The list of scopes does
  not depend on the rank: the loop has no early exit for the other ranks. A process
  other than rank 0 ends with an empty \<^verbatim>\<open>output_state_dict\<close> and writes nothing; rank 0
  holds the parameters' data, then the named buffers, and writes that mapping to the
  path.
\<close>

theorem save_model_gathers:
  assumes "stage s = 3"
  shows "fst (save_model s d mdl fpath) =
           map (\<lambda>(k, v). \<lparr> gc_params = (if ds_not_available v then [v] else []),
                            gc_enabled = ds_not_available v \<rparr>)
             (named_parameters (model_to_save mdl))
       \<and> length (fst (save_model s d mdl fpath)) = length (named_parameters (model_to_save mdl))
       \<and> fst (save_model s d mdl fpath) = fst (save_model s d' mdl fpath)
       \<and> (\<forall>ps bs ema merged. unwrap_model mdl = Net ps bs ema (Some merged) \<longrightarrow>
             model_to_save mdl = merged
           \<and> length (fst (save_model s d mdl fpath)) = length (named_parameters merged))
       \<and> ((\<forall>ps bs ema merged. unwrap_model mdl \<noteq> Net ps bs ema (Some merged)) \<longrightarrow>
             model_to_save mdl = unwrap_model mdl
           \<and> length (fst (save_model s d mdl fpath)) = length (named_parameters (unwrap_model mdl)))
       \<and> (\<not> is_rank_0 d \<longrightarrow> snd (save_model s d mdl fpath) = ([], None))
       \<and> (is_rank_0 d \<longrightarrow>
            (\<exists>out. snd (save_model s d mdl fpath) = (out, Some (fpath, out))
               \<and> out = fold (\<lambda>(k, v) o'. AList.update k v o') (named_buffers (model_to_save mdl))
                         (fold (\<lambda>(k, v) o'. AList.update k (data v) o')
                            (named_parameters (model_to_save mdl)) [])))"
proof (intro conjI allI impI)
  show "fst (save_model s d mdl fpath) =
           map (\<lambda>(k, v). \<lparr> gc_params = (if ds_not_available v then [v] else []),
                            gc_enabled = ds_not_available v \<rparr>)
             (named_parameters (model_to_save mdl))"
    by (simp add: save_model_stage3 [OF assms] gather_scope)
  show len: "length (fst (save_model s d mdl fpath)) = length (named_parameters (model_to_save mdl))"
    by (simp add: save_model_stage3 [OF assms])
  show "fst (save_model s d mdl fpath) = fst (save_model s d' mdl fpath)"
    by (simp add: save_model_stage3 [OF assms])
  show "snd (save_model s d mdl fpath) = ([], None)" if "\<not> is_rank_0 d"
    using that by (simp add: save_model_stage3 [OF assms])
  show "\<exists>out. snd (save_model s d mdl fpath) = (out, Some (fpath, out))
               \<and> out = fold (\<lambda>(k, v) o'. AList.update k v o') (named_buffers (model_to_save mdl))
                         (fold (\<lambda>(k, v) o'. AList.update k (data v) o')
                            (named_parameters (model_to_save mdl)) [])" if "is_rank_0 d"
    using that by (simp add: save_model_stage3 [OF assms])
  fix ps bs ema merged
  assume peft: "unwrap_model mdl = Net ps bs ema (Some merged)"
  show m: "model_to_save mdl = merged" using peft by (rule model_to_save_peft)
  show "length (fst (save_model s d mdl fpath)) = length (named_parameters merged)"
    using len by (simp only: m)
next
  assume plain: "\<forall>ps bs ema merged. unwrap_model mdl \<noteq> Net ps bs ema (Some merged)"
  show m: "model_to_save mdl = unwrap_model mdl" using plain by (rule model_to_save_plain)
  show "length (fst (save_model s d mdl fpath)) = length (named_parameters (unwrap_model mdl))"
    by (simp add: save_model_stage3 [OF assms] m)
qed

lemma example_to_save: "model_to_save (Actor example_engine False) = example_net"
  by (simp add: model_to_save_def example_engine_def example_net_def)

theorem save_model_gathers_witness:
  "stage example_strategy = 3
   \<and> length (fst (save_model example_strategy (rank_of 1 2) (Actor example_engine False) ''out.bin'')) = 2
   \<and> fst (save_model example_strategy (rank_of 1 2) (Actor example_engine False) ''out.bin'') =
       fst (save_model example_strategy (rank_of 0 2) (Actor example_engine False) ''out.bin'')
   \<and> snd (save_model example_strategy (rank_of 1 2) (Actor example_engine False) ''out.bin'') = ([], None)
   \<and> snd (save_model example_strategy (rank_of 0 2) (Actor example_engine False) ''out.bin'') =
       ([(''w'', [1, 2]), (''b'', [3]), (''mask'', [1])],
        Some (''out.bin'', [(''w'', [1, 2]), (''b'', [3]), (''mask'', [1])]))
   \<and> length (fst (save_model example_strategy (rank_of 1 2) (Actor example_peft False) ''out.bin'')) = 1"
proof -
  have st: "stage example_strategy = 3" by (simp add: example_strategy_def)
  have r1: "\<not> is_rank_0 (rank_of 1 2)" by (simp add: is_rank_0_def rank_of_def)
  have r0: "is_rank_0 (rank_of 0 2)" by (simp add: is_rank_0_def rank_of_def)
  have np: "named_parameters example_net =
      [(''w'', \<lparr>data = [1, 2], requires_grad = True, ds_not_available = True\<rparr>),
       (''b'', \<lparr>data = [3], requires_grad = False, ds_not_available = False\<rparr>)]"
    and nb: "named_buffers example_net = [(''mask'', [1])]"
    by (simp_all add: example_net_def)
  have plain: "\<forall>ps bs ema merged.
      unwrap_model (Actor example_engine False) \<noteq> Net ps bs ema (Some merged)"
    by (simp add: example_engine_def example_net_def)
  have un: "unwrap_model (Actor example_engine False) = example_net"
    by (simp add: example_engine_def)
  note t1 = save_model_gathers [OF st, of "rank_of 1 2" "Actor example_engine False" "''out.bin''" "rank_of 0 2"]
  note t0 = save_model_gathers [OF st, of "rank_of 0 2" "Actor example_engine False" "''out.bin''" "rank_of 1 2"]
  note tp = save_model_gathers [OF st, of "rank_of 1 2" "Actor example_peft False" "''out.bin''" "rank_of 0 2"]
  have "length (fst (save_model example_strategy (rank_of 1 2) (Actor example_engine False) ''out.bin'')) =
          length (named_parameters (unwrap_model (Actor example_engine False)))"
    by (rule t1 [THEN conjunct2, THEN conjunct2, THEN conjunct2, THEN conjunct2, THEN conjunct1,
          THEN mp, OF plain, THEN conjunct2])
  then have len: "length (fst (save_model example_strategy (rank_of 1 2) (Actor example_engine False) ''out.bin'')) = 2"
    by (simp only: un np) simp
  have same: "fst (save_model example_strategy (rank_of 1 2) (Actor example_engine False) ''out.bin'') =
       fst (save_model example_strategy (rank_of 0 2) (Actor example_engine False) ''out.bin'')"
    by (rule t1 [THEN conjunct2, THEN conjunct2, THEN conjunct1])
  have none: "snd (save_model example_strategy (rank_of 1 2) (Actor example_engine False) ''out.bin'') = ([], None)"
    using t1 r1 by blast
  from t0 r0 obtain out where
    o: "snd (save_model example_strategy (rank_of 0 2) (Actor example_engine False) ''out.bin'') =
          (out, Some (''out.bin'', out))"
    and v: "out = fold (\<lambda>(k, v) o'. AList.update k v o') (named_buffers (model_to_save (Actor example_engine False)))
                         (fold (\<lambda>(k, v) o'. AList.update k (data v) o')
                            (named_parameters (model_to_save (Actor example_engine False))) [])"
    by blast
  have "out = [(''w'', [1, 2]), (''b'', [3]), (''mask'', [1])]"
    unfolding v example_to_save np nb by simp
  with o have full: "snd (save_model example_strategy (rank_of 0 2) (Actor example_engine False) ''out.bin'') =
       ([(''w'', [1, 2]), (''b'', [3]), (''mask'', [1])],
        Some (''out.bin'', [(''w'', [1, 2]), (''b'', [3]), (''mask'', [1])]))"
    by simp
  have pu: "unwrap_model (Actor example_peft False) =
      Net [(''base_model.model.w'', \<lparr>data = [1, 2], requires_grad = False, ds_not_available = True\<rparr>),
          (''base_model.model.w.lora_A'', \<lparr>data = [1, 1], requires_grad = True, ds_not_available = True\<rparr>),
          (''base_model.model.w.lora_B'', \<lparr>data = [3, 4], requires_grad = True, ds_not_available = True\<rparr>)]
         [] False (Some example_merged)"
    by (simp add: example_peft_def)
  have "length (fst (save_model example_strategy (rank_of 1 2) (Actor example_peft False) ''out.bin'')) =
          length (named_parameters example_merged)"
    by (rule tp [THEN conjunct2, THEN conjunct2, THEN conjunct2, THEN conjunct1, THEN spec,
          THEN spec, THEN spec, THEN spec, THEN mp, OF pu, THEN conjunct2])
  then have peft: "length (fst (save_model example_strategy (rank_of 1 2) (Actor example_peft False) ''out.bin'')) = 1"
    by (simp add: example_merged_def)
  from st len same none full peft show ?thesis by (intro conjI)
qed
end
